theory Spec2Isabelle
  imports Complex_Main "HOL-Library.Sublist" "HOL-Library.Char_ord" "HOL-Library.List_Lexorder"
begin

section \<open>JavaScript values\<close>

text \<open>
  The orchestration code of ENTITY-X (the Electron main process and \<^verbatim>\<open>db.js\<close>) passes
  plain JavaScript objects around: the capture payload, the analyzers' JSON responses, the
  merged entity, the rows of the SQLite tables. They are modelled by one datatype of values.
  An object is the list of its property definitions in source order; a later definition of a
  key overrides an earlier one, as in an object literal, in a spread and in \<^verbatim>\<open>JSON.parse\<close>,
  so reading a property takes the last binding.
\<close>

datatype jsval =
    VUndef
  | VNull
  | VBool bool
  | VNum real
  | VStr string
  | VArr "jsval list"
  | VObj "(string \<times> jsval) list"

type_synonym obj = "(string \<times> jsval) list"

datatype error = TypeError | SyntaxError | RangeError | ShapeError | FetchError | SqliteError

definition lookup :: "obj \<Rightarrow> string \<Rightarrow> jsval" where
  \<comment> \<open>\<^verbatim>\<open>o.k\<close> on an object: \<^verbatim>\<open>undefined\<close> when the property is missing.\<close>
  "lookup ob k = (case map_of (rev ob) k of None \<Rightarrow> VUndef | Some v \<Rightarrow> v)"

fun truthy :: "jsval \<Rightarrow> bool" where
  "truthy VUndef = False"
| "truthy VNull = False"
| "truthy (VBool b) = b"
| "truthy (VNum r) = (r \<noteq> 0)"
| "truthy (VStr s) = (s \<noteq> [])"
| "truthy (VArr xs) = True"
| "truthy (VObj kvs) = True"

definition or_else :: "jsval \<Rightarrow> jsval \<Rightarrow> jsval" where
  \<comment> \<open>\<^verbatim>\<open>a || b\<close>\<close>
  "or_else a b = (if truthy a then a else b)"

definition nullish_or :: "jsval \<Rightarrow> jsval \<Rightarrow> jsval" where
  \<comment> \<open>\<^verbatim>\<open>a ?? b\<close>\<close>
  "nullish_or a b = (if a = VUndef \<or> a = VNull then b else a)"

definition lower_letters :: string where
  "lower_letters = ''abcdefghijklmnopqrstuvwxyz''"

definition upper_letters :: string where
  "upper_letters = ''ABCDEFGHIJKLMNOPQRSTUVWXYZ''"

definition upper_char :: "char \<Rightarrow> char" where
  \<comment> \<open>ASCII letters; every other character is left as it is.\<close>
  "upper_char c = (case map_of (zip lower_letters upper_letters) c of Some u \<Rightarrow> u | None \<Rightarrow> c)"

definition lower_char :: "char \<Rightarrow> char" where
  "lower_char c = (case map_of (zip upper_letters lower_letters) c of Some l \<Rightarrow> l | None \<Rightarrow> c)"

definition toUpperCase :: "jsval \<Rightarrow> error + string" where
  \<comment> \<open>\<^verbatim>\<open>v.toUpperCase()\<close>: a TypeError on anything but a string.\<close>
  "toUpperCase v = (case v of VStr s \<Rightarrow> Inr (map upper_char s) | _ \<Rightarrow> Inl TypeError)"

definition try_catch :: "error + 'a \<Rightarrow> (error \<Rightarrow> error + 'a) \<Rightarrow> error + 'a" where
  \<comment> \<open>\<^verbatim>\<open>try { blk } catch (err) { handler }\<close>\<close>
  "try_catch blk handler = (case blk of Inl e \<Rightarrow> handler e | Inr v \<Rightarrow> Inr v)"

fun own_props :: "jsval \<Rightarrow> obj" where
  \<comment> \<open>The properties that \<^verbatim>\<open>{...v}\<close> copies. A string or an array would give index keys;
      the analyzers answer with objects, and index keys are not modelled.\<close>
  "own_props (VObj kvs) = kvs"
| "own_props v = []"

subsection \<open>Dates\<close>

definition digit :: "nat \<Rightarrow> char" where
  "digit d = ''0123456789'' ! (d mod 10)"

definition pad2 :: "nat \<Rightarrow> string" where
  "pad2 n = [digit (n div 10), digit n]"

definition pad3 :: "nat \<Rightarrow> string" where
  "pad3 n = [digit (n div 100), digit (n div 10), digit n]"

definition pad4 :: "nat \<Rightarrow> string" where
  "pad4 n = [digit (n div 1000), digit (n div 100), digit (n div 10), digit n]"

definition pad6 :: "nat \<Rightarrow> string" where
  "pad6 n = [digit (n div 100000), digit (n div 10000), digit (n div 1000),
             digit (n div 100), digit (n div 10), digit n]"

definition civil_from_days :: "int \<Rightarrow> int \<times> nat \<times> nat" where
  \<comment> \<open>Year, month and day of the proleptic Gregorian calendar, from days since 1970-01-01.\<close>
  "civil_from_days days =
     (let z = days + 719468;
          era = z div 146097;
          doe = z mod 146097;
          yoe = (doe - doe div 1460 + doe div 36524 - doe div 146096) div 365;
          doy = doe - (365 * yoe + yoe div 4 - yoe div 100);
          mp = (5 * doy + 2) div 153;
          d = doy - (153 * mp + 2) div 5 + 1;
          m = (if mp < 10 then mp + 3 else mp - 9);
          y = yoe + era * 400 + (if m \<le> 2 then 1 else 0)
      in (y, nat m, nat d))"

definition toISOString :: "int \<Rightarrow> string" where
  \<comment> \<open>\<^verbatim>\<open>Date.prototype.toISOString\<close> of a valid time value (milliseconds since the epoch, UTC):
      \<^verbatim>\<open>YYYY-MM-DDTHH:mm:ss.sssZ\<close>, with a sign and six digits for a year outside 0..9999.\<close>
  "toISOString t =
     (let ms = nat (t mod 1000);
          secs = t div 1000;
          sod = nat (secs mod 86400);
          (y, m, d) = civil_from_days (secs div 86400);
          year = (if 0 \<le> y \<and> y \<le> 9999 then pad4 (nat y)
                  else (if y < 0 then ''-'' else ''+'') @ pad6 (nat \<bar>y\<bar>))
      in year @ ''-'' @ pad2 m @ ''-'' @ pad2 d @ ''T'' @ pad2 (sod div 3600) @ '':''
         @ pad2 (sod mod 3600 div 60) @ '':'' @ pad2 (sod mod 60) @ ''.'' @ pad3 ms @ ''Z'')"

fun replace_first :: "char \<Rightarrow> char \<Rightarrow> string \<Rightarrow> string" where
  \<comment> \<open>\<^verbatim>\<open>s.replace(a, b)\<close> with one-character strings: the first occurrence only.\<close>
  "replace_first a b [] = []"
| "replace_first a b (c # cs) = (if c = a then b # cs else c # replace_first a b cs)"

definition iso19 :: "int \<Rightarrow> string" where
  \<comment> \<open>\<^verbatim>\<open>date.toISOString().replace('T', ' ').slice(0, 19)\<close>\<close>
  "iso19 t = take 19 (replace_first CHR ''T'' CHR '' '' (toISOString t))"

definition nowIso :: "int \<Rightarrow> string" where
  \<comment> \<open>\<^verbatim>\<open>_nowIso()\<close>; the argument is the clock reading.\<close>
  "nowIso now = iso19 now"

definition time_value :: "(jsval \<Rightarrow> int option) \<Rightarrow> jsval \<Rightarrow> int option" where
  \<comment> \<open>The time value of \<^verbatim>\<open>new Date(v)\<close>; \<open>None\<close> is an invalid date. A number is truncated
      and must lie within 8.64e15 ms of the epoch. What the constructor makes of another value
      (it parses a string) is the runtime's and is the parameter \<open>dv\<close>.\<close>
  "time_value dv v =
     (case v of
        VNum r \<Rightarrow> (if \<bar>r\<bar> \<le> 8640000000000000 then Some (if 0 \<le> r then \<lfloor>r\<rfloor> else \<lceil>r\<rceil>) else None)
      | _ \<Rightarrow> dv v)"

section \<open>The runtime\<close>

text \<open>
  What the program takes from its runtime is collected in a record: the SHA-256
  digest in hexadecimal (\<^verbatim>\<open>crypto.createHash('sha256').update(s).digest('hex')\<close>), the
  protocol that \<^verbatim>\<open>new URL(u)\<close> finds (\<open>None\<close> when the constructor throws),
  \<^verbatim>\<open>JSON.parse\<close> on a provider's text (\<open>None\<close> when it throws), \<^verbatim>\<open>parseFloat\<close>, the
  time value of \<^verbatim>\<open>new Date(v)\<close> for a \<open>v\<close> that is not a number, and the text that
  SQLite makes of a floating-point number where it converts one to text (42 gives
  \<^verbatim>\<open>42.0\<close>).
\<close>

datatype jsnum = NaN | Fin real | PosInf | NegInf

record runtime =
  sha256_hex :: "string \<Rightarrow> string"
  url_protocol :: "string \<Rightarrow> string option"
  json_parse :: "string \<Rightarrow> jsval option"
  parse_float :: "jsval \<Rightarrow> jsnum"
  date_value :: "jsval \<Rightarrow> int option"
  real_text :: "real \<Rightarrow> string"

section \<open>The local database (db.js)\<close>

text \<open>
  A table is the list of its rows in insertion order, and a row is a record with one field
  per column. \<open>failing\<close> stands for the storage engine's condition: while it is set every
  statement raises (disk full, file locked or corrupt). The module variable \<^verbatim>\<open>_db\<close> is
  \<open>None\<close> until \<^verbatim>\<open>initDb\<close> succeeds.

  A column that the code fills with a string it has built is a \<open>string\<close>; a column that
  receives a caller's value is a \<open>jsval\<close>. better-sqlite3 binds a JavaScript number as a
  floating-point number, and SQLite turns a number that goes into a column of TEXT affinity
  into text: the table \<^verbatim>\<open>entities\<close>, which the program reads back, holds that text. The
  other tables, which the model only writes, keep a value as it is bound. The columns
  \<^verbatim>\<open>analysis_json\<close> and \<^verbatim>\<open>metadata\<close> hold JSON text; the model keeps the value that
  \<^verbatim>\<open>JSON.parse\<close> returns for that text, so \<open>json_roundtrip\<close> stands for
  \<^verbatim>\<open>JSON.stringify\<close> followed by \<^verbatim>\<open>JSON.parse\<close>.
\<close>

record entity_row =
  entity_id :: jsval
  entity_type :: string
  source_url :: jsval
  title :: jsval
  extracted_text :: jsval
  risk_level :: string
  analysis_json :: jsval
  detected_at :: string

record trust_row =
  t_id :: nat
  t_entity_id :: jsval
  trust_score :: jsval
  delta :: jsval
  t_timestamp :: string

record audit_row =
  event_id :: string
  event_type :: jsval
  a_entity_id :: jsval
  session_id :: jsval
  a_timestamp :: string
  metadata :: jsval

record legal_row =
  l_id :: nat
  l_entity_id :: jsval
  user_query :: jsval
  ai_response :: jsval
  session_type :: jsval
  l_timestamp :: string

record database =
  entities :: "entity_row list"
  trust_history :: "trust_row list"
  audit_log :: "audit_row list"
  legal_sessions :: "legal_row list"
  failing :: bool

definition empty_database :: database where
  \<comment> \<open>What \<^verbatim>\<open>_runMigrations\<close> leaves in a new file.\<close>
  "empty_database =
     \<lparr>entities = [], trust_history = [], audit_log = [], legal_sessions = [], failing = False\<rparr>"

definition bindable :: "jsval \<Rightarrow> bool" where
  \<comment> \<open>better-sqlite3 binds numbers, strings and null (bigints and buffers are not in the
      model) and raises a TypeError on anything else.\<close>
  "bindable v = (case v of VNum r \<Rightarrow> True | VStr s \<Rightarrow> True | VNull \<Rightarrow> True | _ \<Rightarrow> False)"

definition canonical :: "obj \<Rightarrow> obj" where
  \<comment> \<open>One binding per key, at the key's first position, with its last value.\<close>
  "canonical ob = map (\<lambda>k. (k, lookup ob k)) (remdups (map fst ob))"

fun json_roundtrip :: "jsval \<Rightarrow> jsval" where
  \<comment> \<open>\<^verbatim>\<open>JSON.parse(JSON.stringify(v))\<close>: a property whose value is \<^verbatim>\<open>undefined\<close> is dropped,
      an \<^verbatim>\<open>undefined\<close> array element becomes \<^verbatim>\<open>null\<close>.\<close>
  "json_roundtrip (VArr xs) =
     VArr (map (\<lambda>x. if x = VUndef then VNull else json_roundtrip x) xs)"
| "json_roundtrip (VObj kvs) =
     VObj (filter (\<lambda>kv. snd kv \<noteq> VUndef)
             (canonical (map (\<lambda>kv. (fst kv, json_roundtrip (snd kv))) kvs)))"
| "json_roundtrip v = v"

definition entity_types :: "string list" where
  \<comment> \<open>\<^verbatim>\<open>CHECK(entity_type IN ('IMAGE','NEWS','TEXT','UNKNOWN'))\<close>\<close>
  "entity_types = [''IMAGE'', ''NEWS'', ''TEXT'', ''UNKNOWN'']"

definition text_affinity :: "(real \<Rightarrow> string) \<Rightarrow> jsval \<Rightarrow> jsval" where
  \<comment> \<open>A bound value that is stored in a column of TEXT affinity, or compared with such a
      column: a number becomes the text that the engine makes of it, a string and NULL stay
      as they are.\<close>
  "text_affinity rtext v = (case v of VNum r \<Rightarrow> VStr (rtext r) | _ \<Rightarrow> v)"

definition stored_entity :: "(real \<Rightarrow> string) \<Rightarrow> entity_row \<Rightarrow> entity_row" where
  \<comment> \<open>The row that the table holds for the bound values: \<^verbatim>\<open>entity_id\<close>, \<^verbatim>\<open>source_url\<close>,
      \<^verbatim>\<open>title\<close> and \<^verbatim>\<open>extracted_text\<close> are TEXT columns that receive a caller's value. The
      date bound to \<^verbatim>\<open>detected_at\<close> (a DATETIME column, of NUMERIC affinity) is a text that is
      no number, and stays text.\<close>
  "stored_entity rtext r =
     r\<lparr>entity_id := text_affinity rtext (entity_id r),
       source_url := text_affinity rtext (source_url r),
       title := text_affinity rtext (title r),
       extracted_text := text_affinity rtext (extracted_text r)\<rparr>"

definition stmt_insertEntity ::
  "(real \<Rightarrow> string) \<Rightarrow> entity_row \<Rightarrow> database \<Rightarrow> error + database" where
  \<comment> \<open>\<^verbatim>\<open>INSERT OR REPLACE INTO entities (...) VALUES (...)\<close> with the bound values \<open>r\<close>: the
      row that holds the same \<^verbatim>\<open>entity_id\<close> is deleted and the new row inserted. A NULL key
      clashes with no row.\<close>
  "stmt_insertEntity rtext r d =
     (if failing d then Inl SqliteError
      else if \<not> list_all bindable [entity_id r, source_url r, title r, extracted_text r]
        then Inl TypeError
      else if entity_type r \<notin> set entity_types then Inl SqliteError
      else Inr (d\<lparr>entities :=
                   filter (\<lambda>old. entity_id (stored_entity rtext r) = VNull
                                 \<or> entity_id old \<noteq> entity_id (stored_entity rtext r)) (entities d)
                   @ [stored_entity rtext r]\<rparr>))"

definition stmt_insertTrust ::
  "jsval \<Rightarrow> jsval \<Rightarrow> jsval \<Rightarrow> string \<Rightarrow> database \<Rightarrow> error + database" where
  \<comment> \<open>\<^verbatim>\<open>INSERT INTO trust_history (entity_id, trust_score, delta, timestamp)\<close>; \<^verbatim>\<open>id\<close> is
      AUTOINCREMENT, \<^verbatim>\<open>entity_id\<close> and \<^verbatim>\<open>trust_score\<close> are NOT NULL.\<close>
  "stmt_insertTrust eid score dl ts d =
     (if failing d then Inl SqliteError
      else if \<not> list_all bindable [eid, score, dl] then Inl TypeError
      else if eid = VNull \<or> score = VNull then Inl SqliteError
      else Inr (d\<lparr>trust_history := trust_history d @
                   [\<lparr>t_id = Suc (length (trust_history d)), t_entity_id = eid,
                     trust_score = score, delta = dl, t_timestamp = ts\<rparr>]\<rparr>))"

definition stmt_insertAudit :: "audit_row \<Rightarrow> database \<Rightarrow> error + database" where
  \<comment> \<open>\<^verbatim>\<open>INSERT OR IGNORE INTO audit_log (...)\<close>: a row that would break the primary key
      \<^verbatim>\<open>event_id\<close> or \<^verbatim>\<open>event_type NOT NULL\<close> is skipped without an error.\<close>
  "stmt_insertAudit r d =
     (if failing d then Inl SqliteError
      else if \<not> list_all bindable [event_type r, a_entity_id r, session_id r] then Inl TypeError
      else if event_type r = VNull \<or> event_id r \<in> set (map event_id (audit_log d)) then Inr d
      else Inr (d\<lparr>audit_log := audit_log d @ [r]\<rparr>))"

definition stmt_insertLegal ::
  "jsval \<Rightarrow> jsval \<Rightarrow> jsval \<Rightarrow> jsval \<Rightarrow> string \<Rightarrow> database \<Rightarrow> error + database" where
  \<comment> \<open>\<^verbatim>\<open>INSERT INTO legal_sessions (entity_id, user_query, ai_response, session_type,
      timestamp)\<close>; \<^verbatim>\<open>id\<close> is AUTOINCREMENT.\<close>
  "stmt_insertLegal eid q a ty ts d =
     (if failing d then Inl SqliteError
      else if \<not> list_all bindable [eid, q, a, ty] then Inl TypeError
      else Inr (d\<lparr>legal_sessions := legal_sessions d @
                   [\<lparr>l_id = Suc (length (legal_sessions d)), l_entity_id = eid, user_query = q,
                     ai_response = a, session_type = ty, l_timestamp = ts\<rparr>]\<rparr>))"

definition ready :: "database option \<Rightarrow> bool" where
  \<comment> \<open>\<^verbatim>\<open>_ready()\<close>\<close>
  "ready db = (db \<noteq> None)"

definition run_stmt ::
  "(database \<Rightarrow> error + database) \<Rightarrow> database option \<Rightarrow> error + database option" where
  \<comment> \<open>\<^verbatim>\<open>_stmts.x.run(params)\<close>; without a database there is no prepared statement.\<close>
  "run_stmt stmt db =
     (case db of None \<Rightarrow> Inl TypeError
      | Some d \<Rightarrow> (case stmt d of Inl e \<Rightarrow> Inl e | Inr d' \<Rightarrow> Inr (Some d')))"

definition detectedIso :: "(jsval \<Rightarrow> int option) \<Rightarrow> int \<Rightarrow> obj \<Rightarrow> error + string" where
  \<comment> \<open>\<^verbatim>\<open>p.detected_at ? new Date(p.detected_at).toISOString().replace('T', ' ').slice(0, 19)
      : _nowIso()\<close>; \<^verbatim>\<open>toISOString\<close> raises a RangeError on an invalid date.\<close>
  "detectedIso dv now p =
     (if truthy (lookup p ''detected_at'')
      then (case time_value dv (lookup p ''detected_at'') of
              None \<Rightarrow> Inl RangeError | Some t \<Rightarrow> Inr (iso19 t))
      else Inr (nowIso now))"

definition entity_params :: "obj \<Rightarrow> string \<Rightarrow> string \<Rightarrow> string \<Rightarrow> entity_row" where
  \<comment> \<open>The object bound to \<^verbatim>\<open>_stmts.insertEntity\<close>, given the three strings computed for
      it.\<close>
  "entity_params p etype risk dstr =
     \<lparr>entity_id = or_else (lookup p ''entity_id'') (VStr ''unknown''),
      entity_type = etype,
      source_url = or_else (or_else (or_else (lookup p ''source_url'') (lookup p ''url''))
                                    (lookup p ''image_url'')) (VStr ''''),
      title = or_else (or_else (lookup p ''title'') (lookup p ''content_title'')) (VStr ''''),
      extracted_text = or_else (lookup p ''text'') (VStr ''''),
      risk_level = risk,
      analysis_json = json_roundtrip (or_else (lookup p ''analysis'') (VObj [])),
      detected_at = dstr\<rparr>"

definition entity_write :: "runtime \<Rightarrow> int \<Rightarrow> obj \<Rightarrow> database \<Rightarrow> error + database" where
  \<comment> \<open>The \<^verbatim>\<open>try\<close> block of \<^verbatim>\<open>insertEntity\<close> on the open database: the three strings are
      computed, then the statement runs.\<close>
  "entity_write rt now p d =
     (case detectedIso (date_value rt) now p of
        Inl e \<Rightarrow> Inl e
      | Inr dstr \<Rightarrow>
     (case toUpperCase (or_else (lookup p ''entity_type'') (VStr ''UNKNOWN'')) of
        Inl e \<Rightarrow> Inl e
      | Inr etype \<Rightarrow>
     (case toUpperCase (or_else (or_else (lookup p ''risk_level'')
                                         (lookup p ''misinformation_risk'')) (VStr ''LOW'')) of
        Inl e \<Rightarrow> Inl e
      | Inr risk \<Rightarrow> stmt_insertEntity (real_text rt) (entity_params p etype risk dstr) d)))"

definition insertEntity ::
  "runtime \<Rightarrow> int \<Rightarrow> obj \<Rightarrow> database option \<Rightarrow> error + database option" where
  \<comment> \<open>\<^verbatim>\<open>insertEntity(p)\<close>; \<open>now\<close> is the clock reading. The result is \<open>Inl\<close> when an
      exception leaves the function.\<close>
  "insertEntity rt now p db =
     (if \<not> ready db then Inr db
      else try_catch (run_stmt (entity_write rt now p) db) (\<lambda>err. Inr db))"

definition insertTrustHistory ::
  "int \<Rightarrow> jsval \<Rightarrow> jsval \<Rightarrow> jsval \<Rightarrow> database option \<Rightarrow> error + database option" where
  \<comment> \<open>\<^verbatim>\<open>insertTrustHistory(entityId, trustScore, delta = 0)\<close>: the default applies to an
      \<^verbatim>\<open>undefined\<close> argument.\<close>
  "insertTrustHistory now entityId trustScore dl db =
     (if \<not> ready db then Inr db
      else try_catch
        (run_stmt (stmt_insertTrust entityId trustScore (if dl = VUndef then VNum 0 else dl)
                     (nowIso now)) db)
        (\<lambda>err. Inr db))"

definition audit_params :: "int \<Rightarrow> string \<Rightarrow> jsval \<Rightarrow> jsval \<Rightarrow> jsval \<Rightarrow> jsval \<Rightarrow> audit_row" where
  \<comment> \<open>The object bound to \<^verbatim>\<open>_stmts.insertAudit\<close>; \<open>uuid\<close> is what \<^verbatim>\<open>_uuid()\<close> returns, made
      from the clock and \<^verbatim>\<open>Math.random()\<close>.\<close>
  "audit_params now uuid eventType entityId sessionId meta =
     \<lparr>event_id = uuid,
      event_type = eventType,
      a_entity_id = or_else entityId (VStr ''''),
      session_id = or_else sessionId (VStr ''''),
      a_timestamp = nowIso now,
      metadata = json_roundtrip (if meta = VUndef then VObj [] else meta)\<rparr>"

definition insertAuditLog ::
  "int \<Rightarrow> string \<Rightarrow> jsval \<Rightarrow> jsval \<Rightarrow> jsval \<Rightarrow> jsval \<Rightarrow> database option
     \<Rightarrow> error + database option" where
  \<comment> \<open>\<^verbatim>\<open>insertAuditLog(eventType, entityId = '', sessionId = '', metadata = {})\<close>\<close>
  "insertAuditLog now uuid eventType entityId sessionId meta db =
     (if \<not> ready db then Inr db
      else try_catch
        (run_stmt (stmt_insertAudit (audit_params now uuid eventType entityId sessionId meta)) db)
        (\<lambda>err. Inr db))"

definition insertLegalSession ::
  "int \<Rightarrow> jsval \<Rightarrow> jsval \<Rightarrow> jsval \<Rightarrow> jsval \<Rightarrow> database option \<Rightarrow> error + database option" where
  \<comment> \<open>\<^verbatim>\<open>insertLegalSession(entityId, userQuery, aiResponse, sessionType = 'LEGAL_CHAT')\<close>\<close>
  "insertLegalSession now entityId userQuery aiResponse sessionType db =
     (if \<not> ready db then Inr db
      else try_catch
        (run_stmt (stmt_insertLegal
           (or_else entityId (VStr ''''))
           (or_else userQuery (VStr ''''))
           (or_else aiResponse (VStr ''''))
           (if sessionType = VUndef then VStr ''LEGAL_CHAT'' else sessionType)
           (nowIso now)) db)
        (\<lambda>err. Inr db))"

subsection \<open>The database after a write helper\<close>

definition entity_written :: "runtime \<Rightarrow> int \<Rightarrow> obj \<Rightarrow> database \<Rightarrow> database" where
  \<comment> \<open>The open database after \<^verbatim>\<open>insertEntity(p)\<close>: unchanged when the write raised.\<close>
  "entity_written rt now p d =
     (case entity_write rt now p d of Inl err \<Rightarrow> d | Inr d' \<Rightarrow> d')"

definition trust_written :: "int \<Rightarrow> jsval \<Rightarrow> jsval \<Rightarrow> jsval \<Rightarrow> database \<Rightarrow> database" where
  "trust_written now entityId trustScore dl d =
     (case stmt_insertTrust entityId trustScore (if dl = VUndef then VNum 0 else dl)
             (nowIso now) d of Inl err \<Rightarrow> d | Inr d' \<Rightarrow> d')"

definition audit_written ::
  "int \<Rightarrow> string \<Rightarrow> jsval \<Rightarrow> jsval \<Rightarrow> jsval \<Rightarrow> jsval \<Rightarrow> database \<Rightarrow> database" where
  "audit_written now uuid eventType entityId sessionId meta d =
     (case stmt_insertAudit (audit_params now uuid eventType entityId sessionId meta) d of
        Inl err \<Rightarrow> d | Inr d' \<Rightarrow> d')"

subsection \<open>Read helpers\<close>

definition order_by_detected_desc :: "entity_row list \<Rightarrow> entity_row list" where
  \<comment> \<open>\<^verbatim>\<open>ORDER BY detected_at DESC\<close>, the text compared byte by byte; rows with equal
      \<^verbatim>\<open>detected_at\<close> stay in insertion order (SQLite leaves their order open).\<close>
  "order_by_detected_desc rows = rev (sort_key detected_at (rev rows))"

definition upper_or_null :: "jsval \<Rightarrow> error + string option" where
  \<comment> \<open>\<^verbatim>\<open>x ? x.toUpperCase() : null\<close>\<close>
  "upper_or_null x =
     (if truthy x
      then (case toUpperCase x of Inl e \<Rightarrow> Inl e | Inr s \<Rightarrow> Inr (Some s))
      else Inr None)"

definition select_entities ::
  "string option \<Rightarrow> string option \<Rightarrow> database \<Rightarrow> error + entity_row list" where
  \<comment> \<open>\<^verbatim>\<open>SELECT * FROM entities WHERE (@type IS NULL OR entity_type = @type) AND (@risk IS NULL
      OR risk_level = @risk)\<close>\<close>
  "select_entities t r d =
     (if failing d then Inl SqliteError
      else Inr (filter (\<lambda>row. (t = None \<or> Some (entity_type row) = t)
                            \<and> (r = None \<or> Some (risk_level row) = r)) (entities d)))"

definition queryEntities ::
  "jsval \<Rightarrow> jsval \<Rightarrow> int option \<Rightarrow> database option \<Rightarrow> entity_row list \<times> nat" where
  \<comment> \<open>\<^verbatim>\<open>queryEntities({ type = null, risk_level = null, limit = 500 })\<close>: the records and the
      total. Each record's \<^verbatim>\<open>analysis\<close> is the parsed \<^verbatim>\<open>analysis_json\<close>, which the model
      keeps in that field already.\<close>
  "queryEntities type risk limit db =
     (case db of None \<Rightarrow> ([], 0)
      | Some d \<Rightarrow>
        (case upper_or_null type of Inl e \<Rightarrow> ([], 0) | Inr t \<Rightarrow>
        (case upper_or_null risk of Inl e \<Rightarrow> ([], 0) | Inr r \<Rightarrow>
        (case select_entities t r d of Inl e \<Rightarrow> ([], 0)
         | Inr rows \<Rightarrow>
             (take (nat (max 1 (min (case limit of None \<Rightarrow> 500 | Some l \<Rightarrow> l) 2000)))
                   (order_by_detected_desc rows),
              length rows)))))"

definition getEntity :: "runtime \<Rightarrow> jsval \<Rightarrow> database option \<Rightarrow> entity_row option" where
  \<comment> \<open>\<^verbatim>\<open>getEntity(entityId)\<close>: \<^verbatim>\<open>SELECT * FROM entities WHERE entity_id = ?\<close>, first row;
      \<open>None\<close> is \<^verbatim>\<open>null\<close>. The bound value is compared with a TEXT column, so a number
      is compared as the text that the engine makes of it.\<close>
  "getEntity rt entityId db =
     (case db of None \<Rightarrow> None
      | Some d \<Rightarrow>
          if \<not> truthy entityId then None
          else if failing d \<or> \<not> bindable entityId then None
          else find (\<lambda>row. entity_id row = text_affinity (real_text rt) entityId)
                    (entities d))"

section \<open>The main process\<close>

record response =
  ok :: bool
  status :: nat
  body :: "error + jsval"

definition isValidHttpUrl :: "runtime \<Rightarrow> string \<Rightarrow> bool" where
  "isValidHttpUrl rt url =
     (case url_protocol rt url of
        None \<Rightarrow> False
      | Some protocol \<Rightarrow> protocol = ''http:'' \<or> protocol = ''https:'')"

definition digest16 :: "runtime \<Rightarrow> string \<Rightarrow> string" where
  \<comment> \<open>\<^verbatim>\<open>crypto.createHash('sha256').update(s).digest('hex').substring(0, 16)\<close>\<close>
  "digest16 rt s = take 16 (sha256_hex rt s)"

subsection \<open>The enrichment analyzer\<close>

fun opt_get :: "jsval \<Rightarrow> string \<Rightarrow> jsval" where
  \<comment> \<open>\<^verbatim>\<open>v?.k\<close> for a key that no prototype defines.\<close>
  "opt_get (VObj kvs) k = lookup kvs k"
| "opt_get v k = VUndef"

fun opt_first :: "jsval \<Rightarrow> jsval" where
  \<comment> \<open>\<^verbatim>\<open>v?.[0]\<close>\<close>
  "opt_first (VArr (x # xs)) = x"
| "opt_first (VStr (c # cs)) = VStr [c]"
| "opt_first (VObj kvs) = lookup kvs ''0''"
| "opt_first v = VUndef"

definition is_letter :: "char \<Rightarrow> bool" where
  "is_letter c = (c \<in> set (lower_letters @ upper_letters))"

definition is_space :: "char \<Rightarrow> bool" where
  \<comment> \<open>The ASCII white space that \<^verbatim>\<open>trim\<close> removes: tab, line feed, vertical tab, form
      feed, carriage return, space.\<close>
  "is_space c = (c \<in> set [CHR 0x09, CHR 0x0A, CHR 0x0B, CHR 0x0C, CHR 0x0D, CHR 0x20])"

definition trim :: "string \<Rightarrow> string" where
  "trim s = rev (dropWhile is_space (rev (dropWhile is_space s)))"

definition strip_open_fence :: "string \<Rightarrow> string" where
  \<comment> \<open>\<^verbatim>\<open>raw.replace(/^```[a-z]*\n?/i, '')\<close>\<close>
  "strip_open_fence s =
     (if prefix ''```'' s
      then (let r = dropWhile is_letter (drop 3 s)
            in (case r of c # cs \<Rightarrow> if c = CHR 0x0A then cs else r | [] \<Rightarrow> r))
      else s)"

definition strip_close_fence :: "string \<Rightarrow> string" where
  \<comment> \<open>\<^verbatim>\<open>.replace(/\n?```$/i, '')\<close>\<close>
  "strip_close_fence s =
     (if suffix ''```'' s
      then (let r = take (length s - 3) s
            in if r \<noteq> [] \<and> last r = CHR 0x0A then butlast r else r)
      else s)"

definition unit_clamp :: "jsnum \<Rightarrow> real \<Rightarrow> real" where
  \<comment> \<open>\<^verbatim>\<open>Math.max(0, Math.min(1, x || dflt))\<close>\<close>
  "unit_clamp x dflt =
     (case x of
        NaN \<Rightarrow> max 0 (min 1 dflt)
      | Fin r \<Rightarrow> max 0 (min 1 (if r = 0 then dflt else r))
      | PosInf \<Rightarrow> 1
      | NegInf \<Rightarrow> 0)"

record gemini_result =
  g_ai_generated_probability :: real
  g_misinformation_risk :: string
  g_credibility_score :: real
  g_forensic_explanation :: "jsval list"
  g_ai_summary :: string
  g_topic :: jsval
  g_key_claims :: "jsval list"

definition array_slice :: "nat \<Rightarrow> jsval \<Rightarrow> jsval list" where
  \<comment> \<open>\<^verbatim>\<open>Array.isArray(v) ? v.slice(0, n) : []\<close>\<close>
  "array_slice n v = (case v of VArr xs \<Rightarrow> take n xs | _ \<Rightarrow> [])"

definition gemini_of_parsed :: "runtime \<Rightarrow> jsval \<Rightarrow> error + gemini_result option" where
  \<comment> \<open>From \<^verbatim>\<open>parsed\<close> to the returned object. \<^verbatim>\<open>parsed.summary\<close> on \<^verbatim>\<open>null\<close> is a
      TypeError; a summary that is not a string is the error 'Unexpected response shape'.\<close>
  "gemini_of_parsed rt parsed =
     (if parsed = VNull \<or> parsed = VUndef then Inl TypeError
      else (case opt_get parsed ''summary'' of
        VStr summary \<Rightarrow>
          Inr (Some
            \<lparr>g_ai_generated_probability =
               unit_clamp (parse_float rt (opt_get parsed ''ai_generated_probability'')) 0,
             g_misinformation_risk =
               (case opt_get parsed ''misinformation_risk'' of
                  VStr r \<Rightarrow> if r \<in> set [''LOW'', ''MEDIUM'', ''HIGH''] then r else ''LOW''
                | _ \<Rightarrow> ''LOW''),
             g_credibility_score =
               unit_clamp (parse_float rt (opt_get parsed ''credibility_score'')) 0.5,
             g_forensic_explanation = array_slice 6 (opt_get parsed ''forensic_explanation''),
             g_ai_summary = summary,
             g_topic = or_else (opt_get parsed ''topic'') (VStr ''General''),
             g_key_claims = array_slice 5 (opt_get parsed ''key_claims'')\<rparr>)
      | _ \<Rightarrow> Inl ShapeError))"

definition candidate_text :: "jsval \<Rightarrow> jsval" where
  \<comment> \<open>\<^verbatim>\<open>data?.candidates?.[0]?.content?.parts?.[0]?.text || ''\<close>\<close>
  "candidate_text data =
     or_else (opt_get (opt_first (opt_get (opt_get (opt_first
                (opt_get data ''candidates'')) ''content'') ''parts'')) ''text'')
             (VStr '''')"

definition clean_reply :: "string \<Rightarrow> string" where
  \<comment> \<open>\<^verbatim>\<open>raw.replace(/^```[a-z]*\n?/i, '').replace(/\n?```$/i, '').trim()\<close>\<close>
  "clean_reply raw = trim (strip_close_fence (strip_open_fence raw))"

definition callGeminiAnalysis ::
  "runtime \<Rightarrow> string \<Rightarrow> error + response \<Rightarrow> error + gemini_result option" where
  \<comment> \<open>\<^verbatim>\<open>callGeminiAnalysis(title, url, text)\<close>. The three arguments go into the prompt only;
      what the model takes instead is the configured key and the outcome of the request
      (\<open>Inl\<close> when \<^verbatim>\<open>fetch\<close> rejects: network error or the 25 s timeout). \<open>Inr None\<close> is
      \<^verbatim>\<open>null\<close>; \<open>Inl\<close> would be a rejected promise. \<^verbatim>\<open>raw.replace\<close> is a TypeError
      when \<^verbatim>\<open>raw\<close> is not a string.\<close>
  "callGeminiAnalysis rt api_key fetched =
     (if api_key = [] then Inr None
      else try_catch
        (case fetched of
           Inl e \<Rightarrow> Inl e
         | Inr res \<Rightarrow>
             if \<not> ok res then Inr None
             else (case body res of
               Inl e \<Rightarrow> Inl e
             | Inr data \<Rightarrow>
               (case candidate_text data of
                  VStr raw \<Rightarrow>
                    (case json_parse rt (clean_reply raw) of
                       None \<Rightarrow> Inl SyntaxError
                     | Some parsed \<Rightarrow> gemini_of_parsed rt parsed)
                | _ \<Rightarrow> Inl TypeError)))
        (\<lambda>err. Inr None))"

subsection \<open>State of the main process\<close>

text \<open>
  \<open>ENTITY_CACHE\<close> is the module's \<^verbatim>\<open>Map\<close>, \<open>seenImageUrls\<close> the \<^verbatim>\<open>Set\<close>
  \<^verbatim>\<open>_seenImageUrls\<close>, \<open>sent\<close> the messages passed to \<^verbatim>\<open>webContents.send\<close> so far, and
  \<open>mainWindow\<close> tells whether \<^verbatim>\<open>_mainWindow\<close> is set and not destroyed. A handler takes
  the outcome of each request it awaits as an argument, reads the clock once (\<open>now\<close>), and
  gets the identifier that \<^verbatim>\<open>_uuid()\<close> would give to its audit event (\<open>uuid\<close>); \<open>sid\<close> is
  \<^verbatim>\<open>IMAGE_MONITOR_SESSION_ID\<close>. An exception carries the state reached when it is thrown.
\<close>

record world =
  db :: "database option"
  ENTITY_CACHE :: "jsval \<Rightarrow> obj option"
  seenImageUrls :: "string set"
  sent :: "(string \<times> obj) list"
  mainWindow :: bool

record text_payload =
  tp_title :: string
  tp_url :: string
  tp_text :: string
  tp_word_count :: real
  tp_timestamp :: real

definition payload_props :: "text_payload \<Rightarrow> obj" where
  \<comment> \<open>The capture as the renderer sends it: \<^verbatim>\<open>{ title, url, text, word_count, timestamp }\<close>.\<close>
  "payload_props tp =
     [(''title'', VStr (tp_title tp)), (''url'', VStr (tp_url tp)), (''text'', VStr (tp_text tp)),
      (''word_count'', VNum (tp_word_count tp)), (''timestamp'', VNum (tp_timestamp tp))]"

fun message :: "error \<Rightarrow> string" where
  \<comment> \<open>\<^verbatim>\<open>err.message\<close>\<close>
  "message TypeError = ''TypeError''"
| "message SyntaxError = ''SyntaxError''"
| "message RangeError = ''RangeError''"
| "message ShapeError = ''Unexpected response shape''"
| "message FetchError = ''fetch failed''"
| "message SqliteError = ''SqliteError''"

definition with_db ::
  "world \<Rightarrow> error + database option \<Rightarrow> (world \<Rightarrow> (error \<times> world) + 'a)
     \<Rightarrow> (error \<times> world) + 'a" where
  \<comment> \<open>A call of a \<^verbatim>\<open>db.*\<close> write helper followed by the rest of the block.\<close>
  "with_db w r rest =
     (case r of Inl e \<Rightarrow> Inl (e, w) | Inr db' \<Rightarrow> rest (w\<lparr>db := db'\<rparr>))"

definition analysis_failed ::
  "int \<Rightarrow> string \<Rightarrow> string \<Rightarrow> string \<Rightarrow> string \<Rightarrow> error \<times> world \<Rightarrow> error + world" where
  \<comment> \<open>The \<^verbatim>\<open>catch\<close> block of both capture handlers:
      \<^verbatim>\<open>db.insertAuditLog('ANALYSIS_FAILED', '', IMAGE_MONITOR_SESSION_ID, { type, url, error })\<close>.\<close>
  "analysis_failed now uuid sid kind url ew =
     (case insertAuditLog now uuid (VStr ''ANALYSIS_FAILED'') (VStr '''') (VStr sid)
             (VObj [(''type'', VStr kind), (''url'', VStr url),
                    (''error'', VStr (take 120 (message (fst ew))))]) (db (snd ew)) of
        Inl e \<Rightarrow> Inl e
      | Inr db' \<Rightarrow> Inr ((snd ew)\<lparr>db := db'\<rparr>))"

definition try_catch_world ::
  "(error \<times> world) + world \<Rightarrow> (error \<times> world \<Rightarrow> error + world) \<Rightarrow> error + world" where
  "try_catch_world blk handler = (case blk of Inl ew \<Rightarrow> handler ew | Inr w \<Rightarrow> Inr w)"

subsection \<open>Image captures\<close>

definition image_entity_id :: "runtime \<Rightarrow> string \<Rightarrow> string" where
  "image_entity_id rt imageUrl = digest16 rt (''image-'' @ imageUrl)"

definition image_entity :: "string \<Rightarrow> string \<Rightarrow> jsval \<Rightarrow> int \<Rightarrow> obj" where
  \<comment> \<open>The object stored in \<open>ENTITY_CACHE\<close>.\<close>
  "image_entity entityId imageUrl analysis now =
     [(''entity_id'', VStr entityId),
      (''entity_type'', VStr ''IMAGE''),
      (''image_url'', VStr imageUrl),
      (''fake_probability'', opt_get analysis ''fake_probability''),
      (''risk_level'', opt_get analysis ''risk_level''),
      (''forensic_explanation'', nullish_or (opt_get analysis ''forensic_explanation'') (VArr [])),
      (''trust_score'', opt_get analysis ''trust_score''),
      (''trust_score_delta'', opt_get analysis ''trust_score_delta''),
      (''session_id'', opt_get analysis ''session_id''),
      (''detected_at'', VNum (real_of_int now))]"

definition image_params :: "string \<Rightarrow> string \<Rightarrow> jsval \<Rightarrow> obj" where
  \<comment> \<open>The argument of \<^verbatim>\<open>db.insertEntity\<close>.\<close>
  "image_params entityId imageUrl analysis =
     [(''entity_id'', VStr entityId),
      (''entity_type'', VStr ''IMAGE''),
      (''source_url'', VStr imageUrl),
      (''risk_level'', opt_get analysis ''risk_level''),
      (''analysis'', VObj
         [(''fake_probability'', opt_get analysis ''fake_probability''),
          (''trust_score'', opt_get analysis ''trust_score''),
          (''forensic_explanation'',
             nullish_or (opt_get analysis ''forensic_explanation'') (VArr []))])]"

definition image_event :: "string \<Rightarrow> string \<Rightarrow> jsval \<Rightarrow> int \<Rightarrow> obj" where
  \<comment> \<open>The payload of \<^verbatim>\<open>image-monitor:analysis\<close>.\<close>
  "image_event entityId imageUrl analysis now =
     [(''entity_id'', VStr entityId),
      (''image_url'', VStr imageUrl),
      (''fake_probability'', opt_get analysis ''fake_probability''),
      (''risk_level'', opt_get analysis ''risk_level''),
      (''forensic_explanation'', nullish_or (opt_get analysis ''forensic_explanation'') (VArr [])),
      (''trust_score'', opt_get analysis ''trust_score''),
      (''trust_score_delta'', opt_get analysis ''trust_score_delta''),
      (''session_id'', opt_get analysis ''session_id''),
      (''analyzed_at'', VNum (real_of_int now))]"

definition image_store ::
  "runtime \<Rightarrow> string \<Rightarrow> int \<Rightarrow> string \<Rightarrow> string \<Rightarrow> jsval \<Rightarrow> world \<Rightarrow> (error \<times> world) + world" where
  \<comment> \<open>From \<^verbatim>\<open>ENTITY_CACHE.set\<close> to \<^verbatim>\<open>senderWebContents.send\<close>.\<close>
  "image_store rt sid now uuid imageUrl analysis w =
     (let entityId = image_entity_id rt imageUrl;
          w1 = w\<lparr>ENTITY_CACHE :=
                  (ENTITY_CACHE w)(VStr entityId \<mapsto> image_entity entityId imageUrl analysis now)\<rparr>
      in with_db w1 (insertEntity rt now
                       (image_params entityId imageUrl analysis) (db w1)) (\<lambda>w2.
         with_db w2 (insertTrustHistory now (VStr entityId)
                       (nullish_or (opt_get analysis ''trust_score'') (VNum 0))
                       (nullish_or (opt_get analysis ''trust_score_delta'') (VNum 0)) (db w2)) (\<lambda>w3.
         with_db w3 (insertAuditLog now uuid (VStr ''ENTITY_DETECTED'') (VStr entityId) (VStr sid)
                       (VObj [(''type'', VStr ''IMAGE''),
                              (''risk_level'', opt_get analysis ''risk_level''),
                              (''fake_probability'', opt_get analysis ''fake_probability'')])
                       (db w3)) (\<lambda>w4.
         Inr (w4\<lparr>sent := sent w4 @
                  [(''image-monitor:analysis'', image_event entityId imageUrl analysis now)]\<rparr>)))))"

definition postImageUrlToBackend ::
  "runtime \<Rightarrow> string \<Rightarrow> int \<Rightarrow> string \<Rightarrow> string \<Rightarrow> error + response \<Rightarrow> bool \<Rightarrow> world
     \<Rightarrow> error + world" where
  \<comment> \<open>\<^verbatim>\<open>postImageUrlToBackend(imageUrl, senderWebContents)\<close>; \<open>fetched\<close> is the outcome of
      the request to the image analyzer, \<open>destroyed\<close> what \<^verbatim>\<open>senderWebContents.isDestroyed()\<close>
      answers. \<^verbatim>\<open>analysis.risk_level\<close> in the log line is a TypeError when the body is
      \<^verbatim>\<open>null\<close>.\<close>
  "postImageUrlToBackend rt sid now uuid imageUrl fetched destroyed w =
     (if \<not> isValidHttpUrl rt imageUrl then Inr w
      else try_catch_world
        (case fetched of
           Inl e \<Rightarrow> Inl (e, w)
         | Inr res \<Rightarrow>
             if \<not> ok res then Inr w
             else (case body res of
               Inl e \<Rightarrow> Inl (e, w)
             | Inr analysis \<Rightarrow>
                 if analysis = VNull \<or> analysis = VUndef then Inl (TypeError, w)
                 else if destroyed then Inr w
                 else image_store rt sid now uuid imageUrl analysis w))
        (analysis_failed now uuid sid ''IMAGE'' imageUrl))"

subsection \<open>Text captures\<close>

definition text_entity_id :: "runtime \<Rightarrow> text_payload \<Rightarrow> string" where
  "text_entity_id rt tp = digest16 rt (''text-'' @ tp_url tp @ ''-'' @ tp_title tp)"

definition gemini_overrides :: "gemini_result option \<Rightarrow> obj" where
  \<comment> \<open>\<^verbatim>\<open>...(gemini ? { ... } : { ai_summary: null, topic: null, key_claims: [] })\<close>\<close>
  "gemini_overrides gemini =
     (case gemini of
        Some g \<Rightarrow>
          [(''ai_generated_probability'', VNum (g_ai_generated_probability g)),
           (''misinformation_risk'', VStr (g_misinformation_risk g)),
           (''credibility_score'', VNum (g_credibility_score g)),
           (''explanation'', VArr (g_forensic_explanation g)),
           (''ai_summary'', VStr (g_ai_summary g)),
           (''topic'', g_topic g),
           (''key_claims'', VArr (g_key_claims g))]
      | None \<Rightarrow>
          [(''ai_summary'', VNull), (''topic'', VNull), (''key_claims'', VArr [])])"

definition text_entity ::
  "string \<Rightarrow> text_payload \<Rightarrow> jsval \<Rightarrow> gemini_result option \<Rightarrow> int \<Rightarrow> obj" where
  \<comment> \<open>\<^verbatim>\<open>{ entity_id, entity_type: 'TEXT', ...textPayload, ...analysis, ...(gemini ? ...),
      detected_at: Date.now() }\<close>\<close>
  "text_entity entityId tp analysis gemini now =
     [(''entity_id'', VStr entityId), (''entity_type'', VStr ''TEXT'')]
     @ payload_props tp @ own_props analysis @ gemini_overrides gemini
     @ [(''detected_at'', VNum (real_of_int now))]"

definition text_params :: "string \<Rightarrow> obj \<Rightarrow> obj" where
  \<comment> \<open>The argument of \<^verbatim>\<open>db.insertEntity\<close>.\<close>
  "text_params entityId entity =
     [(''entity_id'', VStr entityId),
      (''entity_type'', VStr ''TEXT''),
      (''source_url'', lookup entity ''url''),
      (''title'', lookup entity ''content_title''),
      (''text'', nullish_or (lookup entity ''text'') (VStr '''')),
      (''risk_level'', lookup entity ''misinformation_risk''),
      (''analysis'', VObj
         [(''ai_generated_probability'', lookup entity ''ai_generated_probability''),
          (''credibility_score'', lookup entity ''credibility_score''),
          (''trust_score'', lookup entity ''trust_score'')])]"

definition text_event :: "string \<Rightarrow> text_payload \<Rightarrow> jsval \<Rightarrow> obj \<Rightarrow> int \<Rightarrow> obj" where
  \<comment> \<open>The payload of \<^verbatim>\<open>text-monitor:analysis\<close>.\<close>
  "text_event entityId tp analysis entity now =
     [(''entity_id'', VStr entityId),
      (''entity_type'', VStr ''TEXT''),
      (''content_title'', VStr (tp_title tp)),
      (''url'', VStr (tp_url tp)),
      (''word_count'', VNum (tp_word_count tp)),
      (''ai_generated_probability'', lookup entity ''ai_generated_probability''),
      (''misinformation_risk'', lookup entity ''misinformation_risk''),
      (''credibility_score'', lookup entity ''credibility_score''),
      (''explanation'', nullish_or (lookup entity ''explanation'') (VArr [])),
      (''trust_score'', opt_get analysis ''trust_score''),
      (''trust_score_delta'', opt_get analysis ''trust_score_delta''),
      (''session_id'', opt_get analysis ''session_id''),
      (''ai_summary'', lookup entity ''ai_summary''),
      (''topic'', lookup entity ''topic''),
      (''key_claims'', lookup entity ''key_claims''),
      (''analyzed_at'', VNum (real_of_int now))]"

definition text_store ::
  "runtime \<Rightarrow> string \<Rightarrow> int \<Rightarrow> string \<Rightarrow> text_payload \<Rightarrow> jsval \<Rightarrow> gemini_result option
     \<Rightarrow> world \<Rightarrow> (error \<times> world) + world" where
  \<comment> \<open>From \<^verbatim>\<open>ENTITY_CACHE.set\<close> to \<^verbatim>\<open>senderWebContents.send\<close>.\<close>
  "text_store rt sid now uuid tp analysis gemini w =
     (let entityId = text_entity_id rt tp;
          entity = text_entity entityId tp analysis gemini now;
          w1 = w\<lparr>ENTITY_CACHE := (ENTITY_CACHE w)(VStr entityId \<mapsto> entity)\<rparr>
      in with_db w1 (insertEntity rt now (text_params entityId entity) (db w1)) (\<lambda>w2.
         with_db w2 (insertTrustHistory now (VStr entityId)
                       (nullish_or (lookup entity ''trust_score'') (VNum 0))
                       (nullish_or (lookup entity ''trust_score_delta'') (VNum 0)) (db w2)) (\<lambda>w3.
         with_db w3 (insertAuditLog now uuid (VStr ''ENTITY_DETECTED'') (VStr entityId) (VStr sid)
                       (VObj [(''type'', VStr ''TEXT''),
                              (''risk_level'', lookup entity ''misinformation_risk'')])
                       (db w3)) (\<lambda>w4.
         Inr (w4\<lparr>sent := sent w4 @
                  [(''text-monitor:analysis'', text_event entityId tp analysis entity now)]\<rparr>)))))"

definition postTextToBackend ::
  "runtime \<Rightarrow> string \<Rightarrow> int \<Rightarrow> string \<Rightarrow> string \<Rightarrow> text_payload \<Rightarrow> error + response
     \<Rightarrow> error + response \<Rightarrow> bool \<Rightarrow> world \<Rightarrow> error + world" where
  \<comment> \<open>\<^verbatim>\<open>postTextToBackend(textPayload, senderWebContents)\<close>; \<open>fetched\<close> is the outcome of the
      request to the primary text analyzer, \<open>gfetched\<close> that of the request made inside
      \<^verbatim>\<open>callGeminiAnalysis\<close>, both awaited by \<^verbatim>\<open>Promise.all\<close>. The payload is an object by
      its type. \<^verbatim>\<open>analysis.misinformation_risk\<close> in the log line is a TypeError when the
      body is \<^verbatim>\<open>null\<close>.\<close>
  "postTextToBackend rt sid now uuid api_key tp fetched gfetched destroyed w =
     (if \<not> isValidHttpUrl rt (tp_url tp) then Inr w
      else try_catch_world
        (case fetched of
           Inl e \<Rightarrow> Inl (e, w)
         | Inr res \<Rightarrow>
        (case callGeminiAnalysis rt api_key gfetched of
           Inl e \<Rightarrow> Inl (e, w)
         | Inr gemini \<Rightarrow>
             if \<not> ok res then Inr w
             else (case body res of
               Inl e \<Rightarrow> Inl (e, w)
             | Inr analysis \<Rightarrow>
                 if analysis = VNull \<or> analysis = VUndef then Inl (TypeError, w)
                 else if destroyed then Inr w
                 else text_store rt sid now uuid tp analysis gemini w)))
        (analysis_failed now uuid sid ''TEXT'' (tp_url tp)))"

subsection \<open>Manual text analysis\<close>

fun dec :: "nat \<Rightarrow> string" where
  \<comment> \<open>The decimal digits of a natural number.\<close>
  "dec n = (if n < 10 then [digit n] else dec (n div 10) @ [digit n])"

declare dec.simps [simp del]

definition show_int :: "int \<Rightarrow> string" where
  \<comment> \<open>An integer inside a template literal.\<close>
  "show_int i = (if i < 0 then ''-'' @ dec (nat (- i)) else dec (nat i))"

definition manual_text_key :: "int \<Rightarrow> string \<Rightarrow> string" where
  \<comment> \<open>\<^verbatim>\<open>`text-manual-${Date.now()}-${text.substring(0, 30)}`\<close>\<close>
  "manual_text_key now text = ''text-manual-'' @ show_int now @ ''-'' @ take 30 text"

definition manual_text_entity ::
  "string \<Rightarrow> string \<Rightarrow> jsval \<Rightarrow> gemini_result option \<Rightarrow> int \<Rightarrow> obj" where
  "manual_text_entity entityId resolvedTitle analysis gemini now =
     [(''entity_id'', VStr entityId),
      (''entity_type'', VStr ''TEXT''),
      (''content_title'', VStr resolvedTitle),
      (''url'', VStr ''manual://input''),
      (''detected_at'', VNum (real_of_int now))]
     @ own_props analysis @ gemini_overrides gemini"

definition manual_text_params :: "string \<Rightarrow> string \<Rightarrow> string \<Rightarrow> obj \<Rightarrow> obj" where
  "manual_text_params entityId resolvedTitle text entity =
     [(''entity_id'', VStr entityId),
      (''entity_type'', VStr ''TEXT''),
      (''source_url'', VStr ''manual://input''),
      (''title'', VStr resolvedTitle),
      (''text'', VStr text),
      (''risk_level'', lookup entity ''misinformation_risk''),
      (''analysis'', VObj entity),
      (''detected_at'', lookup entity ''detected_at'')]"

definition analyze_manual_text ::
  "runtime \<Rightarrow> int \<Rightarrow> string \<Rightarrow> string \<Rightarrow> string \<Rightarrow> string \<Rightarrow> error + response
     \<Rightarrow> error + response \<Rightarrow> world \<Rightarrow> world \<times> obj" where
  \<comment> \<open>The handler of \<^verbatim>\<open>analyze:manual-text\<close> with \<^verbatim>\<open>{ text, title }\<close>: the state after it
      and the object it answers with.\<close>
  "analyze_manual_text rt now uuid api_key text ttl fetched gfetched w =
     (case
        (case fetched of
           Inl e \<Rightarrow> Inl (e, w)
         | Inr res \<Rightarrow>
        (case callGeminiAnalysis rt api_key gfetched of
           Inl e \<Rightarrow> Inl (e, w)
         | Inr gemini \<Rightarrow>
             if \<not> ok res
             then Inr (w, [(''success'', VBool False),
                           (''error'', VStr (''HTTP '' @ dec (status res)))])
             else (case body res of
               Inl e \<Rightarrow> Inl (e, w)
             | Inr analysis \<Rightarrow>
                 (let resolvedTitle = (if ttl = [] then ''Manual Text Input'' else ttl);
                      entityId = digest16 rt (manual_text_key now text);
                      entity = manual_text_entity entityId resolvedTitle analysis gemini now;
                      w1 = w\<lparr>ENTITY_CACHE := (ENTITY_CACHE w)(VStr entityId \<mapsto> entity)\<rparr>
                  in with_db w1 (insertEntity rt now
                                   (manual_text_params entityId resolvedTitle text entity) (db w1))
                       (\<lambda>w2.
                     with_db w2 (insertTrustHistory now (VStr entityId)
                                   (nullish_or (lookup entity ''trust_score'') (VNum 0))
                                   (nullish_or (lookup entity ''trust_score_delta'') (VNum 0))
                                   (db w2)) (\<lambda>w3.
                     with_db w3 (insertAuditLog now uuid (VStr ''MANUAL_ANALYSIS'') (VStr entityId)
                                   (VStr '''')
                                   (VObj [(''type'', VStr ''TEXT''),
                                          (''source'', VStr ''manual_text'')]) (db w3)) (\<lambda>w4.
                     Inr (w4, [(''success'', VBool True), (''entity'', VObj entity)]))))))))
      of Inl ew \<Rightarrow> (snd ew, [(''success'', VBool False), (''error'', VStr (message (fst ew)))])
       | Inr r \<Rightarrow> r)"

subsection \<open>The image interceptor and the navigation epoch\<close>

record details =
  d_url :: string
  statusCode :: int
  responseHeaders :: "string \<Rightarrow> string list option"
  resourceType :: string

definition content_type :: "details \<Rightarrow> string" where
  \<comment> \<open>\<^verbatim>\<open>(h['content-type'] || h['Content-Type'] || [])[0] || ''\<close>\<close>
  "content_type d =
     (case (case responseHeaders d ''content-type'' of
              Some vs \<Rightarrow> vs
            | None \<Rightarrow> (case responseHeaders d ''Content-Type'' of Some vs \<Rightarrow> vs | None \<Rightarrow> [])) of
        [] \<Rightarrow> ''''
      | v # vs \<Rightarrow> v)"

definition mime_of :: "string \<Rightarrow> string" where
  \<comment> \<open>\<^verbatim>\<open>ct.split(';')[0].trim().toLowerCase()\<close>\<close>
  "mime_of ct = map lower_char (trim (takeWhile (\<lambda>c. c \<noteq> CHR '';'') ct))"

definition image_exts :: "string list" where
  "image_exts = [''jpg'', ''jpeg'', ''png'', ''webp'', ''gif'', ''avif'', ''bmp'']"

definition has_image_ext :: "string \<Rightarrow> bool" where
  \<comment> \<open>\<^verbatim>\<open>/\.(jpg|jpeg|png|webp|gif|avif|bmp)(\?|$)/i.test(url)\<close>\<close>
  "has_image_ext url =
     list_ex (\<lambda>ext. suffix (''.'' @ ext) (map lower_char url)
                   \<or> sublist (''.'' @ ext @ ''?'') (map lower_char url)) image_exts"

definition isImage :: "details \<Rightarrow> bool" where
  \<comment> \<open>The first test is \<^verbatim>\<open>/^image\/(jpeg|jpg|png|webp|gif|avif|bmp)$/i.test(mime)\<close>.\<close>
  "isImage d =
     (mime_of (content_type d) \<in> set (map (\<lambda>ext. ''image/'' @ ext) image_exts)
      \<or> has_image_ext (d_url d)
      \<or> resourceType d = ''image'')"

datatype event = Completed details | ImageUrl string | Navigated

definition onCompleted :: "details \<Rightarrow> world \<Rightarrow> world \<times> string list" where
  \<comment> \<open>The \<^verbatim>\<open>webRequest.onCompleted\<close> listener: the state after it and the URLs it passes
      to \<^verbatim>\<open>postImageUrlToBackend\<close>.\<close>
  "onCompleted d w =
     (if \<not> mainWindow w then (w, [])
      else if statusCode d < 200 \<or> statusCode d \<ge> 300 then (w, [])
      else if \<not> isImage d then (w, [])
      else if d_url d \<in> seenImageUrls w then (w, [])
      else (w\<lparr>seenImageUrls := insert (d_url d) (seenImageUrls w)\<rparr>, [d_url d]))"

definition on_image_url :: "string \<Rightarrow> world \<Rightarrow> world \<times> string list" where
  \<comment> \<open>The listener of \<^verbatim>\<open>image-monitor:url\<close>.\<close>
  "on_image_url url w =
     (if url \<notin> seenImageUrls w
      then (w\<lparr>seenImageUrls := insert url (seenImageUrls w)\<rparr>, [url])
      else (w, []))"

definition on_navigated :: "world \<Rightarrow> world" where
  \<comment> \<open>The listener of \<^verbatim>\<open>webview:navigated\<close>: \<^verbatim>\<open>_seenImageUrls.clear()\<close>.\<close>
  "on_navigated w = w\<lparr>seenImageUrls := {}\<rparr>"

fun handle :: "event \<Rightarrow> world \<Rightarrow> world \<times> string list" where
  "handle (Completed d) w = onCompleted d w"
| "handle (ImageUrl url) w = on_image_url url w"
| "handle Navigated w = (on_navigated w, [])"

fun run_events :: "event list \<Rightarrow> world \<Rightarrow> world \<times> string list" where
  \<comment> \<open>The listeners run one after the other; the calls of \<^verbatim>\<open>postImageUrlToBackend\<close> are
      collected in order.\<close>
  "run_events [] w = (w, [])"
| "run_events (e # es) w =
     (case handle e w of (w1, c1) \<Rightarrow>
        (case run_events es w1 of (w2, c2) \<Rightarrow> (w2, c1 @ c2)))"

definition analyzer_requests :: "runtime \<Rightarrow> string list \<Rightarrow> string list" where
  \<comment> \<open>The calls of \<^verbatim>\<open>postImageUrlToBackend\<close> that reach \<^verbatim>\<open>fetch(IMAGE_MONITOR_API_URL)\<close>.\<close>
  "analyzer_requests rt calls = filter (isValidHttpUrl rt) calls"

fun observes :: "world \<Rightarrow> string \<Rightarrow> event \<Rightarrow> bool" where
  \<comment> \<open>The event is a sighting of the image URL: a completed request for it that passes the
      listener's tests, or the URL forwarded by the renderer.\<close>
  "observes w u (Completed d) =
     (mainWindow w \<and> 200 \<le> statusCode d \<and> statusCode d < 300 \<and> isImage d \<and> d_url d = u)"
| "observes w u (ImageUrl url) = (url = u)"
| "observes w u Navigated = False"

subsection \<open>Restoring the cache and looking an entity up\<close>

definition restored_entity :: "entity_row \<Rightarrow> obj" where
  \<comment> \<open>The object built from a row, at startup and in \<^verbatim>\<open>entity:details\<close>.\<close>
  "restored_entity row =
     [(''entity_id'', entity_id row),
      (''entity_type'', VStr (entity_type row)),
      (''source_url'', source_url row),
      (''image_url'', if map upper_char (entity_type row) = ''IMAGE'' then source_url row
                      else VUndef),
      (''title'', title row),
      (''content_title'', title row),
      (''url'', source_url row),
      (''text'', extracted_text row),
      (''risk_level'', VStr (risk_level row)),
      (''detected_at'', VStr (detected_at row)),
      (''_from_db'', VBool True)]
     @ own_props (analysis_json row)"

definition restore_row :: "entity_row \<Rightarrow> (jsval \<Rightarrow> obj option) \<Rightarrow> (jsval \<Rightarrow> obj option)" where
  \<comment> \<open>\<^verbatim>\<open>if (row.entity_id && !ENTITY_CACHE.has(row.entity_id)) ENTITY_CACHE.set(...)\<close>\<close>
  "restore_row row c =
     (if truthy (entity_id row) \<and> c (entity_id row) = None
      then c(entity_id row \<mapsto> restored_entity row) else c)"

definition startup_restore :: "world \<Rightarrow> world" where
  \<comment> \<open>The cache restore in \<^verbatim>\<open>app.whenReady\<close>: \<^verbatim>\<open>db.queryEntities({ limit: 2000 })\<close>, then
      \<^verbatim>\<open>records.forEach\<close>.\<close>
  "startup_restore w =
     w\<lparr>ENTITY_CACHE :=
         fold restore_row (fst (queryEntities VUndef VUndef (Some 2000) (db w))) (ENTITY_CACHE w)\<rparr>"

definition restart :: "world \<Rightarrow> world" where
  \<comment> \<open>A new process on the same database file: the memory is empty, then the cache is
      restored.\<close>
  "restart w =
     startup_restore
       \<lparr>db = db w, ENTITY_CACHE = Map.empty, seenImageUrls = {}, sent = [], mainWindow = True\<rparr>"

definition entity_details ::
  "runtime \<Rightarrow> int \<Rightarrow> string \<Rightarrow> jsval \<Rightarrow> world \<Rightarrow> error + world \<times> obj option" where
  \<comment> \<open>The handler of \<^verbatim>\<open>entity:details\<close>: the state after it and the entity it returns
      (\<open>None\<close> is \<^verbatim>\<open>null\<close>).\<close>
  "entity_details rt now uuid entityId w =
     (if \<not> truthy entityId then Inr (w, None)
      else (case ENTITY_CACHE w entityId of
        Some entity \<Rightarrow>
          (case insertAuditLog now uuid (VStr ''ENTITY_VIEWED'') entityId (VStr '''')
                  (VObj [(''source'', VStr ''cache'')]) (db w) of
             Inl e \<Rightarrow> Inl e
           | Inr db' \<Rightarrow> Inr (w\<lparr>db := db'\<rparr>, Some entity))
      | None \<Rightarrow>
          (case getEntity rt entityId (db w) of
             Some row \<Rightarrow>
               (let w1 = w\<lparr>ENTITY_CACHE := (ENTITY_CACHE w)(entityId \<mapsto> restored_entity row)\<rparr>
                in (case insertAuditLog now uuid (VStr ''ENTITY_VIEWED'') entityId (VStr '''')
                          (VObj [(''source'', VStr ''db_restore'')]) (db w1) of
                      Inl e \<Rightarrow> Inr (w1, None)
                    | Inr db' \<Rightarrow> Inr (w1\<lparr>db := db'\<rparr>, Some (restored_entity row))))
           | None \<Rightarrow> Inr (w, None))))"

fun store_entities ::
  "runtime \<Rightarrow> (int \<times> obj) list \<Rightarrow> database option \<Rightarrow> database option" where
  \<comment> \<open>Calls of \<^verbatim>\<open>db.insertEntity\<close> one after the other, each with its clock reading and its
      argument.\<close>
  "store_entities rt [] dbh = dbh"
| "store_entities rt (np # rest) dbh =
     (case insertEntity rt (fst np) (snd np) dbh of
        Inl e \<Rightarrow> dbh
      | Inr dbh' \<Rightarrow> store_entities rt rest dbh')"

subsection \<open>The trust engine\<close>

definition trust_engine_update :: "real \<Rightarrow> real \<Rightarrow> real \<times> real" where
  \<comment> \<open>Modelled from the spec: the per-session trust engine (\<^verbatim>\<open>backend/trust/trust_engine.py\<close>)
      is not among the sources. From the running score and the probability of the detection
      to the new score and the delta: \<^verbatim>\<open>delta = -(probability * 100)\<close>,
      \<^verbatim>\<open>new_score = clamp(old_score + delta, 0, 100)\<close>.\<close>
  "trust_engine_update old_score probability =
     (let dl = - (probability * 100) in (max 0 (min 100 (old_score + dl)), dl))"

definition primary_text_analysis ::
  "real \<Rightarrow> string \<Rightarrow> real \<Rightarrow> jsval list \<Rightarrow> real \<Rightarrow> string \<Rightarrow> jsval" where
  \<comment> \<open>Modelled from the spec: the primary text analyzer service (\<^verbatim>\<open>backend/main.py\<close>) is not
      among the sources. Its response \<^verbatim>\<open>{ ai_generated_probability, misinformation_risk,
      credibility_score, explanation[], trust_score, trust_score_delta, session_id }\<close>, the
      trust fields computed by the trust engine from the service's own probability.\<close>
  "primary_text_analysis p risk cred findings old_score sid =
     VObj [(''ai_generated_probability'', VNum p),
           (''misinformation_risk'', VStr risk),
           (''credibility_score'', VNum cred),
           (''explanation'', VArr findings),
           (''trust_score'', VNum (fst (trust_engine_update old_score p))),
           (''trust_score_delta'', VNum (snd (trust_engine_update old_score p))),
           (''session_id'', VStr sid)]"

definition primary_image_analysis ::
  "real \<Rightarrow> string \<Rightarrow> jsval list \<Rightarrow> real \<Rightarrow> string \<Rightarrow> jsval" where
  \<comment> \<open>Modelled from the spec: the image analyzer service is not among the sources. Its
      response \<^verbatim>\<open>{ fake_probability, risk_level, forensic_explanation[], trust_score,
      trust_score_delta, session_id }\<close>.\<close>
  "primary_image_analysis p risk findings old_score sid =
     VObj [(''fake_probability'', VNum p),
           (''risk_level'', VStr risk),
           (''forensic_explanation'', VArr findings),
           (''trust_score'', VNum (fst (trust_engine_update old_score p))),
           (''trust_score_delta'', VNum (snd (trust_engine_update old_score p))),
           (''session_id'', VStr sid)]"

section \<open>Values for examples\<close>

definition quoted :: "string \<Rightarrow> string" where
  "quoted s = CHR 0x22 # s @ [CHR 0x22]"

definition example_reply :: string where
  \<comment> \<open>A provider's text: a JSON object with a summary, a probability of 0.9, the risk
      HIGH and the topic Politics.\<close>
  "example_reply =
     ''{'' @ quoted ''summary'' @ '':'' @ quoted ''gist'' @ '',''
     @ quoted ''ai_generated_probability'' @ '':0.9,''
     @ quoted ''misinformation_risk'' @ '':'' @ quoted ''HIGH'' @ '',''
     @ quoted ''topic'' @ '':'' @ quoted ''Politics'' @ ''}''"

definition example_runtime :: runtime where
  \<comment> \<open>Stand-ins used where an example is evaluated: a 64-character digest that is not
      SHA-256, a URL check that knows the two prefixes only, a parser that reads the one
      text \<open>example_reply\<close>, \<^verbatim>\<open>parseFloat\<close> on numbers, no date parsing, and the text of a
      number's whole part (which is SQLite's text for a whole number of up to 15 digits).\<close>
  "example_runtime =
     \<lparr>sha256_hex = (\<lambda>s. take 64 (rev s @ replicate 64 CHR ''0'')),
      url_protocol = (\<lambda>u. if prefix ''https://'' u then Some ''https:''
                          else if prefix ''http://'' u then Some ''http:'' else None),
      json_parse = (\<lambda>s. if s = example_reply
                         then Some (VObj [(''summary'', VStr ''gist''),
                                          (''ai_generated_probability'', VNum 0.9),
                                          (''misinformation_risk'', VStr ''HIGH''),
                                          (''topic'', VStr ''Politics'')])
                         else None),
      parse_float = (\<lambda>v. case v of VNum r \<Rightarrow> Fin r | _ \<Rightarrow> NaN),
      date_value = (\<lambda>v. None),
      real_text = (\<lambda>r. show_int \<lfloor>r\<rfloor> @ ''.0'')\<rparr>"

definition example_world :: world where
  \<comment> \<open>The main process after startup on a new database file.\<close>
  "example_world =
     \<lparr>db = Some empty_database, ENTITY_CACHE = Map.empty, seenImageUrls = {}, sent = [],
      mainWindow = True\<rparr>"

definition example_payload :: text_payload where
  "example_payload =
     \<lparr>tp_title = ''T'', tp_url = ''https://n.example/a'', tp_text = ''body'',
      tp_word_count = 321, tp_timestamp = 5\<rparr>"

definition example_analysis :: jsval where
  \<comment> \<open>An answer of the primary text analyzer.\<close>
  "example_analysis =
     VObj [(''ai_generated_probability'', VNum 0.2), (''misinformation_risk'', VStr ''LOW''),
           (''credibility_score'', VNum 0.7), (''explanation'', VArr [VStr ''p1'']),
           (''trust_score'', VNum 80), (''trust_score_delta'', VNum (- 20)),
           (''session_id'', VStr ''s1'')]"

definition example_gemini :: gemini_result where
  "example_gemini =
     \<lparr>g_ai_generated_probability = 0.9, g_misinformation_risk = ''HIGH'',
      g_credibility_score = 0.5, g_forensic_explanation = [],
      g_ai_summary = ''gist'', g_topic = VStr ''Politics'', g_key_claims = []\<rparr>"

definition gemini_response :: "string \<Rightarrow> response" where
  \<comment> \<open>A 200 answer of the provider that carries the text.\<close>
  "gemini_response txt =
     \<lparr>ok = True, status = 200,
      body = Inr (VObj [(''candidates'',
               VArr [VObj [(''content'', VObj [(''parts'', VArr [VObj [(''text'', VStr txt)]])])]])])\<rparr>"

definition ok_response :: "jsval \<Rightarrow> response" where
  "ok_response v = \<lparr>ok = True, status = 200, body = Inr v\<rparr>"

definition example_stored :: obj where
  \<comment> \<open>An argument of \<^verbatim>\<open>db.insertEntity\<close> as the handler of \<^verbatim>\<open>analyze:manual-url\<close> passes it
      for an image: \<^verbatim>\<open>detected_at\<close> is the clock reading in milliseconds.\<close>
  "example_stored =
     [(''entity_id'', VStr ''e1''),
      (''entity_type'', VStr ''IMAGE''),
      (''source_url'', VStr ''https://a.example/p.png''),
      (''risk_level'', VStr ''LOW''),
      (''analysis'', VObj [(''fake_probability'', VNum 0.3), (''trust_score'', VNum 70)]),
      (''detected_at'', VNum 1700000000123)]"

definition example_numeric :: obj where
  \<comment> \<open>An argument of \<^verbatim>\<open>db.insertEntity\<close> whose identifier and title are numbers.\<close>
  "example_numeric =
     [(''entity_id'', VNum 42),
      (''entity_type'', VStr ''TEXT''),
      (''title'', VNum 7),
      (''analysis'', VObj [(''trust_score'', VNum 70)])]"

section \<open>Properties of the write helpers\<close>

lemma run_guarded:
  "try_catch (run_stmt stmt (Some d)) (\<lambda>err. Inr (Some d)) =
     Inr (Some (case stmt d of Inl e \<Rightarrow> d | Inr d' \<Rightarrow> d'))"
  by (simp add: try_catch_def run_stmt_def split: sum.splits)

lemma insertEntity_None: "insertEntity dv now p None = Inr None"
  by (simp add: insertEntity_def ready_def)

lemma insertEntity_Some:
  "insertEntity dv now p (Some d) =
     Inr (Some (case entity_write dv now p d of Inl err \<Rightarrow> d | Inr d' \<Rightarrow> d'))"
  by (simp only: insertEntity_def ready_def run_guarded) simp

lemma insertTrustHistory_None: "insertTrustHistory now e sc dl None = Inr None"
  by (simp add: insertTrustHistory_def ready_def)

lemma insertTrustHistory_Some:
  "insertTrustHistory now e sc dl (Some d) =
     Inr (Some (case stmt_insertTrust e sc (if dl = VUndef then VNum 0 else dl) (nowIso now) d of
                  Inl err \<Rightarrow> d | Inr d' \<Rightarrow> d'))"
  by (simp only: insertTrustHistory_def ready_def run_guarded) simp

lemma insertAuditLog_None: "insertAuditLog now uuid ty e s m None = Inr None"
  by (simp add: insertAuditLog_def ready_def)

lemma insertAuditLog_Some:
  "insertAuditLog now uuid ty e s m (Some d) =
     Inr (Some (case stmt_insertAudit (audit_params now uuid ty e s m) d of
                  Inl err \<Rightarrow> d | Inr d' \<Rightarrow> d'))"
  by (simp only: insertAuditLog_def ready_def run_guarded) simp

lemma insertLegalSession_None: "insertLegalSession now e q a sty None = Inr None"
  by (simp add: insertLegalSession_def ready_def)

lemma insertLegalSession_Some:
  "insertLegalSession now e q a sty (Some d) =
     Inr (Some (case stmt_insertLegal (or_else e (VStr '''')) (or_else q (VStr ''''))
                       (or_else a (VStr ''''))
                       (if sty = VUndef then VStr ''LEGAL_CHAT'' else sty) (nowIso now) d of
                  Inl err \<Rightarrow> d | Inr d' \<Rightarrow> d'))"
  by (simp only: insertLegalSession_def ready_def run_guarded) simp

lemma entity_write_failing: "failing d \<Longrightarrow> \<exists>e. entity_write dv now p d = Inl e"
  by (simp add: entity_write_def stmt_insertEntity_def split: sum.splits)

lemma text_affinity_simps [simp]:
  "text_affinity rtext (VStr s) = VStr s"
  "text_affinity rtext (VNum r) = VStr (rtext r)"
  "text_affinity rtext VNull = VNull"
  by (simp_all add: text_affinity_def)

lemma text_affinity_not_null: "truthy v \<Longrightarrow> text_affinity rtext v \<noteq> VNull"
  by (cases v) (simp_all add: text_affinity_def)

lemma stored_entity_fields [simp]:
  "entity_id (stored_entity rtext r) = text_affinity rtext (entity_id r)"
  "source_url (stored_entity rtext r) = text_affinity rtext (source_url r)"
  "title (stored_entity rtext r) = text_affinity rtext (title r)"
  "extracted_text (stored_entity rtext r) = text_affinity rtext (extracted_text r)"
  "entity_type (stored_entity rtext r) = entity_type r"
  "risk_level (stored_entity rtext r) = risk_level r"
  "analysis_json (stored_entity rtext r) = analysis_json r"
  "detected_at (stored_entity rtext r) = detected_at r"
  by (simp_all add: stored_entity_def)

lemma stored_entity_same:
  assumes "text_affinity rtext (entity_id r) = entity_id r"
    and "text_affinity rtext (source_url r) = source_url r"
    and "text_affinity rtext (title r) = title r"
    and "text_affinity rtext (extracted_text r) = extracted_text r"
  shows "stored_entity rtext r = r"
  using assms by (simp add: stored_entity_def)

lemma entity_write_Inr:
  "entity_write dv now p d = Inr d' \<Longrightarrow>
     \<exists>et rk ds. \<not> failing d \<and> et \<in> set entity_types \<and>
       bindable (or_else (lookup p ''entity_id'') (VStr ''unknown'')) \<and>
       d' = d\<lparr>entities :=
               filter (\<lambda>old. entity_id old \<noteq> text_affinity (real_text dv)
                                (or_else (lookup p ''entity_id'') (VStr ''unknown'')))
                      (entities d) @ [stored_entity (real_text dv) (entity_params p et rk ds)]\<rparr>"
proof -
  assume a: "entity_write dv now p d = Inr d'"
  then obtain ds et rk where
    s: "stmt_insertEntity (real_text dv) (entity_params p et rk ds) d = Inr d'"
    by (auto simp: entity_write_def split: sum.splits)
  have k: "entity_id (entity_params p et rk ds) = or_else (lookup p ''entity_id'') (VStr ''unknown'')"
    by (simp add: entity_params_def)
  have "truthy (or_else (lookup p ''entity_id'') (VStr ''unknown''))"
    by (auto simp: or_else_def)
  then have nn: "text_affinity (real_text dv) (or_else (lookup p ''entity_id'') (VStr ''unknown''))
      \<noteq> VNull"
    by (rule text_affinity_not_null)
  from s have "\<not> failing d" "entity_type (entity_params p et rk ds) \<in> set entity_types"
    and "bindable (entity_id (entity_params p et rk ds))"
    and "d' = d\<lparr>entities :=
            filter (\<lambda>old. entity_id (stored_entity (real_text dv) (entity_params p et rk ds)) = VNull
                          \<or> entity_id old
                              \<noteq> entity_id (stored_entity (real_text dv) (entity_params p et rk ds)))
                   (entities d)
            @ [stored_entity (real_text dv) (entity_params p et rk ds)]\<rparr>"
    by (auto simp: stmt_insertEntity_def split: if_splits)
  with k nn show ?thesis
    by (auto simp: entity_params_def)
qed

lemma stmt_insertAudit_cases:
  "stmt_insertAudit r d = Inr d' \<Longrightarrow>
     (d' = d \<or> (event_id r \<notin> set (map event_id (audit_log d)) \<and> d' = d\<lparr>audit_log := audit_log d @ [r]\<rparr>))"
  by (auto simp: stmt_insertAudit_def split: if_splits)

section \<open>Properties of the capture pipeline\<close>

lemma try_catch_null:
  "try_catch blk (\<lambda>err. Inr None) = Inr (case blk of Inl e \<Rightarrow> None | Inr v \<Rightarrow> v)"
  by (simp add: try_catch_def split: sum.splits)

lemma callGemini_total: "\<exists>g. callGeminiAnalysis rt key gf = Inr g"
  by (simp add: callGeminiAnalysis_def try_catch_null)

lemma gemini_of_parsed_shape:
  "\<forall>s. opt_get parsed ''summary'' \<noteq> VStr s \<Longrightarrow> \<exists>e. gemini_of_parsed rt parsed = Inl e"
  by (cases "opt_get parsed ''summary''") (auto simp: gemini_of_parsed_def)

lemma callGemini_fetch_rejects: "callGeminiAnalysis rt key (Inl e) = Inr None"
  by (simp add: callGeminiAnalysis_def try_catch_null)

lemma callGemini_not_ok: "\<not> ok res \<Longrightarrow> callGeminiAnalysis rt key (Inr res) = Inr None"
  by (simp add: callGeminiAnalysis_def try_catch_null)

lemma callGemini_body_throws:
  "body res = Inl e \<Longrightarrow> callGeminiAnalysis rt key (Inr res) = Inr None"
  by (simp add: callGeminiAnalysis_def try_catch_null)

lemma callGemini_parse_fails:
  "body res = Inr data \<Longrightarrow> candidate_text data = VStr raw \<Longrightarrow>
   json_parse rt (clean_reply raw) = None \<Longrightarrow> callGeminiAnalysis rt key (Inr res) = Inr None"
  by (simp add: callGeminiAnalysis_def try_catch_null)

lemma callGemini_not_text:
  "body res = Inr data \<Longrightarrow> \<forall>raw. candidate_text data \<noteq> VStr raw \<Longrightarrow>
   callGeminiAnalysis rt key (Inr res) = Inr None"
  by (cases "candidate_text data") (simp_all add: callGeminiAnalysis_def try_catch_null)

lemma callGemini_shape:
  "body res = Inr data \<Longrightarrow> candidate_text data = VStr raw \<Longrightarrow>
   json_parse rt (clean_reply raw) = Some parsed \<Longrightarrow>
   \<forall>s. opt_get parsed ''summary'' \<noteq> VStr s \<Longrightarrow>
   callGeminiAnalysis rt key (Inr res) = Inr None"
  using gemini_of_parsed_shape [of parsed rt]
  by (auto simp add: callGeminiAnalysis_def try_catch_null)

lemma candidate_text_no_candidates:
  "opt_get data ''candidates'' = VUndef \<Longrightarrow> candidate_text data = VStr ''''"
  by (simp add: candidate_text_def or_else_def)

lemma clean_reply_empty: "clean_reply '''' = ''''"
  by (simp add: clean_reply_def trim_def strip_open_fence_def strip_close_fence_def)

lemma example_gemini_eval:
  "callGeminiAnalysis example_runtime ''k'' (Inr (gemini_response example_reply))
     = Inr (Some example_gemini)"
  by (simp add: callGeminiAnalysis_def try_catch_null gemini_response_def candidate_text_def
      or_else_def lookup_def clean_reply_def trim_def strip_open_fence_def strip_close_fence_def
      example_reply_def quoted_def is_space_def example_runtime_def gemini_of_parsed_def
      unit_clamp_def array_slice_def example_gemini_def suffix_to_prefix prefix_code)

lemma insertEntity_eq:
  "insertEntity dv now p dbh = Inr (map_option (entity_written dv now p) dbh)"
  by (cases dbh) (simp_all add: insertEntity_None insertEntity_Some entity_written_def)

lemma insertTrustHistory_eq:
  "insertTrustHistory now e sc dl dbh = Inr (map_option (trust_written now e sc dl) dbh)"
  by (cases dbh) (simp_all add: insertTrustHistory_None insertTrustHistory_Some trust_written_def)

lemma insertAuditLog_eq:
  "insertAuditLog now uuid ty e s m dbh = Inr (map_option (audit_written now uuid ty e s m) dbh)"
  by (cases dbh) (simp_all add: insertAuditLog_None insertAuditLog_Some audit_written_def)

lemma with_db_Inr: "with_db w (Inr dbh) rest = rest (w\<lparr>db := dbh\<rparr>)"
  by (simp add: with_db_def)

lemma entities_trust_written [simp]: "entities (trust_written now e sc dl d) = entities d"
  by (simp add: trust_written_def stmt_insertTrust_def)

lemma entities_audit_written [simp]: "entities (audit_written now uuid ty e s m d) = entities d"
  by (simp add: audit_written_def stmt_insertAudit_def)

lemma toUpperCase_TEXT: "toUpperCase (VStr ''TEXT'') = Inr ''TEXT''"
  by (simp add: toUpperCase_def upper_char_def lower_letters_def upper_letters_def)

lemma toUpperCase_IMAGE: "toUpperCase (VStr ''IMAGE'') = Inr ''IMAGE''"
  by (simp add: toUpperCase_def upper_char_def lower_letters_def upper_letters_def)

lemma toUpperCase_risk:
  "v = VStr r \<or> \<not> truthy v \<Longrightarrow>
     \<exists>rk. toUpperCase (or_else (or_else v VUndef) (VStr ''LOW'')) = Inr rk"
  by (auto simp: toUpperCase_def or_else_def)

lemma entity_write_ok:
  assumes "\<not> failing d"
    and "detectedIso (date_value dv) now p = Inr ds"
    and "toUpperCase (or_else (lookup p ''entity_type'') (VStr ''UNKNOWN'')) = Inr et"
    and "et \<in> set entity_types"
    and "toUpperCase (or_else (or_else (lookup p ''risk_level'') (lookup p ''misinformation_risk''))
                             (VStr ''LOW'')) = Inr rk"
    and "bindable (entity_id (entity_params p et rk ds))"
    and "bindable (source_url (entity_params p et rk ds))"
    and "bindable (title (entity_params p et rk ds))"
    and "bindable (extracted_text (entity_params p et rk ds))"
  shows "entity_write dv now p d =
           Inr (d\<lparr>entities :=
                  filter (\<lambda>old. entity_id old
                            \<noteq> entity_id (stored_entity (real_text dv) (entity_params p et rk ds)))
                         (entities d)
                  @ [stored_entity (real_text dv) (entity_params p et rk ds)]\<rparr>)"
proof -
  have "truthy (entity_id (entity_params p et rk ds))"
    by (auto simp: entity_params_def or_else_def)
  then have "text_affinity (real_text dv) (entity_id (entity_params p et rk ds)) \<noteq> VNull"
    by (rule text_affinity_not_null)
  moreover have "entity_type (entity_params p et rk ds) = et"
    by (simp add: entity_params_def)
  ultimately show ?thesis
    using assms by (simp add: entity_write_def stmt_insertEntity_def)
qed

lemma entity_write_text:
  assumes "\<not> failing d"
    and "detectedIso (date_value dv) now p = Inr ds"
    and "toUpperCase (or_else (lookup p ''entity_type'') (VStr ''UNKNOWN'')) = Inr et"
    and "et \<in> set entity_types"
    and "toUpperCase (or_else (or_else (lookup p ''risk_level'') (lookup p ''misinformation_risk''))
                             (VStr ''LOW'')) = Inr rk"
    and "\<exists>s. entity_id (entity_params p et rk ds) = VStr s"
    and "\<exists>s. source_url (entity_params p et rk ds) = VStr s"
    and "\<exists>s. title (entity_params p et rk ds) = VStr s"
    and "\<exists>s. extracted_text (entity_params p et rk ds) = VStr s"
  shows "entity_write dv now p d =
           Inr (d\<lparr>entities :=
                  filter (\<lambda>old. entity_id old \<noteq> entity_id (entity_params p et rk ds)) (entities d)
                  @ [entity_params p et rk ds]\<rparr>)"
proof -
  have "stored_entity (real_text dv) (entity_params p et rk ds) = entity_params p et rk ds"
    using assms(6-9) by (intro stored_entity_same) auto
  moreover have "bindable (entity_id (entity_params p et rk ds))"
    "bindable (source_url (entity_params p et rk ds))"
    "bindable (title (entity_params p et rk ds))"
    "bindable (extracted_text (entity_params p et rk ds))"
    using assms(6-9) by (auto simp: bindable_def)
  ultimately show ?thesis
    using entity_write_ok [OF assms(1-5)] by simp
qed

lemma text_store_eq:
  "text_store rt sid now uuid tp analysis gemini w =
     Inr (w\<lparr>ENTITY_CACHE := (ENTITY_CACHE w)(VStr (text_entity_id rt tp) \<mapsto>
                 text_entity (text_entity_id rt tp) tp analysis gemini now),
            db := map_option
              (\<lambda>d. audit_written now uuid (VStr ''ENTITY_DETECTED'') (VStr (text_entity_id rt tp))
                      (VStr sid)
                      (VObj [(''type'', VStr ''TEXT''),
                             (''risk_level'',
                              lookup (text_entity (text_entity_id rt tp) tp analysis gemini now)
                                ''misinformation_risk'')])
                   (trust_written now (VStr (text_entity_id rt tp))
                      (nullish_or (lookup (text_entity (text_entity_id rt tp) tp analysis gemini now)
                                     ''trust_score'') (VNum 0))
                      (nullish_or (lookup (text_entity (text_entity_id rt tp) tp analysis gemini now)
                                     ''trust_score_delta'') (VNum 0))
                   (entity_written rt now
                      (text_params (text_entity_id rt tp)
                         (text_entity (text_entity_id rt tp) tp analysis gemini now)) d)))
              (db w),
            sent := sent w @ [(''text-monitor:analysis'',
                       text_event (text_entity_id rt tp) tp analysis
                         (text_entity (text_entity_id rt tp) tp analysis gemini now) now)]\<rparr>)"
  by (simp add: text_store_def Let_def insertEntity_eq insertTrustHistory_eq insertAuditLog_eq
      with_db_Inr option.map_comp comp_def)

lemma postText_reaches_store:
  assumes "isValidHttpUrl rt (tp_url tp)" and "ok res" and "body res = Inr (VObj a)"
    and "callGeminiAnalysis rt key gf = Inr gemini"
  shows "postTextToBackend rt sid now uuid key tp (Inr res) gf False w =
           try_catch_world (text_store rt sid now uuid tp (VObj a) gemini w)
             (analysis_failed now uuid sid ''TEXT'' (tp_url tp))"
  using assms by (simp add: postTextToBackend_def)

section \<open>Fault isolation of the write path\<close>

text \<open>
  Claim C7. Each of the four write helpers of \<^verbatim>\<open>db.js\<close> returns normally, whatever its
  arguments and whatever the state of the storage: no database (\<open>None\<close>), a storage engine
  that raises on the write, a value that cannot be bound, a violated constraint. When there
  is no database or the engine raises, the database is left as it was.
\<close>

theorem write_helpers_fault_isolated:
  "(\<exists>r. insertEntity dv now p dbh = Inr r \<and> ((\<forall>d. dbh = Some d \<longrightarrow> failing d) \<longrightarrow> r = dbh))
   \<and> (\<exists>r. insertTrustHistory now e1 sc dl dbh = Inr r
          \<and> ((\<forall>d. dbh = Some d \<longrightarrow> failing d) \<longrightarrow> r = dbh))
   \<and> (\<exists>r. insertAuditLog now uuid ty e2 sid m dbh = Inr r
          \<and> ((\<forall>d. dbh = Some d \<longrightarrow> failing d) \<longrightarrow> r = dbh))
   \<and> (\<exists>r. insertLegalSession now e3 q a sty dbh = Inr r
          \<and> ((\<forall>d. dbh = Some d \<longrightarrow> failing d) \<longrightarrow> r = dbh))"
proof (cases dbh)
  case None
  then show ?thesis
    by (simp add: insertEntity_None insertTrustHistory_None insertAuditLog_None
        insertLegalSession_None)
next
  case (Some d)
  have "failing d \<Longrightarrow> (case entity_write dv now p d of Inl err \<Rightarrow> d | Inr d' \<Rightarrow> d') = d"
    using entity_write_failing [of d dv now p] by auto
  moreover have "failing d \<Longrightarrow>
      (case stmt_insertTrust e1 sc (if dl = VUndef then VNum 0 else dl) (nowIso now) d of
         Inl err \<Rightarrow> d | Inr d' \<Rightarrow> d') = d"
    by (simp add: stmt_insertTrust_def)
  moreover have "failing d \<Longrightarrow>
      (case stmt_insertAudit (audit_params now uuid ty e2 sid m) d of
         Inl err \<Rightarrow> d | Inr d' \<Rightarrow> d') = d"
    by (simp add: stmt_insertAudit_def)
  moreover have "failing d \<Longrightarrow>
      (case stmt_insertLegal (or_else e3 (VStr '''')) (or_else q (VStr ''''))
              (or_else a (VStr '''')) (if sty = VUndef then VStr ''LEGAL_CHAT'' else sty)
              (nowIso now) d of
         Inl err \<Rightarrow> d | Inr d' \<Rightarrow> d') = d"
    by (simp add: stmt_insertLegal_def)
  ultimately show ?thesis
    using Some
    by (simp add: insertEntity_Some insertTrustHistory_Some insertAuditLog_Some
        insertLegalSession_Some)
qed

theorem write_helpers_fault_isolated_witness:
  "insertEntity example_runtime 1700000000123
      [(''entity_id'', VStr ''e1''), (''entity_type'', VStr ''IMAGE'')]
      (Some (empty_database\<lparr>failing := True\<rparr>)) = Inr (Some (empty_database\<lparr>failing := True\<rparr>))
   \<and> insertTrustHistory 1700000000123 (VStr ''e1'') (VNum 80) (VNum (-20)) None = Inr None
   \<and> insertAuditLog 1700000000123 ''u1'' (VStr ''ENTITY_DETECTED'') (VStr ''e1'') (VStr ''s'')
        (VObj []) (Some (empty_database\<lparr>failing := True\<rparr>))
      = Inr (Some (empty_database\<lparr>failing := True\<rparr>))
   \<and> insertLegalSession 1700000000123 (VStr ''e1'') (VStr ''q'') (VStr ''a'') VUndef None
      = Inr None"
  using write_helpers_fault_isolated [of example_runtime 1700000000123
      "[(''entity_id'', VStr ''e1''), (''entity_type'', VStr ''IMAGE'')]"
      "Some (empty_database\<lparr>failing := True\<rparr>)" "VStr ''e1''" "VNum 80" "VNum (-20)"
      "''u1''" "VStr ''ENTITY_DETECTED''" "VStr ''e1''" "VStr ''s''" "VObj []"
      "VStr ''e1''" "VStr ''q''" "VStr ''a''" VUndef]
    write_helpers_fault_isolated [of example_runtime 1700000000123
      "[(''entity_id'', VStr ''e1''), (''entity_type'', VStr ''IMAGE'')]"
      None "VStr ''e1''" "VNum 80" "VNum (-20)"
      "''u1''" "VStr ''ENTITY_DETECTED''" "VStr ''e1''" "VStr ''s''" "VObj []"
      "VStr ''e1''" "VStr ''q''" "VStr ''a''" VUndef]
  by (auto simp: empty_database_def)

section \<open>The audit log is append-only\<close>

text \<open>
  Claim C8. No write helper updates or removes a row of \<^verbatim>\<open>audit_log\<close>: after
  \<^verbatim>\<open>insertAuditLog\<close> the old table is a prefix of the new one, and the other three helpers
  leave the table as it is. The statement is \<^verbatim>\<open>INSERT OR IGNORE\<close>: an event whose
  \<^verbatim>\<open>event_id\<close> is in the table already changes nothing, so the first row keeps its
  content, and the \<^verbatim>\<open>event_id\<close>s stay pairwise distinct.
\<close>

theorem audit_log_immutable:
  "\<exists>d'. insertAuditLog now uuid ty e sid m (Some d) = Inr (Some d')
      \<and> prefix (audit_log d) (audit_log d')
      \<and> (uuid \<in> set (map event_id (audit_log d)) \<longrightarrow> d' = d)
      \<and> (distinct (map event_id (audit_log d)) \<longrightarrow> distinct (map event_id (audit_log d')))
      \<and> (\<exists>d1. insertEntity dv now p (Some d) = Inr (Some d1) \<and> audit_log d1 = audit_log d)
      \<and> (\<exists>d2. insertTrustHistory now e1 sc dl (Some d) = Inr (Some d2)
               \<and> audit_log d2 = audit_log d)
      \<and> (\<exists>d3. insertLegalSession now e3 q a sty (Some d) = Inr (Some d3)
               \<and> audit_log d3 = audit_log d)"
proof -
  let ?r = "audit_params now uuid ty e sid m"
  let ?d' = "case stmt_insertAudit ?r d of Inl err \<Rightarrow> d | Inr d' \<Rightarrow> d'"
  have id: "event_id ?r = uuid" by (simp add: audit_params_def)
  have c: "?d' = d \<or> (uuid \<notin> set (map event_id (audit_log d))
              \<and> ?d' = d\<lparr>audit_log := audit_log d @ [?r]\<rparr>)"
    using stmt_insertAudit_cases [of ?r d] id by (cases "stmt_insertAudit ?r d") auto
  have 1: "prefix (audit_log d) (audit_log ?d')" using c by auto
  have 2: "uuid \<in> set (map event_id (audit_log d)) \<longrightarrow> ?d' = d" using c by auto
  have 3: "distinct (map event_id (audit_log d)) \<longrightarrow> distinct (map event_id (audit_log ?d'))"
    using c id by auto
  have 4: "audit_log (case entity_write dv now p d of Inl err \<Rightarrow> d | Inr d' \<Rightarrow> d') = audit_log d"
    using entity_write_Inr [of dv now p d] by (cases "entity_write dv now p d") auto
  have 5: "audit_log (case stmt_insertTrust e1 sc (if dl = VUndef then VNum 0 else dl)
                             (nowIso now) d of Inl err \<Rightarrow> d | Inr d' \<Rightarrow> d') = audit_log d"
    by (simp add: stmt_insertTrust_def)
  have 6: "audit_log (case stmt_insertLegal (or_else e3 (VStr '''')) (or_else q (VStr ''''))
              (or_else a (VStr '''')) (if sty = VUndef then VStr ''LEGAL_CHAT'' else sty)
              (nowIso now) d of Inl err \<Rightarrow> d | Inr d' \<Rightarrow> d') = audit_log d"
    by (simp add: stmt_insertLegal_def)
  show ?thesis
    unfolding insertAuditLog_Some insertEntity_Some insertTrustHistory_Some
      insertLegalSession_Some
    using 1 2 3 4 5 6 by simp
qed


theorem audit_log_immutable_witness:
  "insertAuditLog 1700000000123 ''u1'' (VStr ''ANALYSIS_FAILED'') (VStr '''') (VStr ''s'') (VObj [])
     (Some (empty_database\<lparr>audit_log :=
        [audit_params 1700000000000 ''u1'' (VStr ''ENTITY_DETECTED'') (VStr ''e1'') (VStr ''s'')
           (VObj [])]\<rparr>))
   = Inr (Some (empty_database\<lparr>audit_log :=
        [audit_params 1700000000000 ''u1'' (VStr ''ENTITY_DETECTED'') (VStr ''e1'') (VStr ''s'')
           (VObj [])]\<rparr>))"
  using audit_log_immutable [of 1700000000123 "''u1''" "VStr ''ANALYSIS_FAILED''" "VStr ''''"
      "VStr ''s''" "VObj []"
      "empty_database\<lparr>audit_log :=
        [audit_params 1700000000000 ''u1'' (VStr ''ENTITY_DETECTED'') (VStr ''e1'') (VStr ''s'')
           (VObj [])]\<rparr>"]
  by (auto simp: audit_params_def empty_database_def)

section \<open>Image captures are deduplicated per navigation epoch\<close>

lemma handle_no_nav:
  "e \<noteq> Navigated \<Longrightarrow> handle e w = (w1, c) \<Longrightarrow>
     mainWindow w1 = mainWindow w
     \<and> seenImageUrls w1 = seenImageUrls w \<union> {u. observes w u e}
     \<and> (\<forall>u. count_list c u = (if u \<notin> seenImageUrls w \<and> observes w u e then 1 else 0))"
  by (cases e) (auto simp: onCompleted_def on_image_url_def split: if_splits)

lemma run_events_no_nav:
  "Navigated \<notin> set evs \<Longrightarrow> run_events evs w = (w', calls) \<Longrightarrow>
     mainWindow w' = mainWindow w
     \<and> seenImageUrls w' = seenImageUrls w \<union> {u. \<exists>e\<in>set evs. observes w u e}
     \<and> (\<forall>u. count_list calls u
            = (if u \<notin> seenImageUrls w \<and> (\<exists>e\<in>set evs. observes w u e) then 1 else 0))"
proof (induction evs arbitrary: w w' calls)
  case Nil
  then show ?case by simp
next
  case (Cons e es)
  obtain w1 c1 where h: "handle e w = (w1, c1)" by (cases "handle e w")
  obtain w2 c2 where r: "run_events es w1 = (w2, c2)" by (cases "run_events es w1")
  from Cons.prems h r have eq: "w' = w2" "calls = c1 @ c2" by auto
  from Cons.prems have ne: "e \<noteq> Navigated" and nn: "Navigated \<notin> set es" by auto
  note H = handle_no_nav [OF ne h]
  note R = Cons.IH [OF nn r]
  have obs: "\<And>u x. observes w1 u x = observes w u x"
    using H by (case_tac x) auto
  show ?case
    unfolding eq using H R by (auto simp: obs)
qed

lemma run_events_append:
  "run_events (a @ b) w =
     (case run_events a w of (w1, c1) \<Rightarrow> (case run_events b w1 of (w2, c2) \<Rightarrow> (w2, c1 @ c2)))"
  by (induction a arbitrary: w) (auto split: prod.splits)

lemma count_list_filter:
  "count_list (filter P xs) u = (if P u then count_list xs u else 0)"
  by (induction xs) auto

text \<open>
  Claim C9. Take an image URL that the seen-set does not hold (as at the start of an epoch,
  when the set is empty). However many times the URL is sighted before the next navigation,
  by the request interceptor or by the renderer's \<^verbatim>\<open>image-monitor:url\<close> message,
  \<^verbatim>\<open>postImageUrlToBackend\<close> is called for it exactly once; after a navigation event a new
  sighting gives a second call. Each call is one request to the image analyzer when the URL
  passes \<^verbatim>\<open>isValidHttpUrl\<close>.
\<close>

theorem image_dedup_per_epoch:
  assumes "Navigated \<notin> set evs1" and "Navigated \<notin> set evs2"
    and "\<exists>e\<in>set evs1. observes w u e" and "\<exists>e\<in>set evs2. observes w u e"
    and "u \<notin> seenImageUrls w"
  shows "count_list (snd (run_events evs1 w)) u = 1
       \<and> count_list (snd (run_events (evs1 @ Navigated # evs2) w)) u = 2
       \<and> (isValidHttpUrl rt u \<longrightarrow>
            count_list (analyzer_requests rt (snd (run_events evs1 w))) u = 1
          \<and> count_list (analyzer_requests rt (snd (run_events (evs1 @ Navigated # evs2) w))) u = 2)"
proof -
  obtain w1 c1 where r1: "run_events evs1 w = (w1, c1)" by (cases "run_events evs1 w")
  obtain w2 c2 where r2: "run_events evs2 (on_navigated w1) = (w2, c2)"
    by (cases "run_events evs2 (on_navigated w1)")
  note A = run_events_no_nav [OF assms(1) r1]
  note B = run_events_no_nav [OF assms(2) r2]
  have obs: "\<And>v x. observes (on_navigated w1) v x = observes w v x"
    using A by (case_tac x) (auto simp: on_navigated_def)
  have seen: "seenImageUrls (on_navigated w1) = {}"
    by (simp add: on_navigated_def)
  have 1: "count_list c1 u = 1" using A assms(3,5) by auto
  have "count_list c2 u = (if u \<notin> seenImageUrls (on_navigated w1)
          \<and> (\<exists>e\<in>set evs2. observes (on_navigated w1) u e) then 1 else 0)"
    using B by blast
  then have 2: "count_list c2 u = 1"
    unfolding obs seen using assms(4) by simp
  have 3: "run_events (evs1 @ Navigated # evs2) w = (w2, c1 @ c2)"
    by (simp add: run_events_append r1 r2)
  show ?thesis
    using 1 2 by (simp add: r1 3 analyzer_requests_def count_list_filter)
qed

theorem image_dedup_per_epoch_witness:
  "count_list (snd (run_events
      [ImageUrl ''https://a.example/p.png'',
       Completed \<lparr>d_url = ''https://a.example/p.png'', statusCode = 200,
                  responseHeaders = (\<lambda>k. None), resourceType = ''image''\<rparr>,
       ImageUrl ''https://a.example/p.png''] example_world)) ''https://a.example/p.png'' = 1
   \<and> count_list (analyzer_requests example_runtime (snd (run_events
      ([ImageUrl ''https://a.example/p.png'',
        Completed \<lparr>d_url = ''https://a.example/p.png'', statusCode = 200,
                   responseHeaders = (\<lambda>k. None), resourceType = ''image''\<rparr>,
        ImageUrl ''https://a.example/p.png'']
       @ Navigated # [ImageUrl ''https://a.example/p.png'']) example_world)))
      ''https://a.example/p.png'' = 2"
  using image_dedup_per_epoch [of
      "[ImageUrl ''https://a.example/p.png'',
        Completed \<lparr>d_url = ''https://a.example/p.png'', statusCode = 200,
                   responseHeaders = (\<lambda>k. None), resourceType = ''image''\<rparr>,
        ImageUrl ''https://a.example/p.png'']"
      "[ImageUrl ''https://a.example/p.png'']" example_world "''https://a.example/p.png''"
      example_runtime]
  by (simp add: example_world_def example_runtime_def isValidHttpUrl_def)

section \<open>Reconciliation of a text capture\<close>

lemma lookup_append:
  "lookup (a @ b) k = (if k \<in> fst ` set b then lookup b k else lookup a k)"
proof -
  have "map_of (rev b) k = None \<longleftrightarrow> k \<notin> fst ` set b"
    by (simp add: map_of_eq_None_iff)
  then show ?thesis
    by (auto simp: lookup_def map_add_def split: option.splits)
qed

lemma lookup_Nil [simp]: "lookup [] k = VUndef"
  by (simp add: lookup_def)

lemma lookup_snoc [simp]: "lookup (a @ [(k', v)]) k = (if k = k' then v else lookup a k)"
  by (simp add: lookup_def)

lemma lookup_single [simp]: "lookup [(k', v)] k = (if k = k' then v else VUndef)"
  by (simp add: lookup_def)

lemma lookup_not_key: "k \<notin> fst ` set b \<Longrightarrow> lookup (a @ b) k = lookup a k"
  by (simp add: lookup_append)

lemma keys_overrides_Some:
  "fst ` set (gemini_overrides (Some g)) = set [''ai_generated_probability'', ''misinformation_risk'', ''credibility_score'',
                    ''explanation'', ''ai_summary'', ''topic'', ''key_claims'']"
  by (simp add: gemini_overrides_def)

lemma keys_overrides_None:
  "fst ` set (gemini_overrides None) = set [''ai_summary'', ''topic'', ''key_claims'']"
  by (simp add: gemini_overrides_def)

lemma overrides_Some_values:
  "lookup (gemini_overrides (Some g)) ''ai_generated_probability'' = VNum (g_ai_generated_probability g)"
  "lookup (gemini_overrides (Some g)) ''misinformation_risk'' = VStr (g_misinformation_risk g)"
  "lookup (gemini_overrides (Some g)) ''credibility_score'' = VNum (g_credibility_score g)"
  "lookup (gemini_overrides (Some g)) ''explanation'' = VArr (g_forensic_explanation g)"
  "lookup (gemini_overrides (Some g)) ''ai_summary'' = VStr (g_ai_summary g)"
  "lookup (gemini_overrides (Some g)) ''topic'' = g_topic g"
  "lookup (gemini_overrides (Some g)) ''key_claims'' = VArr (g_key_claims g)"
  by (simp_all add: gemini_overrides_def lookup_def)

lemma overrides_None_values:
  "lookup (gemini_overrides None) ''ai_summary'' = VNull"
  "lookup (gemini_overrides None) ''topic'' = VNull"
  "lookup (gemini_overrides None) ''key_claims'' = VArr []"
  by (simp_all add: gemini_overrides_def lookup_def)

lemma text_entity_lookup:
  "lookup (text_entity eid tp analysis gemini now) k =
     (if k = ''detected_at'' then VNum (real_of_int now)
      else if k \<in> fst ` set (gemini_overrides gemini) then lookup (gemini_overrides gemini) k
      else if k \<in> fst ` set (own_props analysis) then lookup (own_props analysis) k
      else if k \<in> fst ` set (payload_props tp) then lookup (payload_props tp) k
      else lookup [(''entity_id'', VStr eid), (''entity_type'', VStr ''TEXT'')] k)"
proof -
  have "text_entity eid tp analysis gemini now =
     ((([(''entity_id'', VStr eid), (''entity_type'', VStr ''TEXT'')]
     @ payload_props tp) @ own_props analysis) @ gemini_overrides gemini)
     @ [(''detected_at'', VNum (real_of_int now))]"
    by (simp add: text_entity_def)
  then show ?thesis
    by (simp only: lookup_snoc lookup_append) simp
qed


text \<open>
  Claim C2. With an enrichment result, the merged entity's \<^verbatim>\<open>ai_generated_probability\<close>,
  \<^verbatim>\<open>misinformation_risk\<close>, \<^verbatim>\<open>credibility_score\<close> and findings (\<^verbatim>\<open>explanation\<close>) are
  the enrichment's, \<^verbatim>\<open>ai_summary\<close>, \<^verbatim>\<open>topic\<close> and \<^verbatim>\<open>key_claims\<close> are added, and
  every other field but \<^verbatim>\<open>detected_at\<close> is what the capture and the primary analysis
  give. Without one, \<^verbatim>\<open>ai_summary\<close> and \<^verbatim>\<open>topic\<close> are \<^verbatim>\<open>null\<close>, \<^verbatim>\<open>key_claims\<close> is
  the empty array, and every other field but \<^verbatim>\<open>detected_at\<close> is what the capture and the
  primary analysis give. In both cases the capture's text and word count are kept, unless
  the primary analysis itself has a field of that name.
\<close>

theorem merge_precedence:
  "lookup (text_entity eid tp analysis (Some g) now) ''ai_generated_probability''
     = VNum (g_ai_generated_probability g)
   \<and> lookup (text_entity eid tp analysis (Some g) now) ''misinformation_risk''
     = VStr (g_misinformation_risk g)
   \<and> lookup (text_entity eid tp analysis (Some g) now) ''credibility_score''
     = VNum (g_credibility_score g)
   \<and> lookup (text_entity eid tp analysis (Some g) now) ''explanation''
     = VArr (g_forensic_explanation g)
   \<and> lookup (text_entity eid tp analysis (Some g) now) ''ai_summary'' = VStr (g_ai_summary g)
   \<and> lookup (text_entity eid tp analysis (Some g) now) ''topic'' = g_topic g
   \<and> lookup (text_entity eid tp analysis (Some g) now) ''key_claims'' = VArr (g_key_claims g)
   \<and> (\<forall>k. k \<notin> set [''ai_generated_probability'', ''misinformation_risk'',
                      ''credibility_score'', ''explanation'', ''ai_summary'', ''topic'',
                      ''key_claims'', ''detected_at''] \<longrightarrow>
          lookup (text_entity eid tp analysis (Some g) now) k
            = lookup ([(''entity_id'', VStr eid), (''entity_type'', VStr ''TEXT'')]
                      @ payload_props tp @ own_props analysis) k)
   \<and> lookup (text_entity eid tp analysis None now) ''ai_summary'' = VNull
   \<and> lookup (text_entity eid tp analysis None now) ''topic'' = VNull
   \<and> lookup (text_entity eid tp analysis None now) ''key_claims'' = VArr []
   \<and> (\<forall>k. k \<notin> set [''ai_summary'', ''topic'', ''key_claims'', ''detected_at''] \<longrightarrow>
          lookup (text_entity eid tp analysis None now) k
            = lookup ([(''entity_id'', VStr eid), (''entity_type'', VStr ''TEXT'')]
                      @ payload_props tp @ own_props analysis) k)
   \<and> (\<forall>gemini. ''text'' \<notin> fst ` set (own_props analysis) \<longrightarrow>
          lookup (text_entity eid tp analysis gemini now) ''text'' = VStr (tp_text tp))
   \<and> (\<forall>gemini. ''word_count'' \<notin> fst ` set (own_props analysis) \<longrightarrow>
          lookup (text_entity eid tp analysis gemini now) ''word_count'' = VNum (tp_word_count tp))"
proof -
  have base: "\<And>k. lookup ([(''entity_id'', VStr eid), (''entity_type'', VStr ''TEXT'')]
                      @ payload_props tp @ own_props analysis) k =
      (if k \<in> fst ` set (own_props analysis) then lookup (own_props analysis) k
       else if k \<in> fst ` set (payload_props tp) then lookup (payload_props tp) k
       else lookup [(''entity_id'', VStr eid), (''entity_type'', VStr ''TEXT'')] k)"
    by (simp only: lookup_append append_assoc [symmetric])
  have pk: "\<And>gemini. ''text'' \<notin> fst ` set (gemini_overrides gemini)
                     \<and> ''word_count'' \<notin> fst ` set (gemini_overrides gemini)"
    by (case_tac gemini) (simp_all add: keys_overrides_Some keys_overrides_None)
  have pv: "lookup (payload_props tp) ''text'' = VStr (tp_text tp)"
    "lookup (payload_props tp) ''word_count'' = VNum (tp_word_count tp)"
    "''text'' \<in> fst ` set (payload_props tp)" "''word_count'' \<in> fst ` set (payload_props tp)"
    by (simp_all add: payload_props_def lookup_def)
  show ?thesis
    unfolding text_entity_lookup base
    by (simp add: keys_overrides_Some keys_overrides_None overrides_Some_values
        overrides_None_values pk pv)
qed

theorem merge_precedence_witness:
  "lookup (text_entity ''e1'' example_payload example_analysis (Some example_gemini) 7)
     ''ai_generated_probability'' = VNum 0.9
   \<and> lookup (text_entity ''e1'' example_payload example_analysis (Some example_gemini) 7)
     ''trust_score'' = VNum 80
   \<and> lookup (text_entity ''e1'' example_payload example_analysis None 7)
     ''misinformation_risk'' = VStr ''LOW''
   \<and> lookup (text_entity ''e1'' example_payload example_analysis None 7)
     ''word_count'' = VNum 321"
proof -
  note m = merge_precedence [of "''e1''" example_payload example_analysis example_gemini 7]
  from m have a: "\<forall>k. k \<notin> set [''ai_generated_probability'', ''misinformation_risk'',
                      ''credibility_score'', ''explanation'', ''ai_summary'', ''topic'',
                      ''key_claims'', ''detected_at''] \<longrightarrow>
          lookup (text_entity ''e1'' example_payload example_analysis (Some example_gemini) 7) k
            = lookup ([(''entity_id'', VStr ''e1''), (''entity_type'', VStr ''TEXT'')]
                      @ payload_props example_payload @ own_props example_analysis) k"
    by blast
  from m have b: "\<forall>k. k \<notin> set [''ai_summary'', ''topic'', ''key_claims'', ''detected_at''] \<longrightarrow>
          lookup (text_entity ''e1'' example_payload example_analysis None 7) k
            = lookup ([(''entity_id'', VStr ''e1''), (''entity_type'', VStr ''TEXT'')]
                      @ payload_props example_payload @ own_props example_analysis) k"
    by blast
  from m have c: "lookup (text_entity ''e1'' example_payload example_analysis (Some example_gemini) 7)
     ''ai_generated_probability'' = VNum (g_ai_generated_probability example_gemini)"
    by blast
  show ?thesis
    using a [rule_format, of "''trust_score''"] b [rule_format, of "''misinformation_risk''"]
      b [rule_format, of "''word_count''"] c
    by (simp add: lookup_def payload_props_def example_payload_def example_analysis_def
        example_gemini_def)
qed

section \<open>Enrichment failure falls back to the primary analysis\<close>

lemma text_params_write:
  assumes nf: "\<not> failing d"
    and risk: "\<exists>r. lookup entity ''misinformation_risk'' = VStr r"
    and url: "lookup entity ''url'' = VStr u"
    and tx: "lookup entity ''text'' = VStr t"
    and ttl: "lookup entity ''content_title'' = VUndef"
  shows "\<exists>row. entity_written dv now (text_params eid entity) d =
            d\<lparr>entities := filter (\<lambda>old. entity_id old \<noteq> entity_id row) (entities d) @ [row]\<rparr>
          \<and> entity_id row = or_else (VStr eid) (VStr ''unknown'')
          \<and> entity_type row = ''TEXT''
          \<and> source_url row = VStr u
          \<and> extracted_text row = VStr t
          \<and> analysis_json row = json_roundtrip (VObj
                [(''ai_generated_probability'', lookup entity ''ai_generated_probability''),
                 (''credibility_score'', lookup entity ''credibility_score''),
                 (''trust_score'', lookup entity ''trust_score'')])"
proof -
  let ?p = "text_params eid entity"
  have l: "lookup ?p ''detected_at'' = VUndef" "lookup ?p ''entity_type'' = VStr ''TEXT''"
    "lookup ?p ''risk_level'' = lookup entity ''misinformation_risk''"
    "lookup ?p ''misinformation_risk'' = VUndef" "lookup ?p ''entity_id'' = VStr eid"
    "lookup ?p ''source_url'' = VStr u" "lookup ?p ''title'' = VUndef"
    "lookup ?p ''content_title'' = VUndef" "lookup ?p ''text'' = VStr t"
    "lookup ?p ''url'' = VUndef" "lookup ?p ''image_url'' = VUndef"
    "lookup ?p ''analysis'' = VObj
                [(''ai_generated_probability'', lookup entity ''ai_generated_probability''),
                 (''credibility_score'', lookup entity ''credibility_score''),
                 (''trust_score'', lookup entity ''trust_score'')]"
    by (simp_all add: text_params_def lookup_def [of "_ # _"] url tx ttl nullish_or_def)
  have ds: "detectedIso (date_value dv) now ?p = Inr (nowIso now)"
    by (simp add: detectedIso_def l)
  have et: "toUpperCase (or_else (lookup ?p ''entity_type'') (VStr ''UNKNOWN'')) = Inr ''TEXT''"
    by (simp add: l or_else_def toUpperCase_TEXT)
  obtain rk where rk: "toUpperCase (or_else (or_else (lookup ?p ''risk_level'')
        (lookup ?p ''misinformation_risk'')) (VStr ''LOW'')) = Inr rk"
    using risk toUpperCase_risk [of "lookup entity ''misinformation_risk''"] by (auto simp: l)
  let ?row = "entity_params ?p ''TEXT'' rk (nowIso now)"
  have f: "entity_id ?row = or_else (VStr eid) (VStr ''unknown'')" "source_url ?row = VStr u"
    "title ?row = VStr []" "extracted_text ?row = VStr t" "entity_type ?row = ''TEXT''"
    "analysis_json ?row = json_roundtrip (VObj
                [(''ai_generated_probability'', lookup entity ''ai_generated_probability''),
                 (''credibility_score'', lookup entity ''credibility_score''),
                 (''trust_score'', lookup entity ''trust_score'')])"
    by (auto simp: entity_params_def l or_else_def)
  have "entity_write dv now ?p d =
           Inr (d\<lparr>entities :=
                  filter (\<lambda>old. entity_id old \<noteq> entity_id ?row) (entities d) @ [?row]\<rparr>)"
    by (rule entity_write_text [OF nf ds et _ rk])
       (simp_all add: f entity_types_def or_else_def)
  then show ?thesis
    using f by (intro exI [of _ ?row]) (simp add: entity_written_def)
qed

lemma lookup_notin: "k \<notin> fst ` set a \<Longrightarrow> lookup a k = VUndef"
proof -
  assume "k \<notin> fst ` set a"
  then have "map_of (rev a) k = None"
    by (simp add: map_of_eq_None_iff)
  then show ?thesis by (simp add: lookup_def)
qed

lemma text_entity_primary_field:
  assumes "k \<notin> fst ` set (gemini_overrides gemini)" and "k \<noteq> ''detected_at''"
    and "k \<notin> set [''entity_id'', ''entity_type'', ''title'', ''url'', ''text'', ''word_count'',
                    ''timestamp'']"
  shows "lookup (text_entity eid tp (VObj a) gemini now) k = lookup a k"
proof -
  have "k \<notin> fst ` set (payload_props tp)"
    using assms(3) by (simp add: payload_props_def)
  moreover have "lookup [(''entity_id'', VStr eid), (''entity_type'', VStr ''TEXT'')] k = VUndef"
    using assms(3) by (simp add: lookup_def)
  ultimately show ?thesis
    using assms(1,2) by (simp add: text_entity_lookup lookup_notin)
qed

lemma text_entity_capture_field:
  assumes "k \<notin> fst ` set (gemini_overrides gemini)" and "k \<noteq> ''detected_at''"
    and "k \<notin> fst ` set a" and "k \<in> fst ` set (payload_props tp)"
  shows "lookup (text_entity eid tp (VObj a) gemini now) k = lookup (payload_props tp) k"
  using assms by (simp add: text_entity_lookup)

text \<open>
  Claim C4. \<^verbatim>\<open>callGeminiAnalysis\<close> never rejects, and it returns \<^verbatim>\<open>null\<close> when the
  request fails or times out, when the status is not 2xx, when the body is not JSON, when
  the reply carries no text (an error payload has no \<^verbatim>\<open>candidates\<close>, so the text is
  empty), when the text does not parse, and when the parsed value has no string
  \<^verbatim>\<open>summary\<close>. With a \<^verbatim>\<open>null\<close> enrichment and an answer of the primary analyzer,
  \<^verbatim>\<open>postTextToBackend\<close> returns normally, the entity built from the capture and the
  primary analysis alone is in the cache and is sent to the renderer, and it is in the
  \<^verbatim>\<open>entities\<close> table when the database is open and working and the primary analysis
  has a \<^verbatim>\<open>misinformation_risk\<close> string and no field named \<^verbatim>\<open>url\<close>, \<^verbatim>\<open>text\<close> or
  \<^verbatim>\<open>content_title\<close>.
\<close>

theorem enrichment_failure_falls_back:
  "(\<exists>g. callGeminiAnalysis rt key gf = Inr g)
   \<and> (\<forall>e. gf = Inl e \<longrightarrow> callGeminiAnalysis rt key gf = Inr None)
   \<and> (\<forall>res. gf = Inr res \<and> \<not> ok res \<longrightarrow> callGeminiAnalysis rt key gf = Inr None)
   \<and> (\<forall>res e. gf = Inr res \<and> body res = Inl e \<longrightarrow> callGeminiAnalysis rt key gf = Inr None)
   \<and> (\<forall>res data. gf = Inr res \<and> body res = Inr data \<and> (\<forall>raw. candidate_text data \<noteq> VStr raw)
         \<longrightarrow> callGeminiAnalysis rt key gf = Inr None)
   \<and> (\<forall>res data raw. gf = Inr res \<and> body res = Inr data \<and> candidate_text data = VStr raw
         \<and> json_parse rt (clean_reply raw) = None
         \<longrightarrow> callGeminiAnalysis rt key gf = Inr None)
   \<and> (\<forall>res data. gf = Inr res \<and> body res = Inr data \<and> opt_get data ''candidates'' = VUndef
         \<and> json_parse rt '''' = None
         \<longrightarrow> callGeminiAnalysis rt key gf = Inr None)
   \<and> (\<forall>res data raw parsed. gf = Inr res \<and> body res = Inr data \<and> candidate_text data = VStr raw
         \<and> json_parse rt (clean_reply raw) = Some parsed
         \<and> (\<forall>s. opt_get parsed ''summary'' \<noteq> VStr s)
         \<longrightarrow> callGeminiAnalysis rt key gf = Inr None)
   \<and> (\<forall>res a. isValidHttpUrl rt (tp_url tp) \<and> ok res \<and> body res = Inr (VObj a)
         \<and> callGeminiAnalysis rt key gf = Inr None
         \<longrightarrow> (\<exists>w'. postTextToBackend rt sid now uuid key tp (Inr res) gf False w = Inr w'
                \<and> ENTITY_CACHE w' (VStr (text_entity_id rt tp))
                    = Some (text_entity (text_entity_id rt tp) tp (VObj a) None now)
                \<and> last (sent w')
                    = (''text-monitor:analysis'',
                       text_event (text_entity_id rt tp) tp (VObj a)
                         (text_entity (text_entity_id rt tp) tp (VObj a) None now) now)
                \<and> (\<forall>d. db w = Some d \<and> \<not> failing d
                        \<and> (\<exists>r. lookup a ''misinformation_risk'' = VStr r)
                        \<and> (\<forall>k\<in>set [''url'', ''text'', ''content_title'']. k \<notin> fst ` set a)
                     \<longrightarrow> (\<exists>d' row. db w' = Some d' \<and> row \<in> set (entities d')
                            \<and> entity_id row
                                = or_else (VStr (text_entity_id rt tp)) (VStr ''unknown'')
                            \<and> source_url row = VStr (tp_url tp)
                            \<and> extracted_text row = VStr (tp_text tp)
                            \<and> analysis_json row = json_roundtrip (VObj
                                 [(''ai_generated_probability'', lookup a ''ai_generated_probability''),
                                  (''credibility_score'', lookup a ''credibility_score''),
                                  (''trust_score'', lookup a ''trust_score'')])))))"
proof -
  have store: "\<And>res a. isValidHttpUrl rt (tp_url tp) \<and> ok res \<and> body res = Inr (VObj a)
         \<and> callGeminiAnalysis rt key gf = Inr None
         \<Longrightarrow> (\<exists>w'. postTextToBackend rt sid now uuid key tp (Inr res) gf False w = Inr w'
                \<and> ENTITY_CACHE w' (VStr (text_entity_id rt tp))
                    = Some (text_entity (text_entity_id rt tp) tp (VObj a) None now)
                \<and> last (sent w')
                    = (''text-monitor:analysis'',
                       text_event (text_entity_id rt tp) tp (VObj a)
                         (text_entity (text_entity_id rt tp) tp (VObj a) None now) now)
                \<and> (\<forall>d. db w = Some d \<and> \<not> failing d
                        \<and> (\<exists>r. lookup a ''misinformation_risk'' = VStr r)
                        \<and> (\<forall>k\<in>set [''url'', ''text'', ''content_title'']. k \<notin> fst ` set a)
                     \<longrightarrow> (\<exists>d' row. db w' = Some d' \<and> row \<in> set (entities d')
                            \<and> entity_id row
                                = or_else (VStr (text_entity_id rt tp)) (VStr ''unknown'')
                            \<and> source_url row = VStr (tp_url tp)
                            \<and> extracted_text row = VStr (tp_text tp)
                            \<and> analysis_json row = json_roundtrip (VObj
                                 [(''ai_generated_probability'', lookup a ''ai_generated_probability''),
                                  (''credibility_score'', lookup a ''credibility_score''),
                                  (''trust_score'', lookup a ''trust_score'')]))))"
  proof -
    fix res :: response and a :: obj
    let ?eid = "text_entity_id rt tp"
    let ?ent = "text_entity ?eid tp (VObj a) None now"
    assume h: "isValidHttpUrl rt (tp_url tp) \<and> ok res \<and> body res = Inr (VObj a)
         \<and> callGeminiAnalysis rt key gf = Inr None"
    then have run: "postTextToBackend rt sid now uuid key tp (Inr res) gf False w =
           try_catch_world (text_store rt sid now uuid tp (VObj a) None w)
             (analysis_failed now uuid sid ''TEXT'' (tp_url tp))"
      by (intro postText_reaches_store) auto
    have fields: "lookup ?ent ''ai_generated_probability'' = lookup a ''ai_generated_probability''"
      "lookup ?ent ''credibility_score'' = lookup a ''credibility_score''"
      "lookup ?ent ''trust_score'' = lookup a ''trust_score''"
      "lookup ?ent ''misinformation_risk'' = lookup a ''misinformation_risk''"
      by (rule text_entity_primary_field; simp add: keys_overrides_None)+
    have persisted: "\<exists>d' row. map_option
              (\<lambda>d. audit_written now uuid (VStr ''ENTITY_DETECTED'') (VStr ?eid) (VStr sid)
                      (VObj [(''type'', VStr ''TEXT''),
                             (''risk_level'', lookup ?ent ''misinformation_risk'')])
                   (trust_written now (VStr ?eid)
                      (nullish_or (lookup ?ent ''trust_score'') (VNum 0))
                      (nullish_or (lookup ?ent ''trust_score_delta'') (VNum 0))
                   (entity_written rt now (text_params ?eid ?ent) d)))
              (db w) = Some d' \<and> row \<in> set (entities d')
                            \<and> entity_id row = or_else (VStr ?eid) (VStr ''unknown'')
                            \<and> source_url row = VStr (tp_url tp)
                            \<and> extracted_text row = VStr (tp_text tp)
                            \<and> analysis_json row = json_roundtrip (VObj
                                 [(''ai_generated_probability'', lookup a ''ai_generated_probability''),
                                  (''credibility_score'', lookup a ''credibility_score''),
                                  (''trust_score'', lookup a ''trust_score'')])"
      if p: "db w = Some d \<and> \<not> failing d
                        \<and> (\<exists>r. lookup a ''misinformation_risk'' = VStr r)
                        \<and> (\<forall>k\<in>set [''url'', ''text'', ''content_title'']. k \<notin> fst ` set a)" for d
    proof -
      have u: "lookup ?ent ''url'' = VStr (tp_url tp)"
        using p by (subst text_entity_capture_field)
          (simp_all add: keys_overrides_None payload_props_def lookup_def)
      have t: "lookup ?ent ''text'' = VStr (tp_text tp)"
        using p by (subst text_entity_capture_field)
          (simp_all add: keys_overrides_None payload_props_def lookup_def)
      have c: "lookup ?ent ''content_title'' = VUndef"
        using p by (subst text_entity_primary_field)
          (simp_all add: keys_overrides_None lookup_notin)
      have r: "\<exists>r. lookup ?ent ''misinformation_risk'' = VStr r"
        using p fields by simp
      from p have nf: "\<not> failing d" by simp
      from text_params_write [OF nf r u t c, of rt now ?eid]
      obtain row where row: "entity_written rt now (text_params ?eid ?ent) d =
            d\<lparr>entities := filter (\<lambda>old. entity_id old \<noteq> entity_id row) (entities d) @ [row]\<rparr>"
          "entity_id row = or_else (VStr ?eid) (VStr ''unknown'')"
          "source_url row = VStr (tp_url tp)" "extracted_text row = VStr (tp_text tp)"
          "analysis_json row = json_roundtrip (VObj
                [(''ai_generated_probability'', lookup ?ent ''ai_generated_probability''),
                 (''credibility_score'', lookup ?ent ''credibility_score''),
                 (''trust_score'', lookup ?ent ''trust_score'')])"
        by blast
      let ?d' = "audit_written now uuid (VStr ''ENTITY_DETECTED'') (VStr ?eid) (VStr sid)
                      (VObj [(''type'', VStr ''TEXT''),
                             (''risk_level'', lookup ?ent ''misinformation_risk'')])
                   (trust_written now (VStr ?eid)
                      (nullish_or (lookup ?ent ''trust_score'') (VNum 0))
                      (nullish_or (lookup ?ent ''trust_score_delta'') (VNum 0))
                   (entity_written rt now (text_params ?eid ?ent) d))"
      have m: "row \<in> set (entities ?d')"
        by (simp add: row(1))
      show ?thesis
        apply (rule exI [of _ ?d'])
        apply (rule exI [of _ row])
        using p m row(2-5) by (simp del: json_roundtrip.simps add: fields)
    qed
    let ?F = "\<lambda>d. audit_written now uuid (VStr ''ENTITY_DETECTED'') (VStr ?eid) (VStr sid)
                      (VObj [(''type'', VStr ''TEXT''),
                             (''risk_level'', lookup ?ent ''misinformation_risk'')])
                   (trust_written now (VStr ?eid)
                      (nullish_or (lookup ?ent ''trust_score'') (VNum 0))
                      (nullish_or (lookup ?ent ''trust_score_delta'') (VNum 0))
                   (entity_written rt now (text_params ?eid ?ent) d))"
    define w' where "w' = w\<lparr>ENTITY_CACHE := (ENTITY_CACHE w)(VStr ?eid \<mapsto> ?ent),
            db := map_option ?F (db w),
            sent := sent w @ [(''text-monitor:analysis'', text_event ?eid tp (VObj a) ?ent now)]\<rparr>"
    have r: "postTextToBackend rt sid now uuid key tp (Inr res) gf False w = Inr w'"
      unfolding run text_store_eq try_catch_world_def w'_def by simp
    have c: "ENTITY_CACHE w' (VStr ?eid) = Some ?ent"
      by (simp add: w'_def)
    have s: "last (sent w') = (''text-monitor:analysis'', text_event ?eid tp (VObj a) ?ent now)"
      by (simp add: w'_def)
    have dbw: "db w' = map_option ?F (db w)"
      by (simp add: w'_def)
    show "\<exists>w'. postTextToBackend rt sid now uuid key tp (Inr res) gf False w = Inr w'
                \<and> ENTITY_CACHE w' (VStr ?eid) = Some ?ent
                \<and> last (sent w') = (''text-monitor:analysis'',
                       text_event ?eid tp (VObj a) ?ent now)
                \<and> (\<forall>d. db w = Some d \<and> \<not> failing d
                        \<and> (\<exists>r. lookup a ''misinformation_risk'' = VStr r)
                        \<and> (\<forall>k\<in>set [''url'', ''text'', ''content_title'']. k \<notin> fst ` set a)
                     \<longrightarrow> (\<exists>d' row. db w' = Some d' \<and> row \<in> set (entities d')
                            \<and> entity_id row = or_else (VStr ?eid) (VStr ''unknown'')
                            \<and> source_url row = VStr (tp_url tp)
                            \<and> extracted_text row = VStr (tp_text tp)
                            \<and> analysis_json row = json_roundtrip (VObj
                                 [(''ai_generated_probability'', lookup a ''ai_generated_probability''),
                                  (''credibility_score'', lookup a ''credibility_score''),
                                  (''trust_score'', lookup a ''trust_score'')])))"
    proof (rule exI [of _ w'], intro conjI allI impI)
      show "postTextToBackend rt sid now uuid key tp (Inr res) gf False w = Inr w'"
        by (rule r)
      show "ENTITY_CACHE w' (VStr ?eid) = Some ?ent"
        by (rule c)
      show "last (sent w') = (''text-monitor:analysis'', text_event ?eid tp (VObj a) ?ent now)"
        by (rule s)
    next
      fix d
      assume "db w = Some d \<and> \<not> failing d
                        \<and> (\<exists>r. lookup a ''misinformation_risk'' = VStr r)
                        \<and> (\<forall>k\<in>set [''url'', ''text'', ''content_title'']. k \<notin> fst ` set a)"
      from persisted [OF this]
      show "\<exists>d' row. db w' = Some d' \<and> row \<in> set (entities d')
                            \<and> entity_id row = or_else (VStr ?eid) (VStr ''unknown'')
                            \<and> source_url row = VStr (tp_url tp)
                            \<and> extracted_text row = VStr (tp_text tp)
                            \<and> analysis_json row = json_roundtrip (VObj
                                 [(''ai_generated_probability'', lookup a ''ai_generated_probability''),
                                  (''credibility_score'', lookup a ''credibility_score''),
                                  (''trust_score'', lookup a ''trust_score'')])"
        unfolding dbw .
    qed
  qed
  show ?thesis
    using callGemini_total [of rt key gf] callGemini_fetch_rejects [of rt key]
      callGemini_not_ok [of _ rt key] callGemini_body_throws [of _ _ rt key]
      callGemini_not_text [of _ _ rt key] callGemini_parse_fails [of _ _ _ rt key]
      callGemini_shape [of _ _ _ rt _ key] store
      candidate_text_no_candidates clean_reply_empty
    by (intro conjI allI impI) (auto simp del: not_None_eq)
qed

theorem enrichment_failure_falls_back_witness:
  "callGeminiAnalysis example_runtime ''k''
      (Inr \<lparr>ok = False, status = 429, body = Inl SyntaxError\<rparr>) = Inr None
   \<and> (\<exists>w' d' row.
        postTextToBackend example_runtime ''s1'' 1700000000123 ''u1'' ''k'' example_payload
          (Inr (ok_response example_analysis))
          (Inr \<lparr>ok = False, status = 429, body = Inl SyntaxError\<rparr>) False example_world = Inr w'
        \<and> ENTITY_CACHE w' (VStr (text_entity_id example_runtime example_payload))
            = Some (text_entity (text_entity_id example_runtime example_payload) example_payload
                      example_analysis None 1700000000123)
        \<and> db w' = Some d' \<and> row \<in> set (entities d')
        \<and> source_url row = VStr ''https://n.example/a'')"
proof -
  let ?gf = "Inr \<lparr>ok = False, status = 429, body = Inl SyntaxError\<rparr> :: error + response"
  let ?a = "[(''ai_generated_probability'', VNum 0.2), (''misinformation_risk'', VStr ''LOW''),
           (''credibility_score'', VNum 0.7), (''explanation'', VArr [VStr ''p1'']),
           (''trust_score'', VNum 80), (''trust_score_delta'', VNum (- 20)),
           (''session_id'', VStr ''s1'')]"
  note t = enrichment_failure_falls_back [of example_runtime "''k''" ?gf example_payload
      "''s1''" 1700000000123 "''u1''" example_world]
  from t have n: "callGeminiAnalysis example_runtime ''k'' ?gf = Inr None"
    by simp
  have h: "isValidHttpUrl example_runtime (tp_url example_payload)
      \<and> ok (ok_response example_analysis)
      \<and> body (ok_response example_analysis) = Inr (VObj ?a)
      \<and> callGeminiAnalysis example_runtime ''k'' ?gf = Inr None"
    using n by (simp add: isValidHttpUrl_def example_runtime_def example_payload_def
        ok_response_def example_analysis_def)
  have p: "db example_world = Some empty_database \<and> \<not> failing empty_database
      \<and> (\<exists>r. lookup ?a ''misinformation_risk'' = VStr r)
      \<and> (\<forall>k\<in>set [''url'', ''text'', ''content_title'']. k \<notin> fst ` set ?a)"
    by (simp add: example_world_def empty_database_def lookup_def)
  from t [THEN conjunct2, THEN conjunct2, THEN conjunct2, THEN conjunct2, THEN conjunct2,
      THEN conjunct2, THEN conjunct2, THEN conjunct2, rule_format, OF h]
  obtain w' where w: "postTextToBackend example_runtime ''s1'' 1700000000123 ''u1'' ''k''
        example_payload (Inr (ok_response example_analysis)) ?gf False example_world = Inr w'"
    "ENTITY_CACHE w' (VStr (text_entity_id example_runtime example_payload))
            = Some (text_entity (text_entity_id example_runtime example_payload) example_payload
                      (VObj ?a) None 1700000000123)"
    and q: "\<forall>d. db example_world = Some d \<and> \<not> failing d
                        \<and> (\<exists>r. lookup ?a ''misinformation_risk'' = VStr r)
                        \<and> (\<forall>k\<in>set [''url'', ''text'', ''content_title'']. k \<notin> fst ` set ?a)
                     \<longrightarrow> (\<exists>d' row. db w' = Some d' \<and> row \<in> set (entities d')
                            \<and> entity_id row
                                = or_else (VStr (text_entity_id example_runtime example_payload))
                                    (VStr ''unknown'')
                            \<and> source_url row = VStr (tp_url example_payload)
                            \<and> extracted_text row = VStr (tp_text example_payload)
                            \<and> analysis_json row = json_roundtrip (VObj
                                 [(''ai_generated_probability'', lookup ?a ''ai_generated_probability''),
                                  (''credibility_score'', lookup ?a ''credibility_score''),
                                  (''trust_score'', lookup ?a ''trust_score'')]))"
    by blast
  from q [rule_format, OF p] obtain d' row where
    "db w' = Some d'" "row \<in> set (entities d')" "source_url row = VStr (tp_url example_payload)"
    by blast
  with n w show ?thesis
    by (auto simp: example_analysis_def example_payload_def)
qed

section \<open>A failed image analysis\<close>

lemma analysis_failed_eq:
  "analysis_failed now uuid sid kind url (e, w) =
     Inr (w\<lparr>db := map_option
            (audit_written now uuid (VStr ''ANALYSIS_FAILED'') (VStr '''') (VStr sid)
               (VObj [(''type'', VStr kind), (''url'', VStr url),
                      (''error'', VStr (take 120 (message e)))])) (db w)\<rparr>)"
  by (simp add: analysis_failed_def insertAuditLog_eq)

lemma audit_written_new:
  "\<not> failing d \<Longrightarrow> uuid \<notin> set (map event_id (audit_log d)) \<Longrightarrow>
   audit_written now uuid (VStr ty) (VStr e) (VStr s) m d =
     d\<lparr>audit_log := audit_log d @ [audit_params now uuid (VStr ty) (VStr e) (VStr s) m]\<rparr>"
  by (simp add: audit_written_def stmt_insertAudit_def audit_params_def bindable_def or_else_def)

text \<open>
  Claim C5, on the code. When the request to the image analyzer is answered with a status
  that is not 2xx, \<^verbatim>\<open>postImageUrlToBackend\<close> logs to the console and returns: the state is
  as before, so no entity is created, cached or stored, and no audit event is recorded
  either. When the request throws, the \<^verbatim>\<open>catch\<close> block appends an \<^verbatim>\<open>ANALYSIS_FAILED\<close>
  event to the audit log of an open, working database, and nothing else changes.
\<close>

theorem image_analysis_failure:
  "(isValidHttpUrl rt url \<and> \<not> ok res \<longrightarrow>
      postImageUrlToBackend rt sid now uuid url (Inr res) destroyed w = Inr w)
   \<and> (isValidHttpUrl rt url \<and> db w = Some d \<and> \<not> failing d
        \<and> uuid \<notin> set (map event_id (audit_log d)) \<longrightarrow>
      postImageUrlToBackend rt sid now uuid url (Inl e) destroyed w =
        Inr (w\<lparr>db := Some (d\<lparr>audit_log := audit_log d @
               [audit_params now uuid (VStr ''ANALYSIS_FAILED'') (VStr '''') (VStr sid)
                  (VObj [(''type'', VStr ''IMAGE''), (''url'', VStr url),
                         (''error'', VStr (take 120 (message e)))])]\<rparr>)\<rparr>))"
  by (simp add: postImageUrlToBackend_def try_catch_world_def analysis_failed_eq
      audit_written_new)

theorem image_analysis_failure_witness:
  "postImageUrlToBackend example_runtime ''s1'' 1700000000123 ''u1'' ''https://a.example/p.png''
     (Inr \<lparr>ok = False, status = 500, body = Inl SyntaxError\<rparr>) False example_world
   = Inr example_world
   \<and> map event_type (audit_log (the (db (projr
        (postImageUrlToBackend example_runtime ''s1'' 1700000000123 ''u1''
           ''https://a.example/p.png'' (Inl FetchError) False example_world)))))
     = [VStr ''ANALYSIS_FAILED'']"
  using image_analysis_failure [of example_runtime "''https://a.example/p.png''"
      "\<lparr>ok = False, status = 500, body = Inl SyntaxError\<rparr>" "''s1''" 1700000000123 "''u1''"
      False example_world empty_database FetchError]
  by (simp add: isValidHttpUrl_def example_runtime_def example_world_def empty_database_def
      audit_params_def)

section \<open>The trust score of a reconciled entity\<close>

lemma trust_history_entity_written [simp]:
  "trust_history (entity_written dv now p d) = trust_history d"
  using entity_write_Inr [of dv now p d]
  by (cases "entity_write dv now p d") (auto simp: entity_written_def)

lemma failing_entity_written [simp]: "failing (entity_written dv now p d) = failing d"
  using entity_write_Inr [of dv now p d]
  by (cases "entity_write dv now p d") (auto simp: entity_written_def)

lemma trust_history_audit_written [simp]:
  "trust_history (audit_written now uuid ty e s m d) = trust_history d"
  by (simp add: audit_written_def stmt_insertAudit_def)

lemma trust_written_numbers:
  "\<not> failing d \<Longrightarrow>
   trust_written now (VStr e) (VNum sc) (VNum dl) d =
     d\<lparr>trust_history := trust_history d @
        [\<lparr>t_id = Suc (length (trust_history d)), t_entity_id = VStr e, trust_score = VNum sc,
          delta = VNum dl, t_timestamp = nowIso now\<rparr>]\<rparr>"
  by (simp add: trust_written_def stmt_insertTrust_def bindable_def)

lemma image_store_eq:
  "image_store rt sid now uuid url analysis w =
     Inr (w\<lparr>ENTITY_CACHE := (ENTITY_CACHE w)(VStr (image_entity_id rt url) \<mapsto>
                 image_entity (image_entity_id rt url) url analysis now),
            db := map_option
              (\<lambda>d. audit_written now uuid (VStr ''ENTITY_DETECTED'') (VStr (image_entity_id rt url))
                      (VStr sid)
                      (VObj [(''type'', VStr ''IMAGE''),
                             (''risk_level'', opt_get analysis ''risk_level''),
                             (''fake_probability'', opt_get analysis ''fake_probability'')])
                   (trust_written now (VStr (image_entity_id rt url))
                      (nullish_or (opt_get analysis ''trust_score'') (VNum 0))
                      (nullish_or (opt_get analysis ''trust_score_delta'') (VNum 0))
                   (entity_written rt now
                      (image_params (image_entity_id rt url) url analysis) d)))
              (db w),
            sent := sent w @ [(''image-monitor:analysis'',
                       image_event (image_entity_id rt url) url analysis now)]\<rparr>)"
  by (simp add: image_store_def Let_def insertEntity_eq insertTrustHistory_eq insertAuditLog_eq
      with_db_Inr option.map_comp comp_def)

lemma postImage_reaches_store:
  assumes "isValidHttpUrl rt url" and "ok res" and "body res = Inr (VObj a)"
  shows "postImageUrlToBackend rt sid now uuid url (Inr res) False w =
           try_catch_world (image_store rt sid now uuid url (VObj a) w)
             (analysis_failed now uuid sid ''IMAGE'' url)"
  using assms by (simp add: postImageUrlToBackend_def)

lemma primary_text_fields:
  "lookup (text_entity eid tp (primary_text_analysis p risk cred findings old sid0) gemini now)
      ''trust_score'' = VNum (fst (trust_engine_update old p))"
  "lookup (text_entity eid tp (primary_text_analysis p risk cred findings old sid0) gemini now)
      ''trust_score_delta'' = VNum (snd (trust_engine_update old p))"
  "lookup (text_entity eid tp (primary_text_analysis p risk cred findings old sid0) gemini now)
      ''ai_generated_probability''
     = VNum (case gemini of None \<Rightarrow> p | Some g \<Rightarrow> g_ai_generated_probability g)"
  "opt_get (primary_text_analysis p risk cred findings old sid0) ''trust_score''
     = VNum (fst (trust_engine_update old p))"
  "opt_get (primary_text_analysis p risk cred findings old sid0) ''trust_score_delta''
     = VNum (snd (trust_engine_update old p))"
  by (cases gemini;
      simp add: primary_text_analysis_def text_entity_lookup keys_overrides_Some
        keys_overrides_None overrides_Some_values lookup_def [of "_ # _"])+

text \<open>
  Claim C3, as amended. The trust score and its delta are computed by the analyzer service
  from the probability that the service itself found: \<^verbatim>\<open>delta = -(probability * 100)\<close>,
  \<^verbatim>\<open>new_score = clamp(old_score + delta, 0, 100)\<close>, with
  \<^verbatim>\<open>ai_generated_probability\<close> for a text and \<^verbatim>\<open>fake_probability\<close> for an image. The
  main process copies both values from the service's answer into the event it sends and
  into the trust history, whatever the enrichment returned; the probability on the event is
  the enrichment's when there is one.
\<close>

theorem trust_fields_from_primary:
  "(isValidHttpUrl rt (tp_url tp) \<and> ok res
      \<and> body res = Inr (primary_text_analysis p risk cred findings old sid0)
      \<and> callGeminiAnalysis rt key gf = Inr gemini \<longrightarrow>
      (\<exists>w' ev. postTextToBackend rt sid now uuid key tp (Inr res) gf False w = Inr w'
         \<and> last (sent w') = (''text-monitor:analysis'', ev)
         \<and> lookup ev ''trust_score_delta'' = VNum (- (p * 100))
         \<and> lookup ev ''trust_score'' = VNum (max 0 (min 100 (old + - (p * 100))))
         \<and> lookup ev ''ai_generated_probability''
             = VNum (case gemini of None \<Rightarrow> p | Some g \<Rightarrow> g_ai_generated_probability g)
         \<and> (\<forall>d. db w = Some d \<and> \<not> failing d \<longrightarrow>
               (\<exists>d'. db w' = Some d'
                  \<and> trust_history d' = trust_history d @
                      [\<lparr>t_id = Suc (length (trust_history d)),
                        t_entity_id = VStr (text_entity_id rt tp),
                        trust_score = VNum (max 0 (min 100 (old + - (p * 100)))),
                        delta = VNum (- (p * 100)), t_timestamp = nowIso now\<rparr>]))))
   \<and> (isValidHttpUrl rt url \<and> ok res
      \<and> body res = Inr (primary_image_analysis p risk findings old sid0) \<longrightarrow>
      (\<exists>w' ev. postImageUrlToBackend rt sid now uuid url (Inr res) False w = Inr w'
         \<and> last (sent w') = (''image-monitor:analysis'', ev)
         \<and> lookup ev ''trust_score_delta'' = VNum (- (p * 100))
         \<and> lookup ev ''trust_score'' = VNum (max 0 (min 100 (old + - (p * 100))))
         \<and> lookup ev ''fake_probability'' = VNum p
         \<and> (\<forall>d. db w = Some d \<and> \<not> failing d \<longrightarrow>
               (\<exists>d'. db w' = Some d'
                  \<and> trust_history d' = trust_history d @
                      [\<lparr>t_id = Suc (length (trust_history d)),
                        t_entity_id = VStr (image_entity_id rt url),
                        trust_score = VNum (max 0 (min 100 (old + - (p * 100)))),
                        delta = VNum (- (p * 100)), t_timestamp = nowIso now\<rparr>]))))"
proof (intro conjI impI)
  let ?A = "primary_text_analysis p risk cred findings old sid0"
  let ?eid = "text_entity_id rt tp"
  let ?ent = "text_entity ?eid tp ?A gemini now"
  assume h: "isValidHttpUrl rt (tp_url tp) \<and> ok res \<and> body res = Inr ?A
      \<and> callGeminiAnalysis rt key gf = Inr gemini"
  have A: "?A = VObj (own_props ?A)"
    by (simp add: primary_text_analysis_def)
  have run: "postTextToBackend rt sid now uuid key tp (Inr res) gf False w =
           try_catch_world (text_store rt sid now uuid tp ?A gemini w)
             (analysis_failed now uuid sid ''TEXT'' (tp_url tp))"
    using h A postText_reaches_store [of rt tp res "own_props ?A" key gf gemini] by simp
  have e: "trust_engine_update old p = (max 0 (min 100 (old + - (p * 100))), - (p * 100))"
    by (simp add: trust_engine_update_def Let_def)
  note f = primary_text_fields
  show "\<exists>w' ev. postTextToBackend rt sid now uuid key tp (Inr res) gf False w = Inr w'
         \<and> last (sent w') = (''text-monitor:analysis'', ev)
         \<and> lookup ev ''trust_score_delta'' = VNum (- (p * 100))
         \<and> lookup ev ''trust_score'' = VNum (max 0 (min 100 (old + - (p * 100))))
         \<and> lookup ev ''ai_generated_probability''
             = VNum (case gemini of None \<Rightarrow> p | Some g \<Rightarrow> g_ai_generated_probability g)
         \<and> (\<forall>d. db w = Some d \<and> \<not> failing d \<longrightarrow>
               (\<exists>d'. db w' = Some d'
                  \<and> trust_history d' = trust_history d @
                      [\<lparr>t_id = Suc (length (trust_history d)),
                        t_entity_id = VStr (text_entity_id rt tp),
                        trust_score = VNum (max 0 (min 100 (old + - (p * 100)))),
                        delta = VNum (- (p * 100)), t_timestamp = nowIso now\<rparr>]))"
    unfolding run text_store_eq try_catch_world_def
    by (simp add: f e nullish_or_def trust_written_numbers text_event_def lookup_def [of "_ # _"])
next
  let ?A = "primary_image_analysis p risk findings old sid0"
  assume h: "isValidHttpUrl rt url \<and> ok res \<and> body res = Inr ?A"
  have A: "?A = VObj (own_props ?A)"
    by (simp add: primary_image_analysis_def)
  have run: "postImageUrlToBackend rt sid now uuid url (Inr res) False w =
           try_catch_world (image_store rt sid now uuid url ?A w)
             (analysis_failed now uuid sid ''IMAGE'' url)"
    using h A postImage_reaches_store [of rt url res "own_props ?A"] by simp
  have e: "trust_engine_update old p = (max 0 (min 100 (old + - (p * 100))), - (p * 100))"
    by (simp add: trust_engine_update_def Let_def)
  have f: "opt_get ?A ''trust_score'' = VNum (fst (trust_engine_update old p))"
    "opt_get ?A ''trust_score_delta'' = VNum (snd (trust_engine_update old p))"
    "opt_get ?A ''fake_probability'' = VNum p"
    by (simp_all add: primary_image_analysis_def lookup_def)
  show "\<exists>w' ev. postImageUrlToBackend rt sid now uuid url (Inr res) False w = Inr w'
         \<and> last (sent w') = (''image-monitor:analysis'', ev)
         \<and> lookup ev ''trust_score_delta'' = VNum (- (p * 100))
         \<and> lookup ev ''trust_score'' = VNum (max 0 (min 100 (old + - (p * 100))))
         \<and> lookup ev ''fake_probability'' = VNum p
         \<and> (\<forall>d. db w = Some d \<and> \<not> failing d \<longrightarrow>
               (\<exists>d'. db w' = Some d'
                  \<and> trust_history d' = trust_history d @
                      [\<lparr>t_id = Suc (length (trust_history d)),
                        t_entity_id = VStr (image_entity_id rt url),
                        trust_score = VNum (max 0 (min 100 (old + - (p * 100)))),
                        delta = VNum (- (p * 100)), t_timestamp = nowIso now\<rparr>]))"
    unfolding run image_store_eq try_catch_world_def
    by (simp add: f e nullish_or_def trust_written_numbers image_event_def lookup_def [of "_ # _"])
qed

lemma example_valid_url: "isValidHttpUrl example_runtime (tp_url example_payload)"
  by (simp add: isValidHttpUrl_def example_runtime_def example_payload_def)

theorem trust_fields_from_primary_witness:
  "\<exists>w' ev. postTextToBackend example_runtime ''s1'' 1700000000123 ''u1'' ''k'' example_payload
        (Inr (ok_response (primary_text_analysis 0.2 ''LOW'' 0.7 [] 100 ''s1'')))
        (Inr (gemini_response example_reply)) False example_world = Inr w'
      \<and> last (sent w') = (''text-monitor:analysis'', ev)
      \<and> lookup ev ''trust_score_delta'' = VNum (- 20)
      \<and> lookup ev ''trust_score'' = VNum 80
      \<and> lookup ev ''ai_generated_probability'' = VNum 0.9"
proof -
  have h: "isValidHttpUrl example_runtime (tp_url example_payload)
      \<and> ok (ok_response (primary_text_analysis 0.2 ''LOW'' 0.7 [] 100 ''s1''))
      \<and> body (ok_response (primary_text_analysis 0.2 ''LOW'' 0.7 [] 100 ''s1''))
          = Inr (primary_text_analysis 0.2 ''LOW'' 0.7 [] 100 ''s1'')
      \<and> callGeminiAnalysis example_runtime ''k'' (Inr (gemini_response example_reply))
          = Inr (Some example_gemini)"
    using example_valid_url example_gemini_eval by (simp add: ok_response_def)
  from trust_fields_from_primary [THEN conjunct1, rule_format, OF h,
      of "''s1''" 1700000000123 "''u1''" example_world]
  show ?thesis
    by (auto simp: example_gemini_def)
qed

text \<open>
  Claim C3 as it is written fails where an enrichment result is present: the primary
  analyzer found the probability 0.2 and stamped the delta -20; the enrichment overrides the
  probability with 0.9, and the delta on the event is still -20, not -90.
\<close>

theorem trust_delta_post_merge_counterexample:
  "lookup (snd (last (sent (projr
      (postTextToBackend example_runtime ''s1'' 1700000000123 ''u1'' ''k'' example_payload
        (Inr (ok_response (primary_text_analysis 0.2 ''LOW'' 0.7 [] 100 ''s1'')))
        (Inr (gemini_response example_reply)) False example_world)))))
     ''ai_generated_probability'' = VNum 0.9
   \<and> lookup (snd (last (sent (projr
      (postTextToBackend example_runtime ''s1'' 1700000000123 ''u1'' ''k'' example_payload
        (Inr (ok_response (primary_text_analysis 0.2 ''LOW'' 0.7 [] 100 ''s1'')))
        (Inr (gemini_response example_reply)) False example_world)))))
     ''trust_score_delta'' = VNum (- 20)
   \<and> VNum (- 20) \<noteq> VNum (- (0.9 * 100))"
proof -
  have A: "primary_text_analysis 0.2 ''LOW'' 0.7 [] 100 ''s1''
      = VObj (own_props (primary_text_analysis 0.2 ''LOW'' 0.7 [] 100 ''s1''))"
    by (simp add: primary_text_analysis_def)
  have run: "postTextToBackend example_runtime ''s1'' 1700000000123 ''u1'' ''k'' example_payload
        (Inr (ok_response (primary_text_analysis 0.2 ''LOW'' 0.7 [] 100 ''s1'')))
        (Inr (gemini_response example_reply)) False example_world
      = try_catch_world
          (text_store example_runtime ''s1'' 1700000000123 ''u1'' example_payload
             (primary_text_analysis 0.2 ''LOW'' 0.7 [] 100 ''s1'') (Some example_gemini)
             example_world)
          (analysis_failed 1700000000123 ''u1'' ''s1'' ''TEXT'' (tp_url example_payload))"
    using postText_reaches_store [of example_runtime example_payload
        "ok_response (primary_text_analysis 0.2 ''LOW'' 0.7 [] 100 ''s1'')"
        "own_props (primary_text_analysis 0.2 ''LOW'' 0.7 [] 100 ''s1'')" "''k''"
        "Inr (gemini_response example_reply)" "Some example_gemini"] A
      example_valid_url example_gemini_eval
    by (simp add: ok_response_def)
  show ?thesis
    unfolding run text_store_eq try_catch_world_def
    by (simp add: primary_text_fields text_event_def lookup_def [of "_ # _"]
        trust_engine_update_def example_gemini_def)
qed

section \<open>Entity identity and upsert\<close>

lemma entity_written_row:
  assumes "entity_written dv now p d =
             d\<lparr>entities := filter (\<lambda>old. entity_id old \<noteq> k) (entities d) @ [row]\<rparr>"
  shows "entities (audit_written now uuid ty e s m
           (trust_written now e1 sc dl (entity_written dv now p d)))
         = filter (\<lambda>old. entity_id old \<noteq> k) (entities d) @ [row]"
  by (simp add: assms)

lemma failing_after_writes:
  "failing (audit_written now uuid ty e s m
      (trust_written now e1 sc dl (entity_written dv now p d))) = failing d"
  by (simp add: audit_written_def stmt_insertAudit_def trust_written_def stmt_insertTrust_def)

lemma image_params_write:
  assumes nf: "\<not> failing d"
    and risk: "(\<exists>r. lookup a ''risk_level'' = VStr r) \<or> \<not> truthy (lookup a ''risk_level'')"
  shows "\<exists>row. entity_written dv now (image_params eid url (VObj a)) d =
            d\<lparr>entities := filter (\<lambda>old. entity_id old \<noteq> or_else (VStr eid) (VStr ''unknown''))
                              (entities d) @ [row]\<rparr>
          \<and> entity_id row = or_else (VStr eid) (VStr ''unknown'')
          \<and> entity_type row = ''IMAGE''
          \<and> source_url row = VStr url
          \<and> analysis_json row = json_roundtrip (VObj
                [(''fake_probability'', lookup a ''fake_probability''),
                 (''trust_score'', lookup a ''trust_score''),
                 (''forensic_explanation'',
                    nullish_or (lookup a ''forensic_explanation'') (VArr []))])"
proof -
  let ?p = "image_params eid url (VObj a)"
  have l: "lookup ?p ''detected_at'' = VUndef" "lookup ?p ''entity_type'' = VStr ''IMAGE''"
    "lookup ?p ''risk_level'' = lookup a ''risk_level''"
    "lookup ?p ''misinformation_risk'' = VUndef" "lookup ?p ''entity_id'' = VStr eid"
    "lookup ?p ''source_url'' = VStr url" "lookup ?p ''title'' = VUndef"
    "lookup ?p ''content_title'' = VUndef" "lookup ?p ''text'' = VUndef"
    "lookup ?p ''url'' = VUndef" "lookup ?p ''image_url'' = VUndef"
    "lookup ?p ''analysis'' = VObj
                [(''fake_probability'', lookup a ''fake_probability''),
                 (''trust_score'', lookup a ''trust_score''),
                 (''forensic_explanation'',
                    nullish_or (lookup a ''forensic_explanation'') (VArr []))]"
    by (simp_all add: image_params_def lookup_def [of "_ # _"])
  have ds: "detectedIso (date_value dv) now ?p = Inr (nowIso now)"
    by (simp add: detectedIso_def l)
  have et: "toUpperCase (or_else (lookup ?p ''entity_type'') (VStr ''UNKNOWN'')) = Inr ''IMAGE''"
    by (simp add: l or_else_def toUpperCase_IMAGE)
  obtain rk where rk: "toUpperCase (or_else (or_else (lookup ?p ''risk_level'')
        (lookup ?p ''misinformation_risk'')) (VStr ''LOW'')) = Inr rk"
    using risk toUpperCase_risk [of "lookup a ''risk_level''"] by (auto simp: l)
  let ?row = "entity_params ?p ''IMAGE'' rk (nowIso now)"
  have f: "entity_id ?row = or_else (VStr eid) (VStr ''unknown'')" "source_url ?row = VStr url"
    "title ?row = VStr []" "extracted_text ?row = VStr []" "entity_type ?row = ''IMAGE''"
    "analysis_json ?row = json_roundtrip (VObj
                [(''fake_probability'', lookup a ''fake_probability''),
                 (''trust_score'', lookup a ''trust_score''),
                 (''forensic_explanation'',
                    nullish_or (lookup a ''forensic_explanation'') (VArr []))])"
    by (auto simp: entity_params_def l or_else_def)
  have "entity_write dv now ?p d =
           Inr (d\<lparr>entities :=
                  filter (\<lambda>old. entity_id old \<noteq> entity_id ?row) (entities d) @ [?row]\<rparr>)"
    by (rule entity_write_text [OF nf ds et _ rk])
       (simp_all add: f entity_types_def or_else_def)
  then show ?thesis
    using f by (intro exI [of _ ?row]) (simp add: entity_written_def)
qed

lemma image_run_db:
  assumes v: "isValidHttpUrl rt url" and r: "ok res" "body res = Inr (VObj a)"
    and d: "db w = Some d" "\<not> failing d"
    and risk: "(\<exists>r. lookup a ''risk_level'' = VStr r) \<or> \<not> truthy (lookup a ''risk_level'')"
  shows "\<exists>w' d' row. postImageUrlToBackend rt sid now uuid url (Inr res) False w = Inr w'
           \<and> db w' = Some d' \<and> \<not> failing d'
           \<and> entities d' = filter (\<lambda>old. entity_id old
                                       \<noteq> or_else (VStr (image_entity_id rt url)) (VStr ''unknown''))
                               (entities d) @ [row]
           \<and> entity_id row = or_else (VStr (image_entity_id rt url)) (VStr ''unknown'')
           \<and> source_url row = VStr url
           \<and> analysis_json row = json_roundtrip (VObj
                [(''fake_probability'', lookup a ''fake_probability''),
                 (''trust_score'', lookup a ''trust_score''),
                 (''forensic_explanation'',
                    nullish_or (lookup a ''forensic_explanation'') (VArr []))])"
proof -
  from image_params_write [OF d(2) risk, of rt now "image_entity_id rt url" url]
  obtain row where row: "entity_written rt now
        (image_params (image_entity_id rt url) url (VObj a)) d =
            d\<lparr>entities := filter (\<lambda>old. entity_id old
                                       \<noteq> or_else (VStr (image_entity_id rt url)) (VStr ''unknown''))
                              (entities d) @ [row]\<rparr>"
    "entity_id row = or_else (VStr (image_entity_id rt url)) (VStr ''unknown'')"
    "source_url row = VStr url"
    "analysis_json row = json_roundtrip (VObj
                [(''fake_probability'', lookup a ''fake_probability''),
                 (''trust_score'', lookup a ''trust_score''),
                 (''forensic_explanation'',
                    nullish_or (lookup a ''forensic_explanation'') (VArr []))])"
    by blast
  let ?d' = "audit_written now uuid (VStr ''ENTITY_DETECTED'') (VStr (image_entity_id rt url))
                      (VStr sid)
                      (VObj [(''type'', VStr ''IMAGE''),
                             (''risk_level'', opt_get (VObj a) ''risk_level''),
                             (''fake_probability'', opt_get (VObj a) ''fake_probability'')])
                   (trust_written now (VStr (image_entity_id rt url))
                      (nullish_or (opt_get (VObj a) ''trust_score'') (VNum 0))
                      (nullish_or (opt_get (VObj a) ''trust_score_delta'') (VNum 0))
                   (entity_written rt now
                      (image_params (image_entity_id rt url) url (VObj a)) d))"
  let ?w' = "w\<lparr>ENTITY_CACHE := (ENTITY_CACHE w)(VStr (image_entity_id rt url) \<mapsto>
                 image_entity (image_entity_id rt url) url (VObj a) now),
            db := Some ?d',
            sent := sent w @ [(''image-monitor:analysis'',
                       image_event (image_entity_id rt url) url (VObj a) now)]\<rparr>"
  have 1: "postImageUrlToBackend rt sid now uuid url (Inr res) False w = Inr ?w'"
    unfolding postImage_reaches_store [OF v r] image_store_eq try_catch_world_def
    by (simp add: d)
  have 2: "\<not> failing ?d'"
    by (simp add: failing_after_writes d)
  have 3: "entities ?d' = filter (\<lambda>old. entity_id old
                                       \<noteq> or_else (VStr (image_entity_id rt url)) (VStr ''unknown''))
                               (entities d) @ [row]"
    by (simp add: row(1))
  show ?thesis
    apply (rule exI [of _ ?w'])
    apply (rule exI [of _ ?d'])
    apply (rule exI [of _ row])
    using 1 2 3 row(2-) by (simp del: json_roundtrip.simps)
qed

lemma upsert_twice:
  assumes "xs1 = filter (\<lambda>old. entity_id old \<noteq> k) xs @ [r1]" and "entity_id r1 = k"
    and "xs2 = filter (\<lambda>old. entity_id old \<noteq> k) xs1 @ [r2]" and "entity_id r2 = k"
  shows "filter (\<lambda>r. entity_id r = k) xs2 = [r2] \<and> length xs2 = length xs1"
  using assms by (simp add: filter_empty_conv)

lemma text_run_db:
  assumes v: "isValidHttpUrl rt (tp_url tp)" and r: "ok res" "body res = Inr (VObj a)"
    and g: "callGeminiAnalysis rt key gf = Inr gemini"
    and d: "db w = Some d" "\<not> failing d"
    and risk: "\<exists>r. lookup a ''misinformation_risk'' = VStr r"
    and keys: "\<forall>k\<in>set [''url'', ''text'', ''content_title'']. k \<notin> fst ` set a"
  shows "\<exists>w' d' row. postTextToBackend rt sid now uuid key tp (Inr res) gf False w = Inr w'
           \<and> db w' = Some d' \<and> \<not> failing d'
           \<and> entities d' = filter (\<lambda>old. entity_id old
                                       \<noteq> or_else (VStr (text_entity_id rt tp)) (VStr ''unknown''))
                               (entities d) @ [row]
           \<and> entity_id row = or_else (VStr (text_entity_id rt tp)) (VStr ''unknown'')
           \<and> source_url row = VStr (tp_url tp)
           \<and> extracted_text row = VStr (tp_text tp)"
proof -
  let ?eid = "text_entity_id rt tp"
  let ?ent = "text_entity ?eid tp (VObj a) gemini now"
  have nk: "''url'' \<notin> fst ` set (gemini_overrides gemini)"
    "''text'' \<notin> fst ` set (gemini_overrides gemini)"
    "''content_title'' \<notin> fst ` set (gemini_overrides gemini)"
    by (cases gemini; simp add: keys_overrides_Some keys_overrides_None)+
  have u: "lookup ?ent ''url'' = VStr (tp_url tp)"
    using keys nk by (subst text_entity_capture_field) (simp_all add: payload_props_def lookup_def)
  have t: "lookup ?ent ''text'' = VStr (tp_text tp)"
    using keys nk by (subst text_entity_capture_field) (simp_all add: payload_props_def lookup_def)
  have c: "lookup ?ent ''content_title'' = VUndef"
    using keys nk by (subst text_entity_primary_field) (simp_all add: lookup_notin)
  have m: "\<exists>r. lookup ?ent ''misinformation_risk'' = VStr r"
  proof (cases gemini)
    case None
    then have "lookup ?ent ''misinformation_risk'' = lookup a ''misinformation_risk''"
      by (subst text_entity_primary_field) (simp_all add: keys_overrides_None)
    with risk show ?thesis by simp
  next
    case (Some gr)
    then show ?thesis
      by (simp add: text_entity_lookup keys_overrides_Some overrides_Some_values)
  qed
  from text_params_write [OF d(2) m u t c, of rt now ?eid]
  obtain row where row: "entity_written rt now (text_params ?eid ?ent) d =
            d\<lparr>entities := filter (\<lambda>old. entity_id old \<noteq> entity_id row) (entities d) @ [row]\<rparr>"
      "entity_id row = or_else (VStr ?eid) (VStr ''unknown'')"
      "source_url row = VStr (tp_url tp)" "extracted_text row = VStr (tp_text tp)"
    by blast
  let ?d' = "audit_written now uuid (VStr ''ENTITY_DETECTED'') (VStr ?eid) (VStr sid)
                      (VObj [(''type'', VStr ''TEXT''),
                             (''risk_level'', lookup ?ent ''misinformation_risk'')])
                   (trust_written now (VStr ?eid)
                      (nullish_or (lookup ?ent ''trust_score'') (VNum 0))
                      (nullish_or (lookup ?ent ''trust_score_delta'') (VNum 0))
                   (entity_written rt now (text_params ?eid ?ent) d))"
  let ?w' = "w\<lparr>ENTITY_CACHE := (ENTITY_CACHE w)(VStr ?eid \<mapsto> ?ent),
            db := Some ?d',
            sent := sent w @ [(''text-monitor:analysis'', text_event ?eid tp (VObj a) ?ent now)]\<rparr>"
  have 1: "postTextToBackend rt sid now uuid key tp (Inr res) gf False w = Inr ?w'"
    unfolding postText_reaches_store [OF v r g] text_store_eq try_catch_world_def
    by (simp add: d)
  have 2: "\<not> failing ?d'"
    by (simp add: failing_after_writes d)
  have 3: "entities ?d' = filter (\<lambda>old. entity_id old \<noteq> or_else (VStr ?eid) (VStr ''unknown''))
                               (entities d) @ [row]"
    by (simp add: row(1) row(2))
  show ?thesis
    apply (rule exI [of _ ?w'])
    apply (rule exI [of _ ?d'])
    apply (rule exI [of _ row])
    using 1 2 3 row(2-) by simp
qed

lemma digest16_length: "\<forall>s. length (sha256_hex rt s) = 64 \<Longrightarrow> length (digest16 rt s) = 16"
  by (simp add: digest16_def)

lemma digest16_key:
  "\<forall>s. length (sha256_hex rt s) = 64 \<Longrightarrow>
     or_else (VStr (digest16 rt s)) (VStr ''unknown'') = VStr (digest16 rt s)"
  using digest16_length [of rt s] by (auto simp: or_else_def)

text \<open>
  Claim C1. With a 64-character hexadecimal digest, the identifier of an image capture and
  of a text capture has 16 characters; the identifier of a text capture depends on the
  capture's URL and title only (that of an image on its URL only, by the type of
  \<open>image_entity_id\<close>). When two captures with the same identifier are processed one after the
  other and both are stored, the table holds exactly one row with that identifier after the
  second, which is the second capture's row, and as many rows as after the first.
\<close>

theorem entity_identity_idempotent:
  "(\<forall>s. length (sha256_hex rt s) = 64) \<longrightarrow>
     length (image_entity_id rt url) = 16 \<and> length (text_entity_id rt tp1) = 16
   \<and> (tp_url tp1 = tp_url tp2 \<and> tp_title tp1 = tp_title tp2 \<longrightarrow>
         text_entity_id rt tp1 = text_entity_id rt tp2)
   \<and> (isValidHttpUrl rt url \<and> db w = Some d \<and> \<not> failing d
        \<and> ok res1 \<and> body res1 = Inr (VObj a1) \<and> (\<exists>r. lookup a1 ''risk_level'' = VStr r)
        \<and> ok res2 \<and> body res2 = Inr (VObj a2) \<and> (\<exists>r. lookup a2 ''risk_level'' = VStr r) \<longrightarrow>
        (\<exists>w1 w2 d1 d2 row.
           postImageUrlToBackend rt sid n1 u1 url (Inr res1) False w = Inr w1
         \<and> postImageUrlToBackend rt sid n2 u2 url (Inr res2) False w1 = Inr w2
         \<and> db w1 = Some d1 \<and> db w2 = Some d2
         \<and> filter (\<lambda>r. entity_id r = VStr (image_entity_id rt url)) (entities d2) = [row]
         \<and> length (entities d2) = length (entities d1)
         \<and> analysis_json row = json_roundtrip (VObj
              [(''fake_probability'', lookup a2 ''fake_probability''),
               (''trust_score'', lookup a2 ''trust_score''),
               (''forensic_explanation'',
                  nullish_or (lookup a2 ''forensic_explanation'') (VArr []))])))
   \<and> (tp_url tp1 = tp_url tp2 \<and> tp_title tp1 = tp_title tp2
        \<and> isValidHttpUrl rt (tp_url tp1) \<and> db w = Some d \<and> \<not> failing d
        \<and> ok res1 \<and> body res1 = Inr (VObj a1)
        \<and> (\<exists>r. lookup a1 ''misinformation_risk'' = VStr r)
        \<and> (\<forall>k\<in>set [''url'', ''text'', ''content_title'']. k \<notin> fst ` set a1)
        \<and> ok res2 \<and> body res2 = Inr (VObj a2)
        \<and> (\<exists>r. lookup a2 ''misinformation_risk'' = VStr r)
        \<and> (\<forall>k\<in>set [''url'', ''text'', ''content_title'']. k \<notin> fst ` set a2) \<longrightarrow>
        (\<exists>w1 w2 d1 d2 row.
           postTextToBackend rt sid n1 u1 key tp1 (Inr res1) gf1 False w = Inr w1
         \<and> postTextToBackend rt sid n2 u2 key tp2 (Inr res2) gf2 False w1 = Inr w2
         \<and> db w1 = Some d1 \<and> db w2 = Some d2
         \<and> filter (\<lambda>r. entity_id r = VStr (text_entity_id rt tp1)) (entities d2) = [row]
         \<and> length (entities d2) = length (entities d1)
         \<and> extracted_text row = VStr (tp_text tp2)))"
proof (intro impI conjI)
  assume len: "\<forall>s. length (sha256_hex rt s) = 64"
  show "length (image_entity_id rt url) = 16"
    using len by (simp add: image_entity_id_def digest16_length)
  show "length (text_entity_id rt tp1) = 16"
    using len by (simp add: text_entity_id_def digest16_length)
  show "text_entity_id rt tp1 = text_entity_id rt tp2"
    if "tp_url tp1 = tp_url tp2 \<and> tp_title tp1 = tp_title tp2"
    using that by (simp add: text_entity_id_def)
  note ik = digest16_key [OF len, of "''image-'' @ url", folded image_entity_id_def]
  show "\<exists>w1 w2 d1 d2 row.
           postImageUrlToBackend rt sid n1 u1 url (Inr res1) False w = Inr w1
         \<and> postImageUrlToBackend rt sid n2 u2 url (Inr res2) False w1 = Inr w2
         \<and> db w1 = Some d1 \<and> db w2 = Some d2
         \<and> filter (\<lambda>r. entity_id r = VStr (image_entity_id rt url)) (entities d2) = [row]
         \<and> length (entities d2) = length (entities d1)
         \<and> analysis_json row = json_roundtrip (VObj
              [(''fake_probability'', lookup a2 ''fake_probability''),
               (''trust_score'', lookup a2 ''trust_score''),
               (''forensic_explanation'',
                  nullish_or (lookup a2 ''forensic_explanation'') (VArr []))])"
    if h: "isValidHttpUrl rt url \<and> db w = Some d \<and> \<not> failing d
        \<and> ok res1 \<and> body res1 = Inr (VObj a1) \<and> (\<exists>r. lookup a1 ''risk_level'' = VStr r)
        \<and> ok res2 \<and> body res2 = Inr (VObj a2) \<and> (\<exists>r. lookup a2 ''risk_level'' = VStr r)"
  proof -
    from h image_run_db [of rt url res1 a1 w d sid n1 u1]
    obtain w1 d1 row1 where 1:
      "postImageUrlToBackend rt sid n1 u1 url (Inr res1) False w = Inr w1"
      "db w1 = Some d1" "\<not> failing d1"
      "entities d1 = filter (\<lambda>old. entity_id old \<noteq> VStr (image_entity_id rt url))
                        (entities d) @ [row1]"
      "entity_id row1 = VStr (image_entity_id rt url)"
      unfolding ik by blast
    from h 1 image_run_db [of rt url res2 a2 w1 d1 sid n2 u2]
    obtain w2 d2 row2 where 2:
      "postImageUrlToBackend rt sid n2 u2 url (Inr res2) False w1 = Inr w2"
      "db w2 = Some d2"
      "entities d2 = filter (\<lambda>old. entity_id old \<noteq> VStr (image_entity_id rt url))
                        (entities d1) @ [row2]"
      "entity_id row2 = VStr (image_entity_id rt url)"
      "analysis_json row2 = json_roundtrip (VObj
              [(''fake_probability'', lookup a2 ''fake_probability''),
               (''trust_score'', lookup a2 ''trust_score''),
               (''forensic_explanation'',
                  nullish_or (lookup a2 ''forensic_explanation'') (VArr []))])"
      unfolding ik by blast
    from upsert_twice [OF 1(4) 1(5) 2(3) 2(4)] 1 2 show ?thesis
      by blast
  qed
  note tk = digest16_key [OF len, of "''text-'' @ tp_url tp1 @ ''-'' @ tp_title tp1",
      folded text_entity_id_def]
  show "\<exists>w1 w2 d1 d2 row.
           postTextToBackend rt sid n1 u1 key tp1 (Inr res1) gf1 False w = Inr w1
         \<and> postTextToBackend rt sid n2 u2 key tp2 (Inr res2) gf2 False w1 = Inr w2
         \<and> db w1 = Some d1 \<and> db w2 = Some d2
         \<and> filter (\<lambda>r. entity_id r = VStr (text_entity_id rt tp1)) (entities d2) = [row]
         \<and> length (entities d2) = length (entities d1)
         \<and> extracted_text row = VStr (tp_text tp2)"
    if h: "tp_url tp1 = tp_url tp2 \<and> tp_title tp1 = tp_title tp2
        \<and> isValidHttpUrl rt (tp_url tp1) \<and> db w = Some d \<and> \<not> failing d
        \<and> ok res1 \<and> body res1 = Inr (VObj a1)
        \<and> (\<exists>r. lookup a1 ''misinformation_risk'' = VStr r)
        \<and> (\<forall>k\<in>set [''url'', ''text'', ''content_title'']. k \<notin> fst ` set a1)
        \<and> ok res2 \<and> body res2 = Inr (VObj a2)
        \<and> (\<exists>r. lookup a2 ''misinformation_risk'' = VStr r)
        \<and> (\<forall>k\<in>set [''url'', ''text'', ''content_title'']. k \<notin> fst ` set a2)"
  proof -
    have same: "text_entity_id rt tp2 = text_entity_id rt tp1"
      using h by (simp add: text_entity_id_def)
    obtain g1 where g1: "callGeminiAnalysis rt key gf1 = Inr g1"
      using callGemini_total by blast
    obtain g2 where g2: "callGeminiAnalysis rt key gf2 = Inr g2"
      using callGemini_total by blast
    from h g1 text_run_db [of rt tp1 res1 a1 key gf1 g1 w d sid n1 u1]
    obtain w1 d1 row1 where 1:
      "postTextToBackend rt sid n1 u1 key tp1 (Inr res1) gf1 False w = Inr w1"
      "db w1 = Some d1" "\<not> failing d1"
      "entities d1 = filter (\<lambda>old. entity_id old \<noteq> VStr (text_entity_id rt tp1))
                        (entities d) @ [row1]"
      "entity_id row1 = VStr (text_entity_id rt tp1)"
      unfolding tk by blast
    from h have "tp_url tp2 = tp_url tp1" and "isValidHttpUrl rt (tp_url tp1)"
      by auto
    then have v2: "isValidHttpUrl rt (tp_url tp2)"
      by (simp only:)
    from h g2 1 v2 text_run_db [of rt tp2 res2 a2 key gf2 g2 w1 d1 sid n2 u2]
    obtain w2 d2 row2 where 2:
      "postTextToBackend rt sid n2 u2 key tp2 (Inr res2) gf2 False w1 = Inr w2"
      "db w2 = Some d2"
      "entities d2 = filter (\<lambda>old. entity_id old \<noteq> VStr (text_entity_id rt tp1))
                        (entities d1) @ [row2]"
      "entity_id row2 = VStr (text_entity_id rt tp1)"
      "extracted_text row2 = VStr (tp_text tp2)"
      unfolding same tk by blast
    from upsert_twice [OF 1(4) 1(5) 2(3) 2(4)] 1 2 show ?thesis
      by blast
  qed
qed

lemma example_digest_length: "\<forall>s. length (sha256_hex example_runtime s) = 64"
  by (auto simp: example_runtime_def)

theorem entity_identity_idempotent_witness:
  "length (text_entity_id example_runtime example_payload) = 16
   \<and> text_entity_id example_runtime example_payload
       = text_entity_id example_runtime (example_payload\<lparr>tp_text := ''other'', tp_word_count := 7\<rparr>)
   \<and> (\<exists>w1 w2 d1 d2 row.
         postImageUrlToBackend example_runtime ''s1'' 1700000000123 ''u1''
           ''https://a.example/p.png''
           (Inr (ok_response (primary_image_analysis 0.3 ''LOW'' [] 100 ''s1''))) False
           example_world = Inr w1
       \<and> postImageUrlToBackend example_runtime ''s1'' 1700000060000 ''u2''
           ''https://a.example/p.png''
           (Inr (ok_response (primary_image_analysis 0.8 ''HIGH'' [] 70 ''s1''))) False w1 = Inr w2
       \<and> db w1 = Some d1 \<and> db w2 = Some d2
       \<and> filter (\<lambda>r. entity_id r
            = VStr (image_entity_id example_runtime ''https://a.example/p.png'')) (entities d2)
          = [row]
       \<and> length (entities d2) = length (entities d1))"
proof -
  note t = entity_identity_idempotent [of example_runtime "''https://a.example/p.png''"
      example_payload "example_payload\<lparr>tp_text := ''other'', tp_word_count := 7\<rparr>"
      example_world empty_database
      "ok_response (primary_image_analysis 0.3 ''LOW'' [] 100 ''s1'')"
      "own_props (primary_image_analysis 0.3 ''LOW'' [] 100 ''s1'')"
      "ok_response (primary_image_analysis 0.8 ''HIGH'' [] 70 ''s1'')"
      "own_props (primary_image_analysis 0.8 ''HIGH'' [] 70 ''s1'')"
      "''s1''" 1700000000123 "''u1''" 1700000060000 "''u2''", THEN mp,
      OF example_digest_length]
  have h: "isValidHttpUrl example_runtime ''https://a.example/p.png''
        \<and> db example_world = Some empty_database \<and> \<not> failing empty_database
        \<and> ok (ok_response (primary_image_analysis 0.3 ''LOW'' [] 100 ''s1''))
        \<and> body (ok_response (primary_image_analysis 0.3 ''LOW'' [] 100 ''s1''))
            = Inr (VObj (own_props (primary_image_analysis 0.3 ''LOW'' [] 100 ''s1'')))
        \<and> (\<exists>r. lookup (own_props (primary_image_analysis 0.3 ''LOW'' [] 100 ''s1''))
                ''risk_level'' = VStr r)
        \<and> ok (ok_response (primary_image_analysis 0.8 ''HIGH'' [] 70 ''s1''))
        \<and> body (ok_response (primary_image_analysis 0.8 ''HIGH'' [] 70 ''s1''))
            = Inr (VObj (own_props (primary_image_analysis 0.8 ''HIGH'' [] 70 ''s1'')))
        \<and> (\<exists>r. lookup (own_props (primary_image_analysis 0.8 ''HIGH'' [] 70 ''s1''))
                ''risk_level'' = VStr r)"
    by (simp add: isValidHttpUrl_def example_runtime_def example_world_def empty_database_def
        ok_response_def primary_image_analysis_def lookup_def)
  have e: "tp_url example_payload
            = tp_url (example_payload\<lparr>tp_text := ''other'', tp_word_count := 7\<rparr>)
        \<and> tp_title example_payload
            = tp_title (example_payload\<lparr>tp_text := ''other'', tp_word_count := 7\<rparr>)"
    by simp
  from t have 1: "length (text_entity_id example_runtime example_payload) = 16"
    by blast
  from t e have 2: "text_entity_id example_runtime example_payload
       = text_entity_id example_runtime (example_payload\<lparr>tp_text := ''other'', tp_word_count := 7\<rparr>)"
    by blast
  from t [THEN conjunct2, THEN conjunct2, THEN conjunct2, THEN conjunct1, THEN mp, OF h]
  have 3: "\<exists>w1 w2 d1 d2 row.
         postImageUrlToBackend example_runtime ''s1'' 1700000000123 ''u1''
           ''https://a.example/p.png''
           (Inr (ok_response (primary_image_analysis 0.3 ''LOW'' [] 100 ''s1''))) False
           example_world = Inr w1
       \<and> postImageUrlToBackend example_runtime ''s1'' 1700000060000 ''u2''
           ''https://a.example/p.png''
           (Inr (ok_response (primary_image_analysis 0.8 ''HIGH'' [] 70 ''s1''))) False w1 = Inr w2
       \<and> db w1 = Some d1 \<and> db w2 = Some d2
       \<and> filter (\<lambda>r. entity_id r
            = VStr (image_entity_id example_runtime ''https://a.example/p.png'')) (entities d2)
          = [row]
       \<and> length (entities d2) = length (entities d1)"
    by blast
  from 1 2 3 show ?thesis by blast
qed

section \<open>Manual text submissions\<close>

lemma digit_inj: "digit a = digit b \<Longrightarrow> a mod 10 = b mod 10"
proof -
  assume "digit a = digit b"
  then have "''0123456789'' ! (a mod 10) = ''0123456789'' ! (b mod 10)"
    by (simp add: digit_def)
  moreover have "distinct ''0123456789''" by simp
  moreover have "a mod 10 < length ''0123456789''" "b mod 10 < length ''0123456789''"
    by simp_all
  ultimately show ?thesis
    using nth_eq_iff_index_eq by blast
qed

lemma dec_length: "length (dec n) = Suc 0 \<longleftrightarrow> n < 10"
proof (induction n rule: dec.induct)
  case (1 n)
  show ?case
  proof (cases "n < 10")
    case True
    then show ?thesis by (subst dec.simps) simp
  next
    case False
    have "dec (n div 10) \<noteq> []"
      by (subst dec.simps) simp
    with False show ?thesis by (subst dec.simps) simp
  qed
qed

lemma dec_inj: "dec n = dec m \<Longrightarrow> n = m"
proof (induction n arbitrary: m rule: dec.induct)
  case (1 n)
  show ?case
  proof (cases "n < 10")
    case True
    with "1.prems" have "length (dec m) = Suc 0"
      using dec_length [of n] by simp
    then have m: "m < 10" by (simp add: dec_length)
    from "1.prems" True m have "digit n = digit m"
      by (simp add: dec.simps [of n] dec.simps [of m])
    then show ?thesis using True m digit_inj [of n m] by simp
  next
    case False
    with "1.prems" have "length (dec m) \<noteq> Suc 0"
      using dec_length [of n] by simp
    then have m: "\<not> m < 10" by (simp add: dec_length)
    from "1.prems" False m have "dec (n div 10) @ [digit n] = dec (m div 10) @ [digit m]"
      by (simp add: dec.simps [of n] dec.simps [of m])
    then have a: "dec (n div 10) = dec (m div 10)" and b: "digit n = digit m"
      by simp_all
    from "1.IH" [OF False a] have "n div 10 = m div 10" .
    moreover from b have "n mod 10 = m mod 10" by (rule digit_inj)
    ultimately show ?thesis
      by (metis div_mult_mod_eq)
  qed
qed

lemma dec_no_minus: "hd (dec n) \<noteq> CHR ''-''"
proof (induction n rule: dec.induct)
  case (1 n)
  show ?case
  proof (cases "n < 10")
    case True
    have "digit n \<in> set ''0123456789''"
      unfolding digit_def by (rule nth_mem) simp
    then have "digit n \<noteq> CHR ''-''" by auto
    with True show ?thesis by (subst dec.simps) simp
  next
    case False
    have "dec (n div 10) \<noteq> []"
      by (subst dec.simps) simp
    with False "1.IH" show ?thesis by (subst dec.simps) simp
  qed
qed

lemma show_int_inj: "show_int i = show_int j \<Longrightarrow> i = j"
proof -
  assume e: "show_int i = show_int j"
  have ne: "\<And>n. dec n \<noteq> []" by (subst dec.simps) simp
  show ?thesis
  proof (cases "i < 0")
    case True
    show ?thesis
    proof (cases "j < 0")
      case j: True
      with True e have "dec (nat (- i)) = dec (nat (- j))" by (simp add: show_int_def)
      then have "nat (- i) = nat (- j)" by (rule dec_inj)
      with True j show ?thesis by simp
    next
      case j: False
      with True e have "CHR ''-'' # dec (nat (- i)) = dec (nat j)" by (simp add: show_int_def)
      then have "hd (dec (nat j)) = CHR ''-''" by (metis list.sel(1))
      with dec_no_minus show ?thesis by blast
    qed
  next
    case False
    show ?thesis
    proof (cases "j < 0")
      case j: True
      with False e have "dec (nat i) = CHR ''-'' # dec (nat (- j))" by (simp add: show_int_def)
      then have "hd (dec (nat i)) = CHR ''-''" by simp
      with dec_no_minus show ?thesis by blast
    next
      case j: False
      with False e have "dec (nat i) = dec (nat j)" by (simp add: show_int_def)
      then have "nat i = nat j" by (rule dec_inj)
      with False j show ?thesis by simp
    qed
  qed
qed

lemma manual_text_key_time: "t1 \<noteq> t2 \<Longrightarrow> manual_text_key t1 text \<noteq> manual_text_key t2 text"
  using show_int_inj [of t1 t2] by (auto simp: manual_text_key_def)

lemma manual_entity_lookup:
  "lookup (manual_text_entity eid rtitle analysis gemini now) k =
     (if k \<in> fst ` set (gemini_overrides gemini) then lookup (gemini_overrides gemini) k
      else if k \<in> fst ` set (own_props analysis) then lookup (own_props analysis) k
      else lookup [(''entity_id'', VStr eid), (''entity_type'', VStr ''TEXT''),
                   (''content_title'', VStr rtitle), (''url'', VStr ''manual://input''),
                   (''detected_at'', VNum (real_of_int now))] k)"
proof -
  have "manual_text_entity eid rtitle analysis gemini now =
     ([(''entity_id'', VStr eid), (''entity_type'', VStr ''TEXT''),
       (''content_title'', VStr rtitle), (''url'', VStr ''manual://input''),
       (''detected_at'', VNum (real_of_int now))] @ own_props analysis) @ gemini_overrides gemini"
    by (simp add: manual_text_entity_def)
  then show ?thesis
    by (simp only: lookup_append)
qed

lemma manual_params_write:
  assumes nf: "\<not> failing d"
    and risk: "\<exists>r. lookup entity ''misinformation_risk'' = VStr r"
    and at: "lookup entity ''detected_at'' = VNum (real_of_int now)"
    and bound: "\<bar>now\<bar> \<le> 8640000000000000"
  shows "\<exists>row. entity_written dv now (manual_text_params eid rtitle text entity) d =
            d\<lparr>entities := filter (\<lambda>old. entity_id old \<noteq> or_else (VStr eid) (VStr ''unknown''))
                              (entities d) @ [row]\<rparr>
          \<and> entity_id row = or_else (VStr eid) (VStr ''unknown'')
          \<and> source_url row = VStr ''manual://input''
          \<and> extracted_text row = VStr text
          \<and> analysis_json row = json_roundtrip (VObj entity)"
proof -
  let ?p = "manual_text_params eid rtitle text entity"
  have l: "lookup ?p ''detected_at'' = VNum (real_of_int now)"
    "lookup ?p ''entity_type'' = VStr ''TEXT''"
    "lookup ?p ''risk_level'' = lookup entity ''misinformation_risk''"
    "lookup ?p ''misinformation_risk'' = VUndef" "lookup ?p ''entity_id'' = VStr eid"
    "lookup ?p ''source_url'' = VStr ''manual://input''" "lookup ?p ''title'' = VStr rtitle"
    "lookup ?p ''content_title'' = VUndef" "lookup ?p ''text'' = VStr text"
    "lookup ?p ''url'' = VUndef" "lookup ?p ''image_url'' = VUndef"
    "lookup ?p ''analysis'' = VObj entity"
    by (simp_all add: manual_text_params_def lookup_def [of "_ # _"] at)
  have b: "\<bar>real_of_int now\<bar> \<le> 8640000000000000"
    using bound by linarith
  obtain ds where ds: "detectedIso (date_value dv) now ?p = Inr ds"
    using b by (cases "now = 0") (simp_all add: detectedIso_def l time_value_def)
  have et: "toUpperCase (or_else (lookup ?p ''entity_type'') (VStr ''UNKNOWN'')) = Inr ''TEXT''"
    by (simp add: l or_else_def toUpperCase_TEXT)
  obtain rk where rk: "toUpperCase (or_else (or_else (lookup ?p ''risk_level'')
        (lookup ?p ''misinformation_risk'')) (VStr ''LOW'')) = Inr rk"
    using risk toUpperCase_risk [of "lookup entity ''misinformation_risk''"] by (auto simp: l)
  let ?row = "entity_params ?p ''TEXT'' rk ds"
  have f: "entity_id ?row = or_else (VStr eid) (VStr ''unknown'')"
    "source_url ?row = VStr ''manual://input''"
    "title ?row = VStr rtitle" "extracted_text ?row = VStr text" "entity_type ?row = ''TEXT''"
    "analysis_json ?row = json_roundtrip (VObj entity)"
    by (auto simp: entity_params_def l or_else_def simp del: json_roundtrip.simps)
  have "entity_write dv now ?p d =
           Inr (d\<lparr>entities :=
                  filter (\<lambda>old. entity_id old \<noteq> entity_id ?row) (entities d) @ [?row]\<rparr>)"
    by (rule entity_write_text [OF nf ds et _ rk])
       (simp_all add: f entity_types_def or_else_def)
  then show ?thesis
    using f by (intro exI [of _ ?row]) (simp add: entity_written_def del: json_roundtrip.simps)
qed

lemma manual_run_db:
  assumes r: "ok res" "body res = Inr (VObj a)"
    and g: "callGeminiAnalysis rt key gf = Inr gemini"
    and d: "db w = Some d" "\<not> failing d"
    and risk: "\<exists>r. lookup a ''misinformation_risk'' = VStr r"
    and at: "''detected_at'' \<notin> fst ` set a"
    and bound: "\<bar>now\<bar> \<le> 8640000000000000"
  shows "\<exists>w' reply d' row.
           analyze_manual_text rt now uuid key text ttl (Inr res) gf w = (w', reply)
           \<and> lookup reply ''success'' = VBool True
           \<and> db w' = Some d' \<and> \<not> failing d'
           \<and> entities d' = filter (\<lambda>old. entity_id old \<noteq>
                   or_else (VStr (digest16 rt (manual_text_key now text))) (VStr ''unknown''))
                 (entities d) @ [row]
           \<and> entity_id row
               = or_else (VStr (digest16 rt (manual_text_key now text))) (VStr ''unknown'')
           \<and> extracted_text row = VStr text"
proof -
  let ?eid = "digest16 rt (manual_text_key now text)"
  let ?rt = "if ttl = [] then ''Manual Text Input'' else ttl"
  let ?ent = "manual_text_entity ?eid ?rt (VObj a) gemini now"
  have m: "\<exists>r. lookup ?ent ''misinformation_risk'' = VStr r"
  proof (cases gemini)
    case None
    have "''misinformation_risk'' \<in> fst ` set a"
    proof (rule ccontr)
      assume "''misinformation_risk'' \<notin> fst ` set a"
      then have "lookup a ''misinformation_risk'' = VUndef"
        by (rule lookup_notin)
      with risk show False by simp
    qed
    with risk None show ?thesis
      by (simp add: manual_entity_lookup keys_overrides_None)
  next
    case (Some gr)
    then show ?thesis
      by (simp add: manual_entity_lookup keys_overrides_Some overrides_Some_values)
  qed
  have t: "lookup ?ent ''detected_at'' = VNum (real_of_int now)"
    using at by (cases gemini)
      (simp_all add: manual_entity_lookup keys_overrides_None keys_overrides_Some
        lookup_def [of "_ # _"])
  from manual_params_write [OF d(2) m t bound, of rt "?eid" "?rt" "text"]
  obtain row where row: "entity_written rt now
        (manual_text_params ?eid ?rt text ?ent) d =
            d\<lparr>entities := filter (\<lambda>old. entity_id old \<noteq> or_else (VStr ?eid) (VStr ''unknown''))
                              (entities d) @ [row]\<rparr>"
      "entity_id row = or_else (VStr ?eid) (VStr ''unknown'')"
      "extracted_text row = VStr text"
    by blast
  let ?d' = "audit_written now uuid (VStr ''MANUAL_ANALYSIS'') (VStr ?eid) (VStr '''')
                 (VObj [(''type'', VStr ''TEXT''), (''source'', VStr ''manual_text'')])
               (trust_written now (VStr ?eid)
                  (nullish_or (lookup ?ent ''trust_score'') (VNum 0))
                  (nullish_or (lookup ?ent ''trust_score_delta'') (VNum 0))
               (entity_written rt now (manual_text_params ?eid ?rt text ?ent) d))"
  let ?w' = "w\<lparr>ENTITY_CACHE := (ENTITY_CACHE w)(VStr ?eid \<mapsto> ?ent), db := Some ?d'\<rparr>"
  let ?reply = "[(''success'', VBool True), (''entity'', VObj ?ent)]"
  have 1: "analyze_manual_text rt now uuid key text ttl (Inr res) gf w = (?w', ?reply)"
    by (simp add: analyze_manual_text_def r g d Let_def insertEntity_eq insertTrustHistory_eq
        insertAuditLog_eq with_db_Inr)
  have 2: "\<not> failing ?d'"
    by (simp add: failing_after_writes d)
  have 3: "entities ?d' = filter (\<lambda>old. entity_id old \<noteq> or_else (VStr ?eid) (VStr ''unknown''))
                               (entities d) @ [row]"
    by (simp add: row(1))
  have 4: "lookup ?reply ''success'' = VBool True"
    by (simp add: lookup_def)
  show ?thesis
    apply (rule exI [of _ ?w'])
    apply (rule exI [of _ ?reply])
    apply (rule exI [of _ ?d'])
    apply (rule exI [of _ row])
    using 1 2 3 4 row(2-) by simp
qed

lemma insert_two_keys:
  assumes "xs1 = filter (\<lambda>old. entity_id old \<noteq> k1) xs @ [r1]" and "entity_id r1 = k1"
    and "xs2 = filter (\<lambda>old. entity_id old \<noteq> k2) xs1 @ [r2]" and "entity_id r2 = k2"
    and "k1 \<noteq> k2"
  shows "filter (\<lambda>r. entity_id r = k1) xs2 = [r1] \<and> filter (\<lambda>r. entity_id r = k2) xs2 = [r2]"
proof -
  have a: "filter (\<lambda>r. entity_id r = k1) (filter (\<lambda>old. entity_id old \<noteq> k2)
              (filter (\<lambda>old. entity_id old \<noteq> k1) xs)) = []"
    by (auto simp: filter_empty_conv)
  have b: "filter (\<lambda>r. entity_id r = k2) (filter (\<lambda>old. entity_id old \<noteq> k2) xs1) = []"
    by (simp add: filter_empty_conv)
  show ?thesis
    using assms a b by simp
qed

lemma dec_digits: "CHR ''-'' \<notin> set (dec n)"
proof (induction n rule: dec.induct)
  case (1 n)
  have "digit n \<in> set ''0123456789''"
    unfolding digit_def by (rule nth_mem) simp
  then have d: "digit n \<noteq> CHR ''-''" by auto
  show ?case
  proof (cases "n < 10")
    case True
    with d show ?thesis by (subst dec.simps) simp
  next
    case False
    with d "1.IH" show ?thesis by (subst dec.simps) simp
  qed
qed

lemma dec_length_le: "n < 10 ^ Suc k \<Longrightarrow> length (dec n) \<le> Suc k"
proof (induction k arbitrary: n)
  case 0
  then show ?case by (subst dec.simps) simp
next
  case (Suc k)
  show ?case
  proof (cases "n < 10")
    case True
    then show ?thesis by (subst dec.simps) simp
  next
    case False
    from Suc.prems have "n div 10 < 10 ^ Suc k"
      by (simp add: less_mult_imp_div_less mult.commute)
    from Suc.IH [OF this] False show ?thesis
      by (subst dec.simps) simp
  qed
qed

lemma take_separator:
  assumes "c \<notin> set a" and "c \<notin> set b" and "length a \<le> n" and "length b \<le> n"
    and "take n (a @ c # x) = take n (b @ c # y)"
  shows "a = b"
  using assms
proof (induction a arbitrary: b n)
  case Nil
  show ?case
  proof (cases b)
    case Nil
    then show ?thesis by simp
  next
    case (Cons e b')
    with Nil.prems obtain m where "n = Suc m"
      by (cases n) auto
    with Nil.prems Cons show ?thesis by auto
  qed
next
  case (Cons e a')
  from Cons.prems obtain m where n: "n = Suc m"
    by (cases n) auto
  show ?case
  proof (cases b)
    case Nil
    with Cons.prems n show ?thesis by auto
  next
    case b: (Cons e' b')
    with Cons.prems n have "e = e'" and "take m (a' @ c # x) = take m (b' @ c # y)"
      by auto
    moreover from Cons.prems b n have "c \<notin> set a'" "c \<notin> set b'" "length a' \<le> m"
      "length b' \<le> m"
      by auto
    ultimately show ?thesis
      using Cons.IH [of b' m] b by simp
  qed
qed

lemma example_digest16: "digest16 example_runtime s = take 16 (rev s @ replicate 64 CHR ''0'')"
  by (simp add: digest16_def example_runtime_def)

lemma example_manual_digest:
  "digest16 example_runtime (manual_text_key t ''hi'')
     = ''ih-'' @ take 13 (rev (show_int t) @ CHR ''-'' # (''launam-txet'' @ replicate 64 CHR ''0''))"
proof -
  have r: "rev (manual_text_key t ''hi'') = ''ih-'' @ rev (show_int t) @ ''-launam-txet''"
    by (simp add: manual_text_key_def)
  have "take 16 (''ih-'' @ x) = ''ih-'' @ take 13 x" for x :: string
    by simp
  then have "take 16 ((''ih-'' @ rev (show_int t) @ ''-launam-txet'') @ replicate 64 CHR ''0'')
      = ''ih-'' @ take 13 (rev (show_int t) @ CHR ''-'' # (''launam-txet'' @ replicate 64 CHR ''0''))"
    by (simp only: append_assoc append_Cons append_Nil)
  then show ?thesis
    by (simp only: example_digest16 r)
qed

lemma example_manual_inj:
  "inj_on (digest16 example_runtime)
     ((\<lambda>t. manual_text_key t ''hi'') ` {t. 0 \<le> t \<and> t < 10000000000000})"
proof (rule inj_onI)
  fix k1 k2
  assume k1: "k1 \<in> (\<lambda>t. manual_text_key t ''hi'') ` {t. 0 \<le> t \<and> t < 10000000000000}"
    and k2: "k2 \<in> (\<lambda>t. manual_text_key t ''hi'') ` {t. 0 \<le> t \<and> t < 10000000000000}"
    and e: "digest16 example_runtime k1 = digest16 example_runtime k2"
  from k1 obtain t1 where t1: "k1 = manual_text_key t1 ''hi''" "0 \<le> t1" "t1 < 10000000000000"
    by auto
  from k2 obtain t2 where t2: "k2 = manual_text_key t2 ''hi''" "0 \<le> t2" "t2 < 10000000000000"
    by auto
  define x where "x = ''launam-txet'' @ replicate 64 CHR ''0''"
  have len: "length (rev (dec (nat t))) \<le> 13" if "0 \<le> t" "t < 10000000000000" for t
  proof -
    from that have "nat t < 10000000000000" by simp
    also have "(10000000000000 :: nat) = 10 ^ Suc 12" by simp
    finally have "length (dec (nat t)) \<le> Suc 12" by (rule dec_length_le)
    then show ?thesis by simp
  qed
  have dg: "digest16 example_runtime (manual_text_key t ''hi'')
      = ''ih-'' @ take 13 (rev (dec (nat t)) @ CHR ''-'' # x)" if "0 \<le> t" for t
  proof -
    from that have "show_int t = dec (nat t)"
      by (simp add: show_int_def)
    then show ?thesis
      by (simp only: example_manual_digest x_def)
  qed
  from e have "''ih-'' @ take 13 (rev (dec (nat t1)) @ CHR ''-'' # x)
      = ''ih-'' @ take 13 (rev (dec (nat t2)) @ CHR ''-'' # x)"
    by (simp only: t1(1) t2(1) dg [OF t1(2)] dg [OF t2(2)])
  then have tk: "take 13 (rev (dec (nat t1)) @ CHR ''-'' # x)
      = take 13 (rev (dec (nat t2)) @ CHR ''-'' # x)"
    by (simp only: same_append_eq)
  have m: "CHR ''-'' \<notin> set (rev (dec n))" for n
    using dec_digits [of n] by simp
  from take_separator [OF m m len [OF t1(2,3)] len [OF t2(2,3)] tk]
  have "dec (nat t1) = dec (nat t2)"
    by simp
  then have "nat t1 = nat t2"
    by (rule dec_inj)
  with t1(2) t2(2) have "t1 = t2" by linarith
  with t1(1) t2(1) show "k1 = k2" by simp
qed



section \<open>Rebuilding the cache\<close>

lemma text_affinity_text:
  "truthy v \<Longrightarrow> bindable v \<Longrightarrow> \<exists>s. text_affinity rtext v = VStr s"
  by (cases v) (simp_all add: bindable_def)

lemma entity_written_cases:
  "entity_written rt n p d = d
   \<or> (\<not> failing d \<and> (\<exists>row s. entity_written rt n p d =
         d\<lparr>entities := filter (\<lambda>old. entity_id old \<noteq> VStr s) (entities d) @ [row]\<rparr>
       \<and> entity_id row = VStr s
       \<and> text_affinity (real_text rt) (or_else (lookup p ''entity_id'') (VStr ''unknown''))
           = VStr s))"
proof (cases "entity_write rt n p d")
  case (Inl e)
  then show ?thesis by (simp add: entity_written_def)
next
  case (Inr d')
  let ?k = "or_else (lookup p ''entity_id'') (VStr ''unknown'')"
  from entity_write_Inr [OF Inr] obtain et rk ds where w:
    "\<not> failing d" "bindable ?k"
    "d' = d\<lparr>entities :=
               filter (\<lambda>old. entity_id old \<noteq> text_affinity (real_text rt) ?k)
                      (entities d) @ [stored_entity (real_text rt) (entity_params p et rk ds)]\<rparr>"
    by blast
  have "truthy ?k"
    by (auto simp: or_else_def)
  from text_affinity_text [OF this w(2)] obtain s where s: "text_affinity (real_text rt) ?k = VStr s"
    by blast
  let ?row = "stored_entity (real_text rt) (entity_params p et rk ds)"
  have i: "entity_id ?row = VStr s"
    by (simp add: entity_params_def s)
  have e: "entity_written rt n p d =
         d\<lparr>entities := filter (\<lambda>old. entity_id old \<noteq> VStr s) (entities d) @ [?row]\<rparr>"
    unfolding entity_written_def Inr w(3) s by simp
  have "\<exists>row s. entity_written rt n p d =
         d\<lparr>entities := filter (\<lambda>old. entity_id old \<noteq> VStr s) (entities d) @ [row]\<rparr>
       \<and> entity_id row = VStr s
       \<and> text_affinity (real_text rt) (or_else (lookup p ''entity_id'') (VStr ''unknown''))
           = VStr s"
    apply (rule exI [of _ ?row])
    apply (rule exI [of _ s])
    apply (intro conjI)
      apply (rule e)
     apply (rule i)
    apply (rule s)
    done
  with w(1) show ?thesis
    by (intro disjI2 conjI)
qed

lemma entity_written_failing: "failing (entity_written rt n p d) = failing d"
  using entity_written_cases [of rt n p d] by auto

lemma entity_written_distinct:
  assumes "distinct (map entity_id (entities d))"
  shows "distinct (map entity_id (entities (entity_written rt n p d)))"
proof -
  have "distinct (map entity_id (filter (\<lambda>old. entity_id old \<noteq> k) (entities d)) @ [k])" for k
    using assms by (auto simp: distinct_map_filter)
  then show ?thesis
    using entity_written_cases [of rt n p d] assms by auto
qed

lemma entity_written_text_keys:
  assumes "\<forall>r\<in>set (entities d). \<exists>s. entity_id r = VStr s"
  shows "\<forall>r\<in>set (entities (entity_written rt n p d)). \<exists>s. entity_id r = VStr s"
  using entity_written_cases [of rt n p d] assms by auto

lemma entity_written_keeps:
  assumes "row \<in> set (entities d)"
    and "text_affinity (real_text rt) (or_else (lookup p ''entity_id'') (VStr ''unknown''))
           \<noteq> entity_id row"
  shows "row \<in> set (entities (entity_written rt n p d))"
  using entity_written_cases [of rt n p d] assms by auto

lemma store_entities_Some:
  "\<exists>d'. store_entities rt nps (Some d) = Some d' \<and> failing d' = failing d
        \<and> (distinct (map entity_id (entities d)) \<longrightarrow> distinct (map entity_id (entities d')))
        \<and> ((\<forall>r\<in>set (entities d). \<exists>s. entity_id r = VStr s)
             \<longrightarrow> (\<forall>r\<in>set (entities d'). \<exists>s. entity_id r = VStr s))"
proof (induction nps arbitrary: d)
  case Nil
  show ?case by simp
next
  case (Cons np nps)
  from Cons [of "entity_written rt (fst np) (snd np) d"]
  obtain d' where d':
    "store_entities rt nps (Some (entity_written rt (fst np) (snd np) d)) = Some d'"
    "failing d' = failing (entity_written rt (fst np) (snd np) d)"
    "distinct (map entity_id (entities (entity_written rt (fst np) (snd np) d)))
       \<longrightarrow> distinct (map entity_id (entities d'))"
    "(\<forall>r\<in>set (entities (entity_written rt (fst np) (snd np) d)). \<exists>s. entity_id r = VStr s)
       \<longrightarrow> (\<forall>r\<in>set (entities d'). \<exists>s. entity_id r = VStr s)"
    by blast
  have "store_entities rt (np # nps) (Some d) = Some d'"
    by (simp add: insertEntity_eq d'(1))
  moreover have "failing d' = failing d"
    by (simp add: d'(2) entity_written_failing)
  moreover have "distinct (map entity_id (entities d')) "
    if "distinct (map entity_id (entities d))"
    using d'(3) entity_written_distinct [OF that] by blast
  moreover have "\<forall>r\<in>set (entities d'). \<exists>s. entity_id r = VStr s"
    if "\<forall>r\<in>set (entities d). \<exists>s. entity_id r = VStr s"
    using d'(4) entity_written_text_keys [OF that] by blast
  ultimately show ?case
    by blast
qed

lemma store_entities_keeps:
  assumes "row \<in> set (entities d)"
    and "\<forall>np\<in>set nps. text_affinity (real_text rt)
             (or_else (lookup (snd np) ''entity_id'') (VStr ''unknown'')) \<noteq> entity_id row"
    and "store_entities rt nps (Some d) = Some d'"
  shows "row \<in> set (entities d')"
  using assms
proof (induction nps arbitrary: d)
  case Nil
  then show ?case by simp
next
  case (Cons np nps)
  from Cons.prems have "row \<in> set (entities (entity_written rt (fst np) (snd np) d))"
    by (simp add: entity_written_keeps)
  moreover from Cons.prems have
    "store_entities rt nps (Some (entity_written rt (fst np) (snd np) d)) = Some d'"
    by (simp add: insertEntity_eq)
  ultimately show ?case
    using Cons.IH Cons.prems(2) by simp
qed

lemma store_entities_append:
  "store_entities rt (xs @ ys) dbh = store_entities rt ys (store_entities rt xs dbh)"
  by (induction xs arbitrary: dbh) (simp_all add: insertEntity_eq)

lemma fold_restore_row:
  "fold restore_row rows c k =
     (case c k of
        Some e \<Rightarrow> Some e
      | None \<Rightarrow> if truthy k
                then map_option restored_entity (find (\<lambda>r. entity_id r = k) rows) else None)"
proof (induction rows arbitrary: c)
  case Nil
  show ?case by (simp split: option.splits)
next
  case (Cons r rows)
  have "fold restore_row (r # rows) c k = fold restore_row rows (restore_row r c) k"
    by simp
  also have "\<dots> = (case restore_row r c k of
        Some e \<Rightarrow> Some e
      | None \<Rightarrow> if truthy k
                then map_option restored_entity (find (\<lambda>r. entity_id r = k) rows) else None)"
    by (rule Cons)
  also have "\<dots> = (case c k of
        Some e \<Rightarrow> Some e
      | None \<Rightarrow> if truthy k
                then map_option restored_entity (find (\<lambda>r. entity_id r = k) (r # rows))
                else None)"
    by (auto simp: restore_row_def split: option.splits)
  finally show ?case .
qed

lemma find_unique:
  assumes "distinct (map f xs)" and "set ys \<subseteq> set xs" and "x \<in> set xs"
    and "find (\<lambda>r. f r = f x) ys = Some y"
  shows "y = x"
proof -
  from assms(4) have "y \<in> set ys" and "f y = f x"
    by (auto simp: find_Some_iff)
  moreover from assms(1) have "inj_on f (set xs)"
    by (simp add: distinct_map)
  ultimately show ?thesis
    using assms(2,3) by (auto dest: inj_onD)
qed

lemma find_member:
  assumes "distinct (map f xs)" and "x \<in> set xs"
  shows "find (\<lambda>r. f r = f x) xs = Some x"
proof (cases "find (\<lambda>r. f r = f x) xs")
  case None
  with assms(2) show ?thesis by (auto simp: find_None_iff)
next
  case (Some y)
  with find_unique [OF assms(1) _ assms(2), of xs y] show ?thesis by simp
qed

lemma startup_query:
  "\<not> failing d \<Longrightarrow>
     fst (queryEntities VUndef VUndef (Some 2000) (Some d))
       = take 2000 (order_by_detected_desc (entities d))"
  by (simp add: queryEntities_def upper_or_null_def select_entities_def)

lemma restart_cache:
  assumes "db w = Some d" "\<not> failing d"
  shows "ENTITY_CACHE (restart w) k =
           (if truthy k
            then map_option restored_entity
                   (find (\<lambda>r. entity_id r = k) (take 2000 (order_by_detected_desc (entities d))))
            else None)"
    and "db (restart w) = Some d"
  using assms by (simp_all add: restart_def startup_restore_def startup_query fold_restore_row)

lemma find_SomeD: "find P xs = Some y \<Longrightarrow> y \<in> set xs \<and> P y"
  by (induction xs) (auto split: if_splits)

lemma restart_lookup:
  assumes d: "db w = Some d" "\<not> failing d" "distinct (map entity_id (entities d))"
      "\<forall>r\<in>set (entities d). \<exists>s. entity_id r = VStr s"
    and row: "row \<in> set (entities d)"
    and key: "truthy k" "bindable k" "text_affinity (real_text rt) k = entity_id row"
  shows "\<exists>w'. entity_details rt t u k (restart w) = Inr (w', Some (restored_entity row))"
proof (cases "find (\<lambda>r. entity_id r = k) (take 2000 (order_by_detected_desc (entities d)))")
  case None
  then have c: "ENTITY_CACHE (restart w) k = None"
    using key(1) by (simp add: restart_cache(1) [OF d(1,2)])
  have g: "getEntity rt k (db (restart w)) = Some row"
    using key d(2) find_member [OF d(3) row]
    by (simp add: restart_cache(2) [OF d(1,2)] getEntity_def)
  show ?thesis
    using key(1) by (simp add: entity_details_def c g insertAuditLog_eq Let_def)
next
  case (Some y)
  have sub: "set (take 2000 (order_by_detected_desc (entities d))) \<subseteq> set (entities d)"
    using set_take_subset [of 2000 "order_by_detected_desc (entities d)"]
    by (simp add: order_by_detected_desc_def)
  from find_SomeD [OF Some] have y: "y \<in> set (take 2000 (order_by_detected_desc (entities d)))"
      "entity_id y = k"
    by simp_all
  with sub d(4) obtain s where "k = VStr s"
    by auto
  with key(3) have k: "k = entity_id row"
    by simp
  from find_unique [OF d(3) sub row] Some have "y = row"
    unfolding k by blast
  with Some have c: "ENTITY_CACHE (restart w) k = Some (restored_entity row)"
    using key(1) by (simp add: restart_cache(1) [OF d(1,2)])
  show ?thesis
    using key(1) by (simp add: entity_details_def c insertAuditLog_eq)
qed

lemma restored_entity_lookup:
  "lookup (restored_entity row) k =
     (if k \<in> fst ` set (own_props (analysis_json row))
      then lookup (own_props (analysis_json row)) k
      else lookup
        [(''entity_id'', entity_id row),
         (''entity_type'', VStr (entity_type row)),
         (''source_url'', source_url row),
         (''image_url'', if map upper_char (entity_type row) = ''IMAGE'' then source_url row
                         else VUndef),
         (''title'', title row),
         (''content_title'', title row),
         (''url'', source_url row),
         (''text'', extracted_text row),
         (''risk_level'', VStr (risk_level row)),
         (''detected_at'', VStr (detected_at row)),
         (''_from_db'', VBool True)] k)"
  by (simp only: restored_entity_def lookup_append)

lemma restored_columns:
  assumes "k \<notin> fst ` set (own_props (analysis_json row))"
  shows "k = ''entity_id'' \<Longrightarrow> lookup (restored_entity row) k = entity_id row"
    and "k = ''entity_type'' \<Longrightarrow> lookup (restored_entity row) k = VStr (entity_type row)"
    and "k = ''source_url'' \<Longrightarrow> lookup (restored_entity row) k = source_url row"
    and "k = ''title'' \<Longrightarrow> lookup (restored_entity row) k = title row"
    and "k = ''text'' \<Longrightarrow> lookup (restored_entity row) k = extracted_text row"
    and "k = ''risk_level'' \<Longrightarrow> lookup (restored_entity row) k = VStr (risk_level row)"
    and "k = ''detected_at'' \<Longrightarrow> lookup (restored_entity row) k = VStr (detected_at row)"
  using assms by (simp_all add: restored_entity_lookup lookup_def [of "_ # _"])

lemma stored_entity_restored:
  assumes d: "db w = Some d" "\<not> failing d" "distinct (map entity_id (entities d))"
      "\<forall>r\<in>set (entities d). \<exists>s. entity_id r = VStr s"
    and ds: "detectedIso (date_value rt) n p = Inr ds"
    and et: "toUpperCase (or_else (lookup p ''entity_type'') (VStr ''UNKNOWN'')) = Inr et"
      "et \<in> set entity_types"
    and rk: "toUpperCase (or_else (or_else (lookup p ''risk_level'')
                (lookup p ''misinformation_risk'')) (VStr ''LOW'')) = Inr rk"
    and b: "list_all bindable
              [entity_id (entity_params p et rk ds), source_url (entity_params p et rk ds),
               title (entity_params p et rk ds), extracted_text (entity_params p et rk ds)]"
    and later: "\<forall>np\<in>set after. text_affinity (real_text rt)
                   (or_else (lookup (snd np) ''entity_id'') (VStr ''unknown''))
                 \<noteq> entity_id (stored_entity (real_text rt) (entity_params p et rk ds))"
  shows "\<exists>w'. entity_details rt t u (or_else (lookup p ''entity_id'') (VStr ''unknown''))
                (restart (w\<lparr>db := store_entities rt (before @ (n, p) # after) (db w)\<rparr>))
              = Inr (w', Some (restored_entity
                                 (stored_entity (real_text rt) (entity_params p et rk ds))))"
proof -
  let ?k = "or_else (lookup p ''entity_id'') (VStr ''unknown'')"
  let ?row = "stored_entity (real_text rt) (entity_params p et rk ds)"
  obtain d1 where d1: "store_entities rt before (Some d) = Some d1" "failing d1 = failing d"
      "distinct (map entity_id (entities d1))"
      "\<forall>r\<in>set (entities d1). \<exists>s. entity_id r = VStr s"
    using store_entities_Some [of rt before d] d(3,4) by blast
  have nf1: "\<not> failing d1"
    using d1(2) d(2) by simp
  from b have b4: "bindable (entity_id (entity_params p et rk ds))"
    "bindable (source_url (entity_params p et rk ds))"
    "bindable (title (entity_params p et rk ds))"
    "bindable (extracted_text (entity_params p et rk ds))"
    by simp_all
  have w: "entity_write rt n p d1 =
             Inr (d1\<lparr>entities := filter (\<lambda>old. entity_id old \<noteq> entity_id ?row) (entities d1)
                                   @ [?row]\<rparr>)"
    by (rule entity_write_ok [OF nf1 ds et rk b4])
  let ?d2 = "entity_written rt n p d1"
  have in2: "?row \<in> set (entities ?d2)"
    by (simp add: entity_written_def w)
  have nf2: "\<not> failing ?d2"
    using nf1 by (simp add: entity_written_failing)
  have di2: "distinct (map entity_id (entities ?d2))"
    using d1(3) by (rule entity_written_distinct)
  have tk2: "\<forall>r\<in>set (entities ?d2). \<exists>s. entity_id r = VStr s"
    using d1(4) by (rule entity_written_text_keys)
  obtain d3 where d3: "store_entities rt after (Some ?d2) = Some d3" "failing d3 = failing ?d2"
      "distinct (map entity_id (entities d3))"
      "\<forall>r\<in>set (entities d3). \<exists>s. entity_id r = VStr s"
    using store_entities_Some [of rt after ?d2] di2 tk2 by blast
  have in3: "?row \<in> set (entities d3)"
    by (rule store_entities_keeps [OF in2 later d3(1)])
  have all: "store_entities rt (before @ (n, p) # after) (db w) = Some d3"
    by (simp add: store_entities_append d(1) d1(1) insertEntity_eq d3(1))
  have tr: "truthy ?k"
    by (auto simp: or_else_def)
  have ki: "entity_id (entity_params p et rk ds) = ?k"
    by (simp add: entity_params_def)
  have bi: "bindable ?k"
    using b4(1) unfolding ki .
  have ke: "text_affinity (real_text rt) ?k = entity_id ?row"
    by (simp add: ki)
  have nf3: "\<not> failing d3"
    using d3(2) nf2 by simp
  have "db (w\<lparr>db := Some d3\<rparr>) = Some d3"
    by simp
  from restart_lookup [OF this nf3 d3(3) d3(4) in3 tr bi ke, of t u] show ?thesis
    by (simp only: all)
qed

lemma civil_example: "civil_from_days 19675 = (2023, 11, 14)"
proof -
  have a: "(19675 + 719468 :: int) div 146097 = 5" "(19675 + 719468 :: int) mod 146097 = 8658"
    "((8658::int) - 8658 div 1460 + 8658 div 36524 - 8658 div 146096) div 365 = 23"
    "(8658::int) - (365 * 23 + 23 div 4 - 23 div 100) = 258"
    "(5 * (258::int) + 2) div 153 = 8"
    "(258::int) - (153 * 8 + 2) div 5 + 1 = 14"
    by simp_all
  show ?thesis
    unfolding civil_from_days_def Let_def
    apply (simp only: a(1,2))
    apply (simp only: a(3))
    apply (simp only: a(4))
    apply (simp only: a(5))
    apply (simp only: a(6))
    apply simp
    done
qed

lemma digits_example:
  "pad2 11 = ''11''" "pad2 14 = ''14''" "pad2 22 = ''22''" "pad2 13 = ''13''" "pad2 20 = ''20''"
  "pad4 2023 = ''2023''" "pad3 123 = ''123''"
  by (simp_all add: pad2_def pad3_def pad4_def digit_def)

lemma toISOString_example: "toISOString 1700000000123 = ''2023-11-14T22:13:20.123Z''"
proof -
  have a: "nat ((1700000000123::int) mod 1000) = 123" "(1700000000123::int) div 1000 = 1700000000"
    "nat ((1700000000::int) mod 86400) = 80000" "(1700000000::int) div 86400 = 19675"
    "(80000::nat) div 3600 = 22" "(80000::nat) mod 3600 div 60 = 13" "(80000::nat) mod 60 = 20"
    by simp_all
  show ?thesis
    unfolding toISOString_def Let_def
    apply (simp only: a(1,2))
    apply (simp only: a(3,4) civil_example)
    apply (simp add: digits_example)
    done
qed

lemma iso19_example: "iso19 1700000000123 = ''2023-11-14 22:13:20''"
  by (simp add: iso19_def toISOString_example)

lemma example_real_text:
  "real_text example_runtime 42 = ''42.0''" "real_text example_runtime 7 = ''7.0''"
  by (simp_all add: example_runtime_def show_int_def dec.simps digit_def)

lemma example_stored_lookups:
  "lookup example_stored ''entity_id'' = VStr ''e1''"
  "lookup example_stored ''entity_type'' = VStr ''IMAGE''"
  "lookup example_stored ''source_url'' = VStr ''https://a.example/p.png''"
  "lookup example_stored ''url'' = VUndef" "lookup example_stored ''image_url'' = VUndef"
  "lookup example_stored ''title'' = VUndef" "lookup example_stored ''content_title'' = VUndef"
  "lookup example_stored ''text'' = VUndef"
  "lookup example_stored ''risk_level'' = VStr ''LOW''"
  "lookup example_stored ''misinformation_risk'' = VUndef"
  "lookup example_stored ''analysis''
     = VObj [(''fake_probability'', VNum 0.3), (''trust_score'', VNum 70)]"
  "lookup example_stored ''detected_at'' = VNum 1700000000123"
  by (simp_all add: example_stored_def lookup_def)

lemma example_stored_row:
  "detectedIso (date_value example_runtime) 1700000000500 example_stored
     = Inr ''2023-11-14 22:13:20''"
  "toUpperCase (or_else (lookup example_stored ''entity_type'') (VStr ''UNKNOWN'')) = Inr ''IMAGE''"
  "toUpperCase (or_else (or_else (lookup example_stored ''risk_level'')
       (lookup example_stored ''misinformation_risk'')) (VStr ''LOW'')) = Inr ''LOW''"
  "entity_params example_stored ''IMAGE'' ''LOW'' ''2023-11-14 22:13:20'' =
     \<lparr>entity_id = VStr ''e1'', entity_type = ''IMAGE'',
      source_url = VStr ''https://a.example/p.png'', title = VStr '''',
      extracted_text = VStr '''', risk_level = ''LOW'',
      analysis_json = VObj [(''fake_probability'', VNum 0.3), (''trust_score'', VNum 70)],
      detected_at = ''2023-11-14 22:13:20''\<rparr>"
proof -
  show "detectedIso (date_value example_runtime) 1700000000500 example_stored
     = Inr ''2023-11-14 22:13:20''"
    by (simp add: detectedIso_def example_stored_lookups time_value_def iso19_example)
  show "toUpperCase (or_else (lookup example_stored ''entity_type'') (VStr ''UNKNOWN''))
     = Inr ''IMAGE''"
    by (simp add: example_stored_lookups or_else_def toUpperCase_IMAGE)
  show "toUpperCase (or_else (or_else (lookup example_stored ''risk_level'')
       (lookup example_stored ''misinformation_risk'')) (VStr ''LOW'')) = Inr ''LOW''"
    by (simp add: example_stored_lookups or_else_def toUpperCase_def upper_char_def
        lower_letters_def upper_letters_def)
  show "entity_params example_stored ''IMAGE'' ''LOW'' ''2023-11-14 22:13:20'' =
     \<lparr>entity_id = VStr ''e1'', entity_type = ''IMAGE'',
      source_url = VStr ''https://a.example/p.png'', title = VStr '''',
      extracted_text = VStr '''', risk_level = ''LOW'',
      analysis_json = VObj [(''fake_probability'', VNum 0.3), (''trust_score'', VNum 70)],
      detected_at = ''2023-11-14 22:13:20''\<rparr>"
    by (simp add: entity_params_def example_stored_lookups or_else_def canonical_def
        lookup_def [of "_ # _"])
qed

lemma example_numeric_lookups:
  "lookup example_numeric ''entity_id'' = VNum 42"
  "lookup example_numeric ''entity_type'' = VStr ''TEXT''"
  "lookup example_numeric ''source_url'' = VUndef"
  "lookup example_numeric ''url'' = VUndef" "lookup example_numeric ''image_url'' = VUndef"
  "lookup example_numeric ''title'' = VNum 7" "lookup example_numeric ''content_title'' = VUndef"
  "lookup example_numeric ''text'' = VUndef"
  "lookup example_numeric ''risk_level'' = VUndef"
  "lookup example_numeric ''misinformation_risk'' = VUndef"
  "lookup example_numeric ''analysis'' = VObj [(''trust_score'', VNum 70)]"
  "lookup example_numeric ''detected_at'' = VUndef"
  by (simp_all add: example_numeric_def lookup_def)

lemma example_numeric_row:
  "detectedIso (date_value example_runtime) 1700000000123 example_numeric
     = Inr ''2023-11-14 22:13:20''"
  "toUpperCase (or_else (lookup example_numeric ''entity_type'') (VStr ''UNKNOWN'')) = Inr ''TEXT''"
  "toUpperCase (or_else (or_else (lookup example_numeric ''risk_level'')
       (lookup example_numeric ''misinformation_risk'')) (VStr ''LOW'')) = Inr ''LOW''"
  "entity_params example_numeric ''TEXT'' ''LOW'' ''2023-11-14 22:13:20'' =
     \<lparr>entity_id = VNum 42, entity_type = ''TEXT'',
      source_url = VStr '''', title = VNum 7,
      extracted_text = VStr '''', risk_level = ''LOW'',
      analysis_json = VObj [(''trust_score'', VNum 70)],
      detected_at = ''2023-11-14 22:13:20''\<rparr>"
proof -
  show "detectedIso (date_value example_runtime) 1700000000123 example_numeric
     = Inr ''2023-11-14 22:13:20''"
    by (simp add: detectedIso_def example_numeric_lookups nowIso_def iso19_example)
  show "toUpperCase (or_else (lookup example_numeric ''entity_type'') (VStr ''UNKNOWN''))
     = Inr ''TEXT''"
    by (simp add: example_numeric_lookups or_else_def toUpperCase_TEXT)
  show "toUpperCase (or_else (or_else (lookup example_numeric ''risk_level'')
       (lookup example_numeric ''misinformation_risk'')) (VStr ''LOW'')) = Inr ''LOW''"
    by (simp add: example_numeric_lookups or_else_def toUpperCase_def upper_char_def
        lower_letters_def upper_letters_def)
  show "entity_params example_numeric ''TEXT'' ''LOW'' ''2023-11-14 22:13:20'' =
     \<lparr>entity_id = VNum 42, entity_type = ''TEXT'',
      source_url = VStr '''', title = VNum 7,
      extracted_text = VStr '''', risk_level = ''LOW'',
      analysis_json = VObj [(''trust_score'', VNum 70)],
      detected_at = ''2023-11-14 22:13:20''\<rparr>"
    by (simp add: entity_params_def example_numeric_lookups or_else_def canonical_def
        lookup_def [of "_ # _"])
qed

lemma example_numeric_stored:
  "stored_entity (real_text example_runtime)
      (entity_params example_numeric ''TEXT'' ''LOW'' ''2023-11-14 22:13:20'') =
     \<lparr>entity_id = VStr ''42.0'', entity_type = ''TEXT'',
      source_url = VStr '''', title = VStr ''7.0'',
      extracted_text = VStr '''', risk_level = ''LOW'',
      analysis_json = VObj [(''trust_score'', VNum 70)],
      detected_at = ''2023-11-14 22:13:20''\<rparr>"
  by (simp add: example_numeric_row(4) stored_entity_def example_real_text)

lemma example_stored_stored:
  "stored_entity (real_text example_runtime)
      (entity_params example_stored ''IMAGE'' ''LOW'' ''2023-11-14 22:13:20'') =
     entity_params example_stored ''IMAGE'' ''LOW'' ''2023-11-14 22:13:20''"
  by (simp add: example_stored_row(4) stored_entity_def)

lemma bindable_text_affinity [simp]: "bindable (text_affinity rtext v) = bindable v"
  by (cases v) (simp_all add: bindable_def text_affinity_def)




end
